theory Spec2Isabelle
  imports Main "HOL-Library.Word"
begin

unbundle bit_operations_syntax

section \<open>Machine integers\<close>

text \<open>
  The adapter is built for 32-bit \<open>long\<close> (Windows, and the legacy Mac target): both
  \<open>long\<close> and \<open>unsigned long\<close> are 32-bit words.  A cast between the two keeps the
  bits, so one word type serves for both; \<open>\<le>\<close> and \<open><\<close> on words compare unsigned,
  \<open>\<le>s\<close> and \<open><s\<close> compare signed, \<open>div\<close> and \<open>mod\<close> are the unsigned operations that
  C uses once an operand is \<open>unsigned long\<close>.
\<close>

type_synonym long = "32 word"
type_synonym ulong = "32 word"

section \<open>Host buffer size negotiation\<close>

text \<open>
  \<open>PaAsioDriverInfo\<close>.  The channel counts and the post-output flag carry the prefix
  \<open>driver\<close> because the stream structure has fields of the same names.
\<close>

record PaAsioDriverInfo =
  driverInputChannelCount :: long
  driverOutputChannelCount :: long
  bufferMinSize :: long
  bufferMaxSize :: long
  bufferPreferredSize :: long
  bufferGranularity :: long
  driverPostOutput :: bool

definition NextPowerOfTwo :: "ulong \<Rightarrow> ulong" where
  "NextPowerOfTwo x0 =
     (let x = x0 - 1;
          x = x OR drop_bit 1 x;
          x = x OR drop_bit 2 x;
          x = x OR drop_bit 4 x;
          x = x OR drop_bit 8 x;
          x = x OR drop_bit 16 x
      in x + 1)"

text \<open>The two clamping statements that end the power-of-two and the granularity branch.\<close>

definition clampToDriverRange :: "ulong \<Rightarrow> PaAsioDriverInfo \<Rightarrow> ulong" where
  "clampToDriverRange result driverInfo =
     (let result = (if result < bufferMinSize driverInfo then bufferMinSize driverInfo else result)
      in if result > bufferMaxSize driverInfo then bufferMaxSize driverInfo else result)"

definition SelectHostBufferSizeForUnspecifiedUserFramesPerBuffer ::
  "ulong \<Rightarrow> PaAsioDriverInfo \<Rightarrow> ulong" where
  "SelectHostBufferSizeForUnspecifiedUserFramesPerBuffer targetBufferingLatencyFrames driverInfo =
     (if targetBufferingLatencyFrames \<le> bufferMinSize driverInfo then bufferMinSize driverInfo
      else if targetBufferingLatencyFrames \<ge> bufferMaxSize driverInfo then bufferMaxSize driverInfo
      else if bufferGranularity driverInfo = 0 then bufferPreferredSize driverInfo
      else if bufferGranularity driverInfo = - 1 then
        clampToDriverRange (NextPowerOfTwo targetBufferingLatencyFrames) driverInfo
      else
        (let n = (targetBufferingLatencyFrames + bufferGranularity driverInfo - 1)
                   div bufferGranularity driverInfo
         in clampToDriverRange (n * bufferGranularity driverInfo) driverInfo))"

text \<open>
  The search loops of the constrained negotiator are \<open>do { ... } while (x <= max)\<close> loops
  on \<open>unsigned long\<close>.  With \<open>x = 0\<close> in the power-of-two loop, or with a step that wraps
  around, they need not end, so they are partial functions: \<open>None\<close> is a search that
  never returns.  \<open>searchHostBufferSize next\<close> is the loop with its step (\<open>x *= 2\<close> or
  \<open>x += granularity\<close>) passed in; \<open>result\<close> is the loop-carried variable.
\<close>

partial_function (option) searchHostBufferSize ::
  "(ulong \<Rightarrow> ulong) \<Rightarrow> ulong \<Rightarrow> ulong \<Rightarrow> ulong \<Rightarrow> ulong \<Rightarrow> ulong \<Rightarrow> ulong option" where
  "searchHostBufferSize next targetBufferingLatencyFrames userFramesPerBuffer maxSize x result =
     (if x mod userFramesPerBuffer = 0 \<and> x \<ge> targetBufferingLatencyFrames then Some x
      else
        (let result = (if x mod userFramesPerBuffer = 0 then x else result);
             x = next x
         in if x \<le> maxSize
            then searchHostBufferSize next targetBufferingLatencyFrames userFramesPerBuffer
                   maxSize x result
            else Some result))"

definition SelectHostBufferSizeForSpecifiedUserFramesPerBuffer ::
  "ulong \<Rightarrow> ulong \<Rightarrow> PaAsioDriverInfo \<Rightarrow> ulong option" where
  "SelectHostBufferSizeForSpecifiedUserFramesPerBuffer targetBufferingLatencyFrames
       userFramesPerBuffer driverInfo =
     (if bufferGranularity driverInfo = 0 then
        Some (if bufferPreferredSize driverInfo mod userFramesPerBuffer = 0
              then bufferPreferredSize driverInfo else 0)
      else if bufferGranularity driverInfo = - 1 then
        searchHostBufferSize (\<lambda>x. x * 2) targetBufferingLatencyFrames userFramesPerBuffer
          (bufferMaxSize driverInfo) (bufferMinSize driverInfo) 0
      else
        searchHostBufferSize (\<lambda>x. x + bufferGranularity driverInfo) targetBufferingLatencyFrames
          userFramesPerBuffer (bufferMaxSize driverInfo) (bufferMinSize driverInfo) 0)"

text \<open>
  \<open>SelectHostBufferSize\<close>, the entry point that \<open>OpenStream\<close> calls: both arguments are
  cast to \<open>void\<close> and the driver's preferred size is returned.
\<close>

definition SelectHostBufferSize :: "ulong \<Rightarrow> ulong \<Rightarrow> PaAsioDriverInfo \<Rightarrow> ulong" where
  "SelectHostBufferSize targetBufferingLatencyFrames userFramesPerBuffer driverInfo =
     bufferPreferredSize driverInfo"

text \<open>
  The host buffer size that \<open>OpenStream\<close> requests from the driver: the blocking
  interface calls \<open>SelectHostBufferSize\<close> with target 0, the callback interface computes
  the target latency (the larger of the two suggested latencies) and then assigns the
  preferred size directly.
\<close>

definition OpenStream_framesPerHostBuffer ::
  "bool \<Rightarrow> ulong \<Rightarrow> ulong \<Rightarrow> ulong \<Rightarrow> PaAsioDriverInfo \<Rightarrow> ulong" where
  "OpenStream_framesPerHostBuffer usingBlockingIo framesPerBuffer suggestedInputLatencyFrames
       suggestedOutputLatencyFrames driverInfo =
     (if usingBlockingIo then SelectHostBufferSize 0 framesPerBuffer driverInfo
      else
        (let targetBufferingLatencyFrames =
               (if suggestedInputLatencyFrames > suggestedOutputLatencyFrames
                then suggestedInputLatencyFrames else suggestedOutputLatencyFrames)
         in bufferPreferredSize driverInfo))"

section \<open>Sample format conversion\<close>

text \<open>
  The converters are selected at compile time by \<open>PA_LSB_IS_NATIVE_\<close> and
  \<open>PA_MSB_IS_NATIVE_\<close>: \<open>WINDOWS\<close> defines the first, \<open>MAC\<close> the second.
\<close>

datatype platform = WINDOWS | MAC

definition PA_LSB_IS_NATIVE :: "platform \<Rightarrow> bool" where
  "PA_LSB_IS_NATIVE p = (p = WINDOWS)"

definition PA_MSB_IS_NATIVE :: "platform \<Rightarrow> bool" where
  "PA_MSB_IS_NATIVE p = (p = MAC)"

text \<open>
  The sample type tags of the driver interface that the adapter names; every other tag
  (the \<open>default\<close> branches) is \<open>ASIOSTOther\<close>.
\<close>

datatype ASIOSampleType =
    ASIOSTInt16MSB | ASIOSTInt24MSB | ASIOSTInt32MSB | ASIOSTFloat32MSB | ASIOSTFloat64MSB
  | ASIOSTInt32MSB16 | ASIOSTInt32MSB18 | ASIOSTInt32MSB20 | ASIOSTInt32MSB24
  | ASIOSTInt16LSB | ASIOSTInt24LSB | ASIOSTInt32LSB | ASIOSTFloat32LSB | ASIOSTFloat64LSB
  | ASIOSTInt32LSB16 | ASIOSTInt32LSB18 | ASIOSTInt32LSB20 | ASIOSTInt32LSB24
  | ASIOSTOther

datatype PaSampleFormat = paInt16 | paInt24 | paInt32 | paFloat32 | paCustomFormat

fun AsioSampleTypeToPaNativeSampleFormat :: "ASIOSampleType \<Rightarrow> PaSampleFormat" where
  "AsioSampleTypeToPaNativeSampleFormat ASIOSTInt16MSB = paInt16"
| "AsioSampleTypeToPaNativeSampleFormat ASIOSTInt16LSB = paInt16"
| "AsioSampleTypeToPaNativeSampleFormat ASIOSTFloat32MSB = paFloat32"
| "AsioSampleTypeToPaNativeSampleFormat ASIOSTFloat32LSB = paFloat32"
| "AsioSampleTypeToPaNativeSampleFormat ASIOSTFloat64MSB = paFloat32"
| "AsioSampleTypeToPaNativeSampleFormat ASIOSTFloat64LSB = paFloat32"
| "AsioSampleTypeToPaNativeSampleFormat ASIOSTInt32MSB = paInt32"
| "AsioSampleTypeToPaNativeSampleFormat ASIOSTInt32LSB = paInt32"
| "AsioSampleTypeToPaNativeSampleFormat ASIOSTInt32MSB16 = paInt32"
| "AsioSampleTypeToPaNativeSampleFormat ASIOSTInt32LSB16 = paInt32"
| "AsioSampleTypeToPaNativeSampleFormat ASIOSTInt32MSB18 = paInt32"
| "AsioSampleTypeToPaNativeSampleFormat ASIOSTInt32MSB20 = paInt32"
| "AsioSampleTypeToPaNativeSampleFormat ASIOSTInt32MSB24 = paInt32"
| "AsioSampleTypeToPaNativeSampleFormat ASIOSTInt32LSB18 = paInt32"
| "AsioSampleTypeToPaNativeSampleFormat ASIOSTInt32LSB20 = paInt32"
| "AsioSampleTypeToPaNativeSampleFormat ASIOSTInt32LSB24 = paInt32"
| "AsioSampleTypeToPaNativeSampleFormat ASIOSTInt24MSB = paInt24"
| "AsioSampleTypeToPaNativeSampleFormat ASIOSTInt24LSB = paInt24"
| "AsioSampleTypeToPaNativeSampleFormat ASIOSTOther = paCustomFormat"

fun BytesPerAsioSample :: "ASIOSampleType \<Rightarrow> nat" where
  "BytesPerAsioSample ASIOSTInt16MSB = 2"
| "BytesPerAsioSample ASIOSTInt16LSB = 2"
| "BytesPerAsioSample ASIOSTFloat64MSB = 8"
| "BytesPerAsioSample ASIOSTFloat64LSB = 8"
| "BytesPerAsioSample ASIOSTFloat32MSB = 4"
| "BytesPerAsioSample ASIOSTFloat32LSB = 4"
| "BytesPerAsioSample ASIOSTInt32MSB = 4"
| "BytesPerAsioSample ASIOSTInt32LSB = 4"
| "BytesPerAsioSample ASIOSTInt32MSB16 = 4"
| "BytesPerAsioSample ASIOSTInt32LSB16 = 4"
| "BytesPerAsioSample ASIOSTInt32MSB18 = 4"
| "BytesPerAsioSample ASIOSTInt32MSB20 = 4"
| "BytesPerAsioSample ASIOSTInt32MSB24 = 4"
| "BytesPerAsioSample ASIOSTInt32LSB18 = 4"
| "BytesPerAsioSample ASIOSTInt32LSB20 = 4"
| "BytesPerAsioSample ASIOSTInt32LSB24 = 4"
| "BytesPerAsioSample ASIOSTInt24MSB = 3"
| "BytesPerAsioSample ASIOSTInt24LSB = 3"
| "BytesPerAsioSample ASIOSTOther = 0"

text \<open>
  The converters work in place on \<open>count\<close> samples: \<open>Swap16\<close> through an
  \<open>unsigned short\<close> pointer, \<open>Swap24\<close> through an \<open>unsigned char\<close> pointer (three bytes
  a sample), the others through an \<open>unsigned long\<close> pointer.  A buffer is the list of
  the units its pointer walks over; \<open>while (count--)\<close> is recursion on \<open>count\<close>, and
  what lies behind the first \<open>count\<close> samples stays as it is.  Shifts are logical:
  the operands are unsigned.
\<close>

fun Swap16 :: "16 word list \<Rightarrow> long \<Rightarrow> nat \<Rightarrow> 16 word list" where
  "Swap16 (temp # p) shift (Suc count) =
     (push_bit 8 temp OR drop_bit 8 temp) # Swap16 p shift count"
| "Swap16 p shift count = p"

fun Swap24 :: "8 word list \<Rightarrow> long \<Rightarrow> nat \<Rightarrow> 8 word list" where
  "Swap24 (p0 # p1 # p2 # p) shift (Suc count) = p2 # p1 # p0 # Swap24 p shift count"
| "Swap24 p shift count = p"

definition PA_SWAP32 :: "ulong \<Rightarrow> ulong" where
  "PA_SWAP32 x =
     drop_bit 24 x OR (drop_bit 8 x AND 0xFF00) OR (push_bit 8 x AND 0xFF0000) OR push_bit 24 x"

fun Swap32 :: "ulong list \<Rightarrow> long \<Rightarrow> nat \<Rightarrow> ulong list" where
  "Swap32 (temp # p) shift (Suc count) = PA_SWAP32 temp # Swap32 p shift count"
| "Swap32 p shift count = p"

fun SwapShiftLeft32 :: "ulong list \<Rightarrow> long \<Rightarrow> nat \<Rightarrow> ulong list" where
  "SwapShiftLeft32 (temp # p) shift (Suc count) =
     push_bit (unat shift) (PA_SWAP32 temp) # SwapShiftLeft32 p shift count"
| "SwapShiftLeft32 p shift count = p"

fun ShiftRightSwap32 :: "ulong list \<Rightarrow> long \<Rightarrow> nat \<Rightarrow> ulong list" where
  "ShiftRightSwap32 (temp # p) shift (Suc count) =
     PA_SWAP32 (drop_bit (unat shift) temp) # ShiftRightSwap32 p shift count"
| "ShiftRightSwap32 p shift count = p"

fun ShiftLeft32 :: "ulong list \<Rightarrow> long \<Rightarrow> nat \<Rightarrow> ulong list" where
  "ShiftLeft32 (temp # p) shift (Suc count) =
     push_bit (unat shift) temp # ShiftLeft32 p shift count"
| "ShiftLeft32 p shift count = p"

fun ShiftRight32 :: "ulong list \<Rightarrow> long \<Rightarrow> nat \<Rightarrow> ulong list" where
  "ShiftRight32 (temp # p) shift (Suc count) =
     drop_bit (unat shift) temp # ShiftRight32 p shift count"
| "ShiftRight32 p shift count = p"

text \<open>
  \<open>PaAsioBufferConverter *\<close>: the value of a converter pointer is the name of the
  function it points to.  The four converters between 64-bit and 32-bit floating point
  are named, since the selection functions return them; their arithmetic is IEEE
  rounding and has no definition here.
\<close>

datatype PaAsioBufferConverter =
    Swap16_ptr | Swap24_ptr | Swap32_ptr
  | SwapShiftLeft32_ptr | ShiftRightSwap32_ptr | ShiftLeft32_ptr | ShiftRight32_ptr
  | Swap64ConvertFloat64ToFloat32_ptr | ConvertFloat64ToFloat32_ptr
  | ConvertFloat32ToFloat64Swap64_ptr | ConvertFloat32ToFloat64_ptr

fun SelectAsioToPaConverter ::
  "platform \<Rightarrow> ASIOSampleType \<Rightarrow> PaAsioBufferConverter option \<times> long" where
  "SelectAsioToPaConverter p ASIOSTInt16MSB =
     (if PA_LSB_IS_NATIVE p then Some Swap16_ptr else None, 0)"
| "SelectAsioToPaConverter p ASIOSTInt16LSB =
     (if PA_MSB_IS_NATIVE p then Some Swap16_ptr else None, 0)"
| "SelectAsioToPaConverter p ASIOSTFloat32MSB =
     (if PA_LSB_IS_NATIVE p then Some Swap32_ptr else None, 0)"
| "SelectAsioToPaConverter p ASIOSTFloat32LSB =
     (if PA_MSB_IS_NATIVE p then Some Swap32_ptr else None, 0)"
| "SelectAsioToPaConverter p ASIOSTFloat64MSB =
     (if PA_LSB_IS_NATIVE p then Some Swap64ConvertFloat64ToFloat32_ptr
      else Some ConvertFloat64ToFloat32_ptr, 0)"
| "SelectAsioToPaConverter p ASIOSTFloat64LSB =
     (if PA_MSB_IS_NATIVE p then Some Swap64ConvertFloat64ToFloat32_ptr
      else Some ConvertFloat64ToFloat32_ptr, 0)"
| "SelectAsioToPaConverter p ASIOSTInt32MSB =
     (if PA_LSB_IS_NATIVE p then Some Swap32_ptr else None, 0)"
| "SelectAsioToPaConverter p ASIOSTInt32LSB =
     (if PA_MSB_IS_NATIVE p then Some Swap32_ptr else None, 0)"
| "SelectAsioToPaConverter p ASIOSTInt32MSB16 =
     (if PA_LSB_IS_NATIVE p then Some SwapShiftLeft32_ptr else Some ShiftLeft32_ptr, 16)"
| "SelectAsioToPaConverter p ASIOSTInt32MSB18 =
     (if PA_LSB_IS_NATIVE p then Some SwapShiftLeft32_ptr else Some ShiftLeft32_ptr, 14)"
| "SelectAsioToPaConverter p ASIOSTInt32MSB20 =
     (if PA_LSB_IS_NATIVE p then Some SwapShiftLeft32_ptr else Some ShiftLeft32_ptr, 12)"
| "SelectAsioToPaConverter p ASIOSTInt32MSB24 =
     (if PA_LSB_IS_NATIVE p then Some SwapShiftLeft32_ptr else Some ShiftLeft32_ptr, 8)"
| "SelectAsioToPaConverter p ASIOSTInt32LSB16 =
     (if PA_MSB_IS_NATIVE p then Some SwapShiftLeft32_ptr else Some ShiftLeft32_ptr, 16)"
| "SelectAsioToPaConverter p ASIOSTInt32LSB18 =
     (if PA_MSB_IS_NATIVE p then Some SwapShiftLeft32_ptr else Some ShiftLeft32_ptr, 14)"
| "SelectAsioToPaConverter p ASIOSTInt32LSB20 =
     (if PA_MSB_IS_NATIVE p then Some SwapShiftLeft32_ptr else Some ShiftLeft32_ptr, 12)"
| "SelectAsioToPaConverter p ASIOSTInt32LSB24 =
     (if PA_MSB_IS_NATIVE p then Some SwapShiftLeft32_ptr else Some ShiftLeft32_ptr, 8)"
| "SelectAsioToPaConverter p ASIOSTInt24MSB =
     (if PA_LSB_IS_NATIVE p then Some Swap24_ptr else None, 0)"
| "SelectAsioToPaConverter p ASIOSTInt24LSB =
     (if PA_MSB_IS_NATIVE p then Some Swap24_ptr else None, 0)"
| "SelectAsioToPaConverter p ASIOSTOther = (None, 0)"

fun SelectPaToAsioConverter ::
  "platform \<Rightarrow> ASIOSampleType \<Rightarrow> PaAsioBufferConverter option \<times> long" where
  "SelectPaToAsioConverter p ASIOSTInt16MSB =
     (if PA_LSB_IS_NATIVE p then Some Swap16_ptr else None, 0)"
| "SelectPaToAsioConverter p ASIOSTInt16LSB =
     (if PA_MSB_IS_NATIVE p then Some Swap16_ptr else None, 0)"
| "SelectPaToAsioConverter p ASIOSTFloat32MSB =
     (if PA_LSB_IS_NATIVE p then Some Swap32_ptr else None, 0)"
| "SelectPaToAsioConverter p ASIOSTFloat32LSB =
     (if PA_MSB_IS_NATIVE p then Some Swap32_ptr else None, 0)"
| "SelectPaToAsioConverter p ASIOSTFloat64MSB =
     (if PA_LSB_IS_NATIVE p then Some ConvertFloat32ToFloat64Swap64_ptr
      else Some ConvertFloat32ToFloat64_ptr, 0)"
| "SelectPaToAsioConverter p ASIOSTFloat64LSB =
     (if PA_MSB_IS_NATIVE p then Some ConvertFloat32ToFloat64Swap64_ptr
      else Some ConvertFloat32ToFloat64_ptr, 0)"
| "SelectPaToAsioConverter p ASIOSTInt32MSB =
     (if PA_LSB_IS_NATIVE p then Some Swap32_ptr else None, 0)"
| "SelectPaToAsioConverter p ASIOSTInt32LSB =
     (if PA_MSB_IS_NATIVE p then Some Swap32_ptr else None, 0)"
| "SelectPaToAsioConverter p ASIOSTInt32MSB16 =
     (if PA_LSB_IS_NATIVE p then Some ShiftRightSwap32_ptr else Some ShiftRight32_ptr, 16)"
| "SelectPaToAsioConverter p ASIOSTInt32MSB18 =
     (if PA_LSB_IS_NATIVE p then Some ShiftRightSwap32_ptr else Some ShiftRight32_ptr, 14)"
| "SelectPaToAsioConverter p ASIOSTInt32MSB20 =
     (if PA_LSB_IS_NATIVE p then Some ShiftRightSwap32_ptr else Some ShiftRight32_ptr, 12)"
| "SelectPaToAsioConverter p ASIOSTInt32MSB24 =
     (if PA_LSB_IS_NATIVE p then Some ShiftRightSwap32_ptr else Some ShiftRight32_ptr, 8)"
| "SelectPaToAsioConverter p ASIOSTInt32LSB16 =
     (if PA_MSB_IS_NATIVE p then Some ShiftRightSwap32_ptr else Some ShiftRight32_ptr, 16)"
| "SelectPaToAsioConverter p ASIOSTInt32LSB18 =
     (if PA_MSB_IS_NATIVE p then Some ShiftRightSwap32_ptr else Some ShiftRight32_ptr, 14)"
| "SelectPaToAsioConverter p ASIOSTInt32LSB20 =
     (if PA_MSB_IS_NATIVE p then Some ShiftRightSwap32_ptr else Some ShiftRight32_ptr, 12)"
| "SelectPaToAsioConverter p ASIOSTInt32LSB24 =
     (if PA_MSB_IS_NATIVE p then Some ShiftRightSwap32_ptr else Some ShiftRight32_ptr, 8)"
| "SelectPaToAsioConverter p ASIOSTInt24MSB =
     (if PA_LSB_IS_NATIVE p then Some Swap24_ptr else None, 0)"
| "SelectPaToAsioConverter p ASIOSTInt24LSB =
     (if PA_MSB_IS_NATIVE p then Some Swap24_ptr else None, 0)"
| "SelectPaToAsioConverter p ASIOSTOther = (None, 0)"

text \<open>
  A hardware buffer of one channel, typed by the unit its converter walks over.
  \<open>bufferOfType\<close> says which buffers a sample type has: 16-bit samples, packed 24-bit
  samples (three bytes each) or 32-bit samples.
\<close>

datatype sampleBuffer =
    Buffer16 "16 word list" | Buffer24 "8 word list" | Buffer32 "ulong list"

fun bufferOfType :: "ASIOSampleType \<Rightarrow> sampleBuffer \<Rightarrow> bool" where
  "bufferOfType t (Buffer16 xs) = (BytesPerAsioSample t = 2)"
| "bufferOfType t (Buffer24 xs) = (BytesPerAsioSample t = 3 \<and> length xs mod 3 = 0)"
| "bufferOfType t (Buffer32 xs) = (BytesPerAsioSample t = 4)"

text \<open>The sample types whose canonical format is an integer format.\<close>

definition integerSampleType :: "ASIOSampleType \<Rightarrow> bool" where
  "integerSampleType t =
     (AsioSampleTypeToPaNativeSampleFormat t = paInt16
      \<or> AsioSampleTypeToPaNativeSampleFormat t = paInt24
      \<or> AsioSampleTypeToPaNativeSampleFormat t = paInt32)"

text \<open>
  Calling through a converter pointer, as the buffer exchange does:
  \<open>converter(buffer, shift, framesPerHostCallback)\<close>.  \<open>None\<close> is a call that has no
  model: a floating point converter, or a converter on a buffer of another unit.
\<close>

fun callConverter ::
  "PaAsioBufferConverter \<Rightarrow> sampleBuffer \<Rightarrow> long \<Rightarrow> nat \<Rightarrow> sampleBuffer option" where
  "callConverter Swap16_ptr (Buffer16 b) shift count = Some (Buffer16 (Swap16 b shift count))"
| "callConverter Swap24_ptr (Buffer24 b) shift count = Some (Buffer24 (Swap24 b shift count))"
| "callConverter Swap32_ptr (Buffer32 b) shift count = Some (Buffer32 (Swap32 b shift count))"
| "callConverter SwapShiftLeft32_ptr (Buffer32 b) shift count =
     Some (Buffer32 (SwapShiftLeft32 b shift count))"
| "callConverter ShiftRightSwap32_ptr (Buffer32 b) shift count =
     Some (Buffer32 (ShiftRightSwap32 b shift count))"
| "callConverter ShiftLeft32_ptr (Buffer32 b) shift count =
     Some (Buffer32 (ShiftLeft32 b shift count))"
| "callConverter ShiftRight32_ptr (Buffer32 b) shift count =
     Some (Buffer32 (ShiftRight32 b shift count))"
| "callConverter converter b shift count = None"

text \<open>\<open>if (converter) converter(buffer, shift, count)\<close>: a null pointer leaves the buffer.\<close>

fun convertBuffer ::
  "PaAsioBufferConverter option \<times> long \<Rightarrow> sampleBuffer \<Rightarrow> nat \<Rightarrow> sampleBuffer option" where
  "convertBuffer (None, shift) b count = Some b"
| "convertBuffer (Some converter, shift) b count = callConverter converter b shift count"

text \<open>
  Hardware to canonical with the converter that \<open>SelectAsioToPaConverter\<close> selects, then
  canonical to hardware with the one that \<open>SelectPaToAsioConverter\<close> selects.
\<close>

definition convertRoundTrip ::
  "platform \<Rightarrow> ASIOSampleType \<Rightarrow> sampleBuffer \<Rightarrow> nat \<Rightarrow> sampleBuffer option" where
  "convertRoundTrip p t b count =
     (case convertBuffer (SelectAsioToPaConverter p t) b count of
        None \<Rightarrow> None
      | Some canonical \<Rightarrow> convertBuffer (SelectPaToAsioConverter p t) canonical count)"

section \<open>The stream\<close>

text \<open>
  Error codes, callback verdicts and status flag bits come from the portable audio
  header, which is not part of the adapter.  Error codes and verdicts are enumerations;
  the numeric values that the adapter uses as bit masks are the fields of
  \<open>PaConstants\<close>, a parameter of the functions that need them.  The blocking callback
  tests the status flags against the two \<^emph>\<open>error codes\<close> \<open>paOutputUnderflowed\<close> and
  \<open>paInputOverflowed\<close>, so their bit patterns are fields too.
\<close>

datatype PaError =
    paNoError | paFormatIsSupported | paUnanticipatedHostError | paInvalidChannelCount
  | paInvalidSampleRate | paInvalidDevice | paInvalidFlag | paSampleFormatNotSupported
  | paBadIODeviceCombination | paInsufficientMemory | paTimedOut | paInternalError
  | paDeviceUnavailable | paIncompatibleHostApiSpecificStreamInfo | paStreamIsStopped
  | paInputOverflowed | paOutputUnderflowed
  | paCanNotReadFromAnOutputOnlyStream | paCanNotWriteToAnInputOnlyStream

datatype PaStreamCallbackResult = paContinue | paComplete | paAbort | paOtherCallbackResult

record PaConstants =
  paInputOverflow :: ulong
  paOutputUnderflow :: ulong
  paOutputUnderflowedCode :: ulong
  paInputOverflowedCode :: ulong

text \<open>
  The driver creates two buffers (the two halves of the double buffer) for every
  \<open>ASIOBufferInfo\<close> it is given.  \<open>HostBuffer k h\<close> is the address of half \<open>h\<close> of
  the buffer created for array element \<open>k\<close>; \<open>NullBuffer\<close> is the null pointer.
\<close>

datatype bufferAddr = NullBuffer | HostBuffer nat nat

record ASIOBufferInfo =
  isInput :: bool
  channelNum :: int
  buffers :: "bufferAddr \<times> bufferAddr"

record ASIOChannelInfo =
  channel :: int
  channelIsInput :: bool
  sampleType :: ASIOSampleType

text \<open>
  Modelled from the spec: the ring buffer transport (section 4.3), whose source is not
  part of the adapter.  A power-of-two-sized circular buffer of frames with a read and a
  write index; the indices only grow, modulo \<open>2 ^ 64\<close>, and a position in the storage is
  an index masked by the size.  \<open>write\<close> and \<open>read\<close> transfer as many frames as are
  available and never block; \<open>flush\<close> resets both indices.
\<close>

record 'f PaUtilRingBuffer =
  bufferSize :: nat
  writeIndex :: "64 word"
  readIndex :: "64 word"
  buffer :: "'f list"

definition PaUtil_GetRingBufferReadAvailable :: "'f PaUtilRingBuffer \<Rightarrow> nat" where
  "PaUtil_GetRingBufferReadAvailable rbuf = unat (writeIndex rbuf - readIndex rbuf)"


definition ringPosition :: "'f PaUtilRingBuffer \<Rightarrow> 64 word \<Rightarrow> nat" where
  "ringPosition rbuf i = unat (i AND (word_of_nat (bufferSize rbuf) - 1))"


definition PaUtil_AdvanceRingBufferWriteIndex ::
  "'f PaUtilRingBuffer \<Rightarrow> nat \<Rightarrow> 'f PaUtilRingBuffer" where
  "PaUtil_AdvanceRingBufferWriteIndex rbuf elementCount =
     rbuf\<lparr>writeIndex := writeIndex rbuf + word_of_nat elementCount\<rparr>"

definition PaUtil_FlushRingBuffer :: "'f PaUtilRingBuffer \<Rightarrow> 'f PaUtilRingBuffer" where
  "PaUtil_FlushRingBuffer rbuf = rbuf\<lparr>writeIndex := 0, readIndex := 0\<rparr>"

text \<open>The frames stored at the \<open>n\<close> positions that follow index \<open>i\<close>.\<close>

definition ringSlice :: "'f PaUtilRingBuffer \<Rightarrow> 64 word \<Rightarrow> nat \<Rightarrow> 'f list" where
  "ringSlice rbuf i n = map (\<lambda>k. buffer rbuf ! ringPosition rbuf (i + word_of_nat k)) [0..<n]"

text \<open>Storing frames at the positions that follow index \<open>i\<close>, one after the other.\<close>

fun ringStore :: "'f PaUtilRingBuffer \<Rightarrow> 64 word \<Rightarrow> 'f list \<Rightarrow> 'f PaUtilRingBuffer" where
  "ringStore rbuf i [] = rbuf"
| "ringStore rbuf i (x # xs) =
     ringStore (rbuf\<lparr>buffer := (buffer rbuf)[ringPosition rbuf i := x]\<rparr>) (i + 1) xs"



text \<open>The frames queued in the buffer, oldest first.\<close>

definition ringFrames :: "'f PaUtilRingBuffer \<Rightarrow> 'f list" where
  "ringFrames rbuf = ringSlice rbuf (readIndex rbuf) (PaUtil_GetRingBufferReadAvailable rbuf)"

text \<open>
  A ring buffer as the transport keeps it: the size is a power of two below \<open>2 ^ 64\<close>,
  the storage has that many frames, and the write index is ahead of the read index by
  no more than the size.
\<close>

definition ringWellFormed :: "'f PaUtilRingBuffer \<Rightarrow> bool" where
  "ringWellFormed rbuf \<longleftrightarrow>
     (\<exists>k \<in> set [0..<64]. bufferSize rbuf = 2 ^ k)
     \<and> length (buffer rbuf) = bufferSize rbuf
     \<and> PaUtil_GetRingBufferReadAvailable rbuf \<le> bufferSize rbuf"

text \<open>
  \<open>PaAsioStreamBlockingState\<close>.  An event is the boolean "signalled"; frame counts are
  natural numbers.  Of the blocking buffer processor only the output channel count
  matters to the adapter's own code; a frame here is the group of samples of all
  channels, so the zeroer called for \<open>outputChannelCount * framesPerBuffer\<close> samples
  writes \<open>framesPerBuffer\<close> zero frames.
\<close>

record 'f PaAsioStreamBlockingState =
  stopFlag :: bool
  writeBuffersRequested :: nat
  readFramesRequested :: nat
  writeBuffersRequestedFlag :: bool
  readFramesRequestedFlag :: bool
  writeBuffersReadyEvent :: bool
  readFramesReadyEvent :: bool
  writeRingBuffer :: "'f PaUtilRingBuffer"
  readRingBuffer :: "'f PaUtilRingBuffer"
  writeRingBufferInitialFrames :: nat
  outputUnderflowFlag :: bool
  inputOverflowFlag :: bool

text \<open>
  The calls that the stream makes to its collaborators and to the hardware, recorded
  in the order they happen.  A buffer argument is \<open>None\<close> when the pointer was read from
  outside the pointer array.
\<close>

datatype hostCall =
    ZeroOutputBuffers_call nat
  | ASIOOutputReady_call
  | inputBufferConverter_call nat "bufferAddr option"
  | PaUtil_BeginBufferProcessing_call ulong
  | PaUtil_SetNonInterleavedInputChannel_call nat "bufferAddr option"
  | PaUtil_SetNonInterleavedOutputChannel_call nat "bufferAddr option"
  | PaUtil_EndBufferProcessing_call PaStreamCallbackResult
  | outputBufferConverter_call nat "bufferAddr option"
  | streamFinishedCallback_call
  | SetEvent_completedBuffersPlayedEvent_call
  | ASIOStart_call
  | ASIOStop_call

text \<open>
  \<open>PaAsioStream\<close>.  Counters are integers (none of them comes near the range of a
  \<open>long\<close>).  \<open>streamFinishedCallback\<close> says whether a stream-finished callback is
  registered, \<open>sampleRate\<close> is the sample rate of the stream info in Hz, a whole number
  here, and \<open>framesPerUserBuffer\<close> is the field of the callback buffer processor
  (with the blocking interface: the user's block size, or the host buffer size when
  the user left it unspecified).
  \<open>bufferPtrs\<close> is the array of \<open>void *\<close>; the four pointers into it are offsets, \<open>None\<close>
  for a null pointer.  \<open>hostBuffers\<close> is the memory of the driver's buffers and
  \<open>hostCalls\<close> the record of calls made so far.
\<close>

record 'f PaAsioStream =
  streamFinishedCallback :: bool
  sampleRate :: nat
  framesPerUserBuffer :: nat
  framesPerHostCallback :: nat
  asioBufferInfos :: "ASIOBufferInfo list"
  asioChannelInfos :: "ASIOChannelInfo list"
  inputChannelCount :: int
  outputChannelCount :: int
  postOutput :: bool
  outputChannelMap :: "int list"
  outputChannelOffset :: int
  bufferPtrs :: "bufferAddr list"
  inputBufferPtrs :: "nat option \<times> nat option"
  outputBufferPtrs :: "nat option \<times> nat option"
  inputBufferConverter :: "PaAsioBufferConverter option"
  inputShift :: long
  outputBufferConverter :: "PaAsioBufferConverter option"
  outputShift :: long
  stopProcessing :: bool
  stopPlayoutCount :: int
  completedBuffersPlayedEvent :: bool
  streamFinishedCallbackCalled :: bool
  isStopped :: int
  isActive :: int
  zeroOutput :: bool
  reenterCount :: int
  reenterError :: int
  callbackFlags :: ulong
  blockingState :: "'f PaAsioStreamBlockingState option"
  hostBuffers :: "bufferAddr \<Rightarrow> 8 word list"
  hostCalls :: "hostCall list"

text \<open>Selecting one half of a pair by the buffer index of the cycle (0 or 1).\<close>

definition half :: "'a \<times> 'a \<Rightarrow> nat \<Rightarrow> 'a" where
  "half pair index = (if index = 0 then fst pair else snd pair)"

text \<open>
  \<open>ptrs[index][i]\<close> for one of the two pointer pairs: the slot \<open>i\<close> places behind the
  offset, \<open>None\<close> when the pointer is null or the slot lies outside \<open>bufferPtrs\<close>.
\<close>

definition bufferPtrAt ::
  "'f PaAsioStream \<Rightarrow> nat option \<times> nat option \<Rightarrow> nat \<Rightarrow> nat \<Rightarrow> bufferAddr option" where
  "bufferPtrAt stream ptrs index i =
     (case half ptrs index of
        None \<Rightarrow> None
      | Some base \<Rightarrow>
          if base + i < length (bufferPtrs stream) then Some (bufferPtrs stream ! (base + i))
          else None)"

text \<open>\<open>memset(buffer, 0, n)\<close> on the bytes of a buffer.\<close>

definition memset0 :: "8 word list \<Rightarrow> nat \<Rightarrow> 8 word list" where
  "memset0 bytes n = replicate (min n (length bytes)) 0 @ drop n bytes"

text \<open>
  One iteration of the loops of \<open>ZeroOutputBuffers\<close>.  The stream has a buffer info and a
  channel info for every index the loops reach (\<open>OpenStream\<close> allocates
  \<open>inputChannelCount + outputChannelOffset + outputChannelCount\<close> of each); an index
  outside the arrays writes nothing here.
\<close>

definition zeroHostBuffer :: "nat \<Rightarrow> 'f PaAsioStream \<Rightarrow> nat \<Rightarrow> 'f PaAsioStream" where
  "zeroHostBuffer index stream i =
     (let asioBufferIndex = nat (inputChannelCount stream) + i
      in if asioBufferIndex < length (asioBufferInfos stream)
            \<and> asioBufferIndex < length (asioChannelInfos stream)
         then
           (let buffer = half (buffers (asioBufferInfos stream ! asioBufferIndex)) index;
                bytesPerSample =
                  BytesPerAsioSample (sampleType (asioChannelInfos stream ! asioBufferIndex))
            in stream\<lparr>hostBuffers := (hostBuffers stream)
                 (buffer := memset0 (hostBuffers stream buffer)
                              (framesPerHostCallback stream * bytesPerSample))\<rparr>)
         else stream)"

definition ZeroOutputBuffers :: "'f PaAsioStream \<Rightarrow> nat \<Rightarrow> 'f PaAsioStream" where
  "ZeroOutputBuffers stream index =
     (let dummyBufferCount = outputChannelOffset stream;
          stream = stream\<lparr>hostCalls := hostCalls stream @ [ZeroOutputBuffers_call index]\<rparr>
      in if \<not> zeroOutput stream then
           (let totalOutputBuffers = outputChannelOffset stream + outputChannelCount stream
            in foldl (zeroHostBuffer index) stream [0..<nat totalOutputBuffers])
         else foldl (zeroHostBuffer index) stream [0..<nat dummyBufferCount])"

section \<open>The buffer exchange callback\<close>

definition logCall :: "hostCall \<Rightarrow> 'f PaAsioStream \<Rightarrow> 'f PaAsioStream" where
  "logCall c stream = stream\<lparr>hostCalls := hostCalls stream @ [c]\<rparr>"

definition logCalls :: "hostCall list \<Rightarrow> 'f PaAsioStream \<Rightarrow> 'f PaAsioStream" where
  "logCalls cs stream = stream\<lparr>hostCalls := hostCalls stream @ cs\<rparr>"

text \<open>
  What the buffer processor answers in a cycle that processes audio: the verdict that
  \<open>PaUtil_EndBufferProcessing\<close> leaves in \<open>callbackResult\<close>, as a function of the value
  the variable holds on entry, and whether the processor's output is empty.
\<close>

record CycleEnv =
  PaUtil_EndBufferProcessing :: "PaStreamCallbackResult \<Rightarrow> PaStreamCallbackResult"
  PaUtil_IsBufferProcessorOutputEmpty :: bool

text \<open>
  The end of playback: \<open>isActive = 0\<close>, the stream-finished callback if one is
  registered, \<open>streamFinishedCallbackCalled = true\<close>, \<open>SetEvent\<close>.  The same four
  statements stand in the drain branch and in the abort branch.
\<close>

definition finishPlayback :: "'f PaAsioStream \<Rightarrow> 'f PaAsioStream" where
  "finishPlayback stream =
     (let stream = stream\<lparr>isActive := 0\<rparr>;
          stream = (if streamFinishedCallback stream
                    then logCall streamFinishedCallback_call stream else stream);
          stream = stream\<lparr>streamFinishedCallbackCalled := True\<rparr>
      in logCall SetEvent_completedBuffersPlayedEvent_call
           (stream\<lparr>completedBuffersPlayedEvent := True\<rparr>))"

text \<open>The branch \<open>if (theAsioStream->zeroOutput)\<close>.\<close>

definition silentCycle :: "nat \<Rightarrow> 'f PaAsioStream \<Rightarrow> 'f PaAsioStream" where
  "silentCycle index stream =
     (let stream = ZeroOutputBuffers stream index;
          stream = (if postOutput stream then logCall ASIOOutputReady_call stream else stream)
      in if stopProcessing stream then
           (if stopPlayoutCount stream < 2 then
              (let stream = stream\<lparr>stopPlayoutCount := stopPlayoutCount stream + 1\<rparr>
               in if stopPlayoutCount stream = 2 then finishPlayback stream else stream)
            else stream)
         else stream)"

text \<open>
  The branch that processes audio.  The calls that measure the CPU load and the time
  stamps (floating point) are left out.  \<open>processCycleCalls\<close> lists the calls of the
  branch in their order: the input conversions, the start of buffer processing with the
  status flags, the channel pointers handed to the buffer processor, the end of buffer
  processing (which runs the user callback) with the verdict it leaves, the output
  conversions, and the output-ready notification.
\<close>

definition processCycleCalls ::
  "nat \<Rightarrow> PaStreamCallbackResult \<Rightarrow> 'f PaAsioStream \<Rightarrow> hostCall list" where
  "processCycleCalls index callbackResult stream =
     (let inputs = [0..<nat (inputChannelCount stream)];
          outputs = [0..<nat (outputChannelCount stream)]
      in (if inputBufferConverter stream \<noteq> None
          then map (\<lambda>i. inputBufferConverter_call i
                          (bufferPtrAt stream (inputBufferPtrs stream) index i)) inputs
          else [])
         @ [PaUtil_BeginBufferProcessing_call (callbackFlags stream)]
         @ map (\<lambda>i. PaUtil_SetNonInterleavedInputChannel_call i
                        (bufferPtrAt stream (inputBufferPtrs stream) index i)) inputs
         @ map (\<lambda>i. PaUtil_SetNonInterleavedOutputChannel_call i
                        (bufferPtrAt stream (outputBufferPtrs stream) index i)) outputs
         @ [PaUtil_EndBufferProcessing_call callbackResult]
         @ (if outputBufferConverter stream \<noteq> None
            then map (\<lambda>i. outputBufferConverter_call i
                            (bufferPtrAt stream (outputBufferPtrs stream) index i)) outputs
            else [])
         @ (if postOutput stream then [ASIOOutputReady_call] else []))"

definition processCycle :: "CycleEnv \<Rightarrow> nat \<Rightarrow> 'f PaAsioStream \<Rightarrow> 'f PaAsioStream" where
  "processCycle env index stream =
     (let callbackResult = (if stopProcessing stream then paComplete else paContinue);
          callbackResult = PaUtil_EndBufferProcessing env callbackResult;
          stream = logCalls (processCycleCalls index callbackResult stream) stream;
          stream = stream\<lparr>callbackFlags := 0\<rparr>
      in if callbackResult = paContinue then stream
         else if callbackResult = paAbort then (finishPlayback stream)\<lparr>zeroOutput := True\<rparr>
         else
           (let stream = stream\<lparr>stopProcessing := True\<rparr>
            in if PaUtil_IsBufferProcessorOutputEmpty env
               then stream\<lparr>zeroOutput := True, stopPlayoutCount := 0\<rparr>
               else stream))"

text \<open>The body of the \<open>do\<close> loop, up to and without \<open>++buffersDone\<close>.\<close>

definition bufferSwitchIteration ::
  "PaConstants \<Rightarrow> CycleEnv \<Rightarrow> nat \<Rightarrow> nat \<Rightarrow> 'f PaAsioStream \<Rightarrow> 'f PaAsioStream" where
  "bufferSwitchIteration consts env index buffersDone stream =
     (if buffersDone > 0 then
        (let stream =
               (if inputChannelCount stream > 0
                then stream\<lparr>callbackFlags := callbackFlags stream OR paInputOverflow consts\<rparr>
                else stream)
         in if outputChannelCount stream > 0
            then stream\<lparr>callbackFlags := callbackFlags stream OR paOutputUnderflow consts\<rparr>
            else stream)
      else if zeroOutput stream then silentCycle index stream
      else processCycle env index stream)"

text \<open>
  The reentrancy guard taken by an invocation that finds the counter non-zero after its
  increment: it counts the error and returns.
\<close>

definition bufferSwitchReentered :: "'f PaAsioStream \<Rightarrow> 'f PaAsioStream" where
  "bufferSwitchReentered stream =
     stream\<lparr>reenterCount := reenterCount stream + 1, reenterError := reenterError stream + 1\<rparr>"

text \<open>
  The \<open>do ... while\<close> loop of an invocation that has passed the guard.  The driver may
  call again while an iteration runs: \<open>nested\<close> lists, iteration by iteration, how many
  invocations arrive during it (none once the list is used up).  Inside the loop the
  counter is not negative, so each of them takes the branch of \<open>bufferSwitchReentered\<close>.
\<close>

function bufferSwitchLoop ::
  "PaConstants \<Rightarrow> CycleEnv \<Rightarrow> nat \<Rightarrow> nat list \<Rightarrow> nat \<Rightarrow> 'f PaAsioStream \<Rightarrow> 'f PaAsioStream"
where
  "bufferSwitchLoop consts env index nested buffersDone stream =
     (let stream = bufferSwitchIteration consts env index buffersDone stream;
          stream = (bufferSwitchReentered ^^ (case nested of [] \<Rightarrow> 0 | n # ns \<Rightarrow> n)) stream;
          stream = stream\<lparr>reenterCount := reenterCount stream - 1\<rparr>
      in if reenterCount stream \<ge> 0
         then bufferSwitchLoop consts env index (tl nested) (buffersDone + 1) stream
         else stream)"
  by pat_completeness auto


lemma reenterCount_logCall [simp]: "reenterCount (logCall c stream) = reenterCount stream"
  by (simp add: logCall_def)

lemma reenterCount_logCalls [simp]: "reenterCount (logCalls cs stream) = reenterCount stream"
  by (simp add: logCalls_def)

lemma reenterCount_zeroHostBuffer [simp]:
  "reenterCount (zeroHostBuffer index stream i) = reenterCount stream"
  by (simp add: zeroHostBuffer_def Let_def)

lemma reenterCount_foldl_zeroHostBuffer [simp]:
  "reenterCount (foldl (zeroHostBuffer index) stream xs) = reenterCount stream"
  by (induction xs arbitrary: stream) simp_all

lemma reenterCount_ZeroOutputBuffers [simp]:
  "reenterCount (ZeroOutputBuffers stream index) = reenterCount stream"
  by (simp add: ZeroOutputBuffers_def Let_def)

lemma reenterCount_finishPlayback [simp]:
  "reenterCount (finishPlayback stream) = reenterCount stream"
  by (simp add: finishPlayback_def Let_def)

lemma reenterCount_silentCycle [simp]:
  "reenterCount (silentCycle index stream) = reenterCount stream"
  by (simp add: silentCycle_def Let_def)

lemma reenterCount_processCycle [simp]:
  "reenterCount (processCycle env index stream) = reenterCount stream"
  by (simp add: processCycle_def Let_def)

lemma reenterCount_bufferSwitchIteration [simp]:
  "reenterCount (bufferSwitchIteration consts env index buffersDone stream) = reenterCount stream"
  by (simp add: bufferSwitchIteration_def Let_def)

lemma reenterCount_bufferSwitchReentered [simp]:
  "reenterCount ((bufferSwitchReentered ^^ n) stream) = reenterCount stream + int n"
  by (induction n) (simp_all add: bufferSwitchReentered_def)

termination bufferSwitchLoop
  apply (relation "measure (\<lambda>(consts, env, index, nested, buffersDone, stream).
                      nat (reenterCount stream + int (sum_list nested) + 1))")
   apply simp
  apply (auto split: list.splits)
  done

text \<open>
  \<open>bufferSwitchTimeInfo\<close>, from the test of the global stream pointer on.  The atomic
  increment returns the new value of the counter; a value other than zero is the
  reentrant case.
\<close>

definition bufferSwitchTimeInfo ::
  "PaConstants \<Rightarrow> CycleEnv \<Rightarrow> nat \<Rightarrow> nat list \<Rightarrow> 'f PaAsioStream option
     \<Rightarrow> 'f PaAsioStream option" where
  "bufferSwitchTimeInfo consts env index nested theAsioStream =
     (case theAsioStream of
        None \<Rightarrow> None
      | Some stream \<Rightarrow>
          if reenterCount stream + 1 \<noteq> 0 then Some (bufferSwitchReentered stream)
          else Some (bufferSwitchLoop consts env index nested 0
                       (stream\<lparr>reenterCount := reenterCount stream + 1\<rparr>)))"

declare bufferSwitchLoop.simps [simp del]

text \<open>
  The stream after one call of \<open>bufferSwitchTimeInfo\<close>, for a global pointer that points
  to \<open>stream\<close>.
\<close>

definition bufferCycle ::
  "PaConstants \<Rightarrow> CycleEnv \<Rightarrow> nat \<Rightarrow> nat list \<Rightarrow> 'f PaAsioStream \<Rightarrow> 'f PaAsioStream" where
  "bufferCycle consts env index nested stream =
     the (bufferSwitchTimeInfo consts env index nested (Some stream))"

text \<open>
  The status flags as an iteration for a missed cycle leaves them: input overflow for
  a stream with input channels, output underflow for a stream with output channels.
\<close>

definition missedCycleFlags :: "PaConstants \<Rightarrow> 'f PaAsioStream \<Rightarrow> ulong" where
  "missedCycleFlags consts stream =
     callbackFlags stream
       OR (if inputChannelCount stream > 0 then paInputOverflow consts else 0)
       OR (if outputChannelCount stream > 0 then paOutputUnderflow consts else 0)"

text \<open>
  The addresses of the first \<open>count\<close> output buffers of a cycle: the buffers that the
  loops of \<open>ZeroOutputBuffers\<close> reach when they run \<open>count\<close> times.
\<close>

definition outputBufferAddrs :: "'f PaAsioStream \<Rightarrow> nat \<Rightarrow> nat \<Rightarrow> bufferAddr list" where
  "outputBufferAddrs stream index count =
     map (\<lambda>i. half (buffers (asioBufferInfos stream ! (nat (inputChannelCount stream) + i))) index)
       [0..<count]"

text \<open>
  A run of buffer exchange cycles, each with its own answers of the buffer processor,
  its buffer index and its reentrant arrivals.
\<close>

definition bufferCycles ::
  "PaConstants \<Rightarrow> (CycleEnv \<times> nat \<times> nat list) list \<Rightarrow> 'f PaAsioStream \<Rightarrow> 'f PaAsioStream" where
  "bufferCycles consts cycles stream =
     foldl (\<lambda>stream (env, index, nested). bufferCycle consts env index nested stream)
       stream cycles"

text \<open>
  Two conditions on the drain counter: \<open>drainStep\<close> holds when the next silent cycle is
  the one that raises \<open>stopPlayoutCount\<close> to 2, \<open>drained\<close> when an idle stream has had
  its two silent cycles.
\<close>

definition drainStep :: "'f PaAsioStream \<Rightarrow> bool" where
  "drainStep stream = (stopProcessing stream \<and> stopPlayoutCount stream = 1)"

definition drained :: "'f PaAsioStream \<Rightarrow> bool" where
  "drained stream \<longleftrightarrow>
     reenterCount stream = - 1 \<and> zeroOutput stream \<and> stopProcessing stream
     \<and> stopPlayoutCount stream = 2"

section \<open>Start, stop and abort\<close>

text \<open>
  What the system answers to \<open>StartStream\<close>: whether each \<open>ResetEvent\<close> succeeds and
  whether \<open>ASIOStart\<close> returns \<open>ASE_OK\<close>.
\<close>

record StartEnv =
  ResetEvent_completedBuffersPlayedEvent :: bool
  ResetEvent_readFramesReadyEvent :: bool
  ResetEvent_writeBuffersReadyEvent :: bool
  ASIOStart_ok :: bool

text \<open>The zeroer applied to the whole storage of a ring buffer.\<close>

definition zeroRingBufferStorage :: "('f::zero) PaUtilRingBuffer \<Rightarrow> 'f PaUtilRingBuffer" where
  "zeroRingBufferStorage rbuf = rbuf\<lparr>buffer := replicate (length (buffer rbuf)) 0\<rparr>"

definition StartStream_blocking ::
  "StartEnv \<Rightarrow> int \<Rightarrow> int \<Rightarrow> PaError \<times> ('f::zero) PaAsioStreamBlockingState
     \<Rightarrow> PaError \<times> 'f PaAsioStreamBlockingState" where
  "StartStream_blocking env inputChannels outputChannels rb =
     (let (result, blockingState) = rb;
          (result, blockingState) =
            (if inputChannels \<noteq> 0 then
               (if ResetEvent_readFramesReadyEvent env then result else paUnanticipatedHostError,
                blockingState\<lparr>
                  readFramesReadyEvent :=
                    (if ResetEvent_readFramesReadyEvent env then False
                     else readFramesReadyEvent blockingState),
                  readRingBuffer :=
                    zeroRingBufferStorage (PaUtil_FlushRingBuffer (readRingBuffer blockingState))\<rparr>)
             else (result, blockingState));
          (result, blockingState) =
            (if outputChannels \<noteq> 0 then
               (if ResetEvent_writeBuffersReadyEvent env then result else paUnanticipatedHostError,
                blockingState\<lparr>
                  writeBuffersReadyEvent :=
                    (if ResetEvent_writeBuffersReadyEvent env then False
                     else writeBuffersReadyEvent blockingState),
                  writeRingBuffer :=
                    PaUtil_AdvanceRingBufferWriteIndex
                      (zeroRingBufferStorage (PaUtil_FlushRingBuffer (writeRingBuffer blockingState)))
                      (writeRingBufferInitialFrames blockingState)\<rparr>)
             else (result, blockingState))
      in (result,
          blockingState\<lparr>writeBuffersRequested := 0, readFramesRequested := 0,
            writeBuffersRequestedFlag := False, readFramesRequestedFlag := False,
            outputUnderflowFlag := False, inputOverflowFlag := False, stopFlag := False\<rparr>))"

definition StartStream ::
  "StartEnv \<Rightarrow> ('f::zero) PaAsioStream \<Rightarrow> PaError \<times> 'f PaAsioStream" where
  "StartStream env stream =
     (let stream = (if outputChannelCount stream > 0
                    then ZeroOutputBuffers (ZeroOutputBuffers stream 0) 1 else stream);
          stream = stream\<lparr>stopProcessing := False, zeroOutput := False, reenterCount := - 1,
                     reenterError := 0, callbackFlags := 0\<rparr>;
          result = (if ResetEvent_completedBuffersPlayedEvent env then paNoError
                    else paUnanticipatedHostError);
          stream = (if ResetEvent_completedBuffersPlayedEvent env
                    then stream\<lparr>completedBuffersPlayedEvent := False\<rparr> else stream);
          (result, stream) =
            (case blockingState stream of
               None \<Rightarrow> (result, stream)
             | Some blocking \<Rightarrow>
                 (let (result, blocking) =
                        StartStream_blocking env (inputChannelCount stream)
                          (outputChannelCount stream) (result, blocking)
                  in (result, stream\<lparr>blockingState := Some blocking\<rparr>)))
      in if result = paNoError then
           (let stream = stream\<lparr>isStopped := 0, isActive := 1,
                            streamFinishedCallbackCalled := False\<rparr>;
                stream = logCall ASIOStart_call stream
            in if ASIOStart_ok env then (paNoError, stream)
               else (paUnanticipatedHostError, stream\<lparr>isStopped := 1, isActive := 0\<rparr>))
         else (result, stream))"

text \<open>
  \<open>EnsureCallbackHasCompleted\<close>: at most 2000 rounds of \<open>Sleep(1)\<close> while the reentrancy
  counter is not back at -1.  \<open>sleep\<close> is what the real-time thread does to the stream
  during one \<open>Sleep(1)\<close>.
\<close>

fun EnsureCallbackHasCompleted_loop ::
  "('f PaAsioStream \<Rightarrow> 'f PaAsioStream) \<Rightarrow> nat \<Rightarrow> 'f PaAsioStream \<Rightarrow> 'f PaAsioStream" where
  "EnsureCallbackHasCompleted_loop sleep 0 stream = stream"
| "EnsureCallbackHasCompleted_loop sleep (Suc count) stream =
     (if reenterCount stream \<noteq> - 1
      then EnsureCallbackHasCompleted_loop sleep count (sleep stream)
      else stream)"

definition EnsureCallbackHasCompleted ::
  "('f PaAsioStream \<Rightarrow> 'f PaAsioStream) \<Rightarrow> 'f PaAsioStream \<Rightarrow> 'f PaAsioStream" where
  "EnsureCallbackHasCompleted sleep stream = EnsureCallbackHasCompleted_loop sleep 2000 stream"

datatype WaitResult = WAIT_OBJECT_0 | WAIT_TIMEOUT | WAIT_FAILED

text \<open>
  What happens around \<open>StopStream\<close> and \<open>AbortStream\<close>.  While the caller waits on an
  event the real-time thread goes on running buffer exchange cycles on the same stream:
  a wait is a function from the stream at the start of the wait to the result of
  \<open>WaitForSingleObject\<close> and the stream at its end.  \<open>flushWait\<close> is the wait for the
  blocking output to be flushed, \<open>drainWait\<close> the wait for the completion event,
  \<open>ASIOStop_ok\<close> says whether \<open>ASIOStop\<close> returns \<open>ASE_OK\<close>, and \<open>sleepInterference\<close> is the
  \<open>sleep\<close> of \<open>EnsureCallbackHasCompleted\<close>.
\<close>

record 'f StopEnv =
  flushWait :: "'f PaAsioStream \<Rightarrow> WaitResult \<times> 'f PaAsioStream"
  drainWait :: "'f PaAsioStream \<Rightarrow> WaitResult \<times> 'f PaAsioStream"
  ASIOStop_ok :: bool
  sleepInterference :: "'f PaAsioStream \<Rightarrow> 'f PaAsioStream"

text \<open>The statements of \<open>StopStream\<close> inside \<open>if (stream->isActive)\<close>.\<close>

definition StopStream_active ::
  "'f StopEnv \<Rightarrow> 'f PaAsioStream \<Rightarrow> PaError \<times> 'f PaAsioStream" where
  "StopStream_active env stream =
     (let (result, stream) =
            (case blockingState stream of
               None \<Rightarrow> (paNoError, stream)
             | Some blocking \<Rightarrow>
                 if outputChannelCount stream \<noteq> 0 then
                   (let blocking = blocking\<lparr>
                          writeBuffersRequested := bufferSize (writeRingBuffer blocking),
                          writeBuffersRequestedFlag := True,
                          stopFlag := True\<rparr>;
                        (waitResult, stream) =
                          flushWait env (stream\<lparr>blockingState := Some blocking\<rparr>)
                    in (if waitResult = WAIT_FAILED then paUnanticipatedHostError
                        else if waitResult = WAIT_TIMEOUT then paTimedOut
                        else paNoError, stream))
                 else (paNoError, stream));
          stream = stream\<lparr>stopProcessing := True\<rparr>;
          (waitResult, stream) = drainWait env stream
      in (result, stream))"

text \<open>
  \<open>StopStream\<close> and \<open>AbortStream\<close> end with the same statements.  First \<open>ASIOStop\<close> and,
  when it succeeds, the wait for a callback in flight:
\<close>

definition stopDriver ::
  "'f StopEnv \<Rightarrow> PaError \<times> 'f PaAsioStream \<Rightarrow> PaError \<times> 'f PaAsioStream" where
  "stopDriver env rs =
     (let (result, stream) = rs;
          stream = logCall ASIOStop_call stream
      in if ASIOStop_ok env
         then (result, EnsureCallbackHasCompleted (sleepInterference env) stream)
         else (paUnanticipatedHostError, stream))"

text \<open>
  then the two state variables, and the stream-finished callback if the real-time path
  has not called it:
\<close>

definition markStopped :: "'f PaAsioStream \<Rightarrow> 'f PaAsioStream" where
  "markStopped stream =
     (let stream = stream\<lparr>isStopped := 1, isActive := 0\<rparr>
      in if \<not> streamFinishedCallbackCalled stream then
           (if streamFinishedCallback stream
            then logCall streamFinishedCallback_call stream else stream)
         else stream)"

text \<open>\<open>StopStream\<close> up to the point where the driver is stopped.\<close>

definition StopStream_stopDriver ::
  "'f StopEnv \<Rightarrow> 'f PaAsioStream \<Rightarrow> PaError \<times> 'f PaAsioStream" where
  "StopStream_stopDriver env stream =
     stopDriver env
       (if isActive stream \<noteq> 0 then StopStream_active env stream else (paNoError, stream))"

definition StopStream :: "'f StopEnv \<Rightarrow> 'f PaAsioStream \<Rightarrow> PaError \<times> 'f PaAsioStream" where
  "StopStream env stream =
     (let (result, stream) = StopStream_stopDriver env stream in (result, markStopped stream))"

definition AbortStream :: "'f StopEnv \<Rightarrow> 'f PaAsioStream \<Rightarrow> PaError \<times> 'f PaAsioStream" where
  "AbortStream env stream =
     (let (result, stream) = stopDriver env (paNoError, stream\<lparr>zeroOutput := True\<rparr>)
      in (result, markStopped stream))"

definition IsStreamStopped :: "'f PaAsioStream \<Rightarrow> int" where
  "IsStreamStopped stream = isStopped stream"

definition IsStreamActive :: "'f PaAsioStream \<Rightarrow> int" where
  "IsStreamActive stream = isActive stream"

section \<open>Opening and closing a stream\<close>

text \<open>
  A call either returns, or fails an \<open>assert\<close>, or runs into undefined behaviour (an
  access outside an array).
\<close>

datatype 'a outcome = Returns 'a | AssertionFailure | UndefinedBehaviour

text \<open>
  \<open>PaDeviceIndex\<close>: the two special values of the portable audio header, and the
  indices of devices.
\<close>

datatype PaDeviceIndex = paNoDevice | paUseHostApiSpecificDeviceSpecification | Device nat

record PaAsioStreamInfo =
  sizeAndVersionValid :: bool
  useChannelSelectors :: bool
  channelSelectors :: "int list option"

text \<open>
  \<open>PaStreamParameters\<close>.  \<open>suggestedLatencyFrames\<close> is the value of the floating point
  expression \<open>(unsigned long)((suggestedLatency * sampleRate) + 0.5f)\<close>.
\<close>

record PaStreamParameters =
  device :: PaDeviceIndex
  channelCount :: int
  suggestedLatencyFrames :: ulong
  hostApiSpecificStreamInfo :: "PaAsioStreamInfo option"

record PaAsioDeviceInfo =
  maxInputChannels :: int
  maxOutputChannels :: int

text \<open>
  \<open>PaAsioHostApiRepresentation\<close>, with \<open>asioDriverLoaded\<close> recording whether the driver
  is loaded (\<open>LoadAsioDriver\<close>, \<open>UnloadAsioDriver\<close>).  \<open>AsioState\<close> adds the file-level
  variable \<open>theAsioStream\<close>.
\<close>

record PaAsioHostApiRepresentation =
  deviceInfos :: "PaAsioDeviceInfo list"
  openAsioDeviceIndex :: PaDeviceIndex
  openAsioDriverInfo :: PaAsioDriverInfo
  asioDriverLoaded :: bool

record 'f AsioState =
  asioHostApi :: PaAsioHostApiRepresentation
  theAsioStream :: "'f PaAsioStream option"

definition ValidateAsioSpecificStreamInfo ::
  "PaStreamParameters \<Rightarrow> PaAsioStreamInfo option \<Rightarrow> int \<Rightarrow> PaError \<times> int list option" where
  "ValidateAsioSpecificStreamInfo streamParameters streamInfo deviceChannelCount =
     (case streamInfo of
        None \<Rightarrow> (paNoError, None)
      | Some info \<Rightarrow>
          if \<not> sizeAndVersionValid info then (paIncompatibleHostApiSpecificStreamInfo, None)
          else if useChannelSelectors info then
            (case channelSelectors info of
               None \<Rightarrow> (paIncompatibleHostApiSpecificStreamInfo, None)
             | Some selectors \<Rightarrow>
                 if list_ex (\<lambda>c. c < 0 \<or> c \<ge> deviceChannelCount)
                      (take (nat (channelCount streamParameters)) selectors)
                 then (paInvalidChannelCount, Some selectors)
                 else (paNoError, Some selectors))
          else (paNoError, None))"

text \<open>
  What the system, the driver and the buffer processor answer while a stream is
  opened.  \<open>ASIOCreateBuffers_ok\<close> tells for a buffer size whether the driver creates
  buffers of that size; \<open>ASIOGetChannelInfo\<close> gives, for the channel info at an array
  index, whether the call succeeds and the sample type it reports.  The section that
  sets up blocking i/o (two buffer processors, two events, the ring buffers with
  their sizes, the latencies) is taken as a whole: \<open>blockingSetup\<close> is its error code
  and the blocking state it builds.
\<close>

record 'f OpenEnv =
  LoadAsioDriver_result :: PaError
  LoadAsioDriver_driverInfo :: PaAsioDriverInfo
  ValidateAndSetSampleRate_result :: PaError
  streamAllocated :: bool
  CreateEvent_ok :: bool
  asioBufferInfosAllocated :: bool
  outputChannelMapAllocated :: bool
  ASIOCreateBuffers_ok :: "ulong \<Rightarrow> bool"
  asioChannelInfosAllocated :: bool
  ASIOGetChannelInfo :: "nat \<Rightarrow> bool \<times> ASIOSampleType"
  bufferPtrsAllocated :: bool
  driverHostBuffers :: "bufferAddr \<Rightarrow> 8 word list"
  blockingSetup :: "PaError \<times> 'f PaAsioStreamBlockingState"
  PaUtil_InitializeBufferProcessor_result :: PaError

record OpenArgs =
  inputParameters :: "PaStreamParameters option"
  outputParameters :: "PaStreamParameters option"
  requestedSampleRate :: nat
  requestedFramesPerBuffer :: ulong
  platformSpecificFlags :: bool
  streamCallback :: bool

text \<open>
  The block that \<open>OpenStream\<close> runs for the input parameters and again for the output
  parameters: reject the host-specific device, look the device up in \<open>deviceInfos\<close> and
  validate the stream info.  \<open>Inl\<close> is the error code of an early \<open>return\<close>.
\<close>

definition OpenStream_parameters ::
  "PaAsioHostApiRepresentation \<Rightarrow> bool \<Rightarrow> PaStreamParameters
     \<Rightarrow> (PaError + int \<times> ulong \<times> PaDeviceIndex \<times> int list option) outcome" where
  "OpenStream_parameters hostApi forInput parameters =
     (case device parameters of
        paUseHostApiSpecificDeviceSpecification \<Rightarrow> Returns (Inl paInvalidDevice)
      | paNoDevice \<Rightarrow> UndefinedBehaviour
      | Device n \<Rightarrow>
          if n < length (deviceInfos hostApi) then
            (let asioDeviceInfo = deviceInfos hostApi ! n;
                 (result, selectors) =
                   ValidateAsioSpecificStreamInfo parameters (hostApiSpecificStreamInfo parameters)
                     (if forInput then maxInputChannels asioDeviceInfo
                      else maxOutputChannels asioDeviceInfo)
             in if result \<noteq> paNoError then Returns (Inl result)
                else Returns (Inr (channelCount parameters, suggestedLatencyFrames parameters,
                                   device parameters, selectors)))
          else UndefinedBehaviour)"

text \<open>
  The output channel offset: forced to 2, and back to 0 when the driver has fewer
  than \<open>outputChannelCount + 2\<close> output channels.  The result is the offset and
  \<open>totalAsioOutputChannels\<close>.
\<close>

definition OpenStream_channelOffset :: "int \<Rightarrow> PaAsioDriverInfo \<Rightarrow> int \<times> int" where
  "OpenStream_channelOffset outputChannels driverInfo =
     (let outputChannelOffset = 2;
          totalAsioOutputChannels = outputChannels + outputChannelOffset
      in if totalAsioOutputChannels > sint (driverOutputChannelCount driverInfo)
         then (0, outputChannels)
         else (outputChannelOffset, totalAsioOutputChannels))"

text \<open>The two loops that initialise the buffer infos: inputs first, then all outputs.\<close>

definition OpenStream_bufferInfos ::
  "int \<Rightarrow> int \<Rightarrow> int list option \<Rightarrow> ASIOBufferInfo list" where
  "OpenStream_bufferInfos inputChannels totalAsioOutputChannels inputChannelSelectors =
     map (\<lambda>i. \<lparr>isInput = True,
                channelNum = (case inputChannelSelectors of
                                Some selectors \<Rightarrow> selectors ! i | None \<Rightarrow> int i),
                buffers = (NullBuffer, NullBuffer)\<rparr>) [0..<nat inputChannels]
     @ map (\<lambda>i. \<lparr>isInput = False, channelNum = int i, buffers = (NullBuffer, NullBuffer)\<rparr>)
         [0..<nat totalAsioOutputChannels]"

text \<open>A successful \<open>ASIOCreateBuffers\<close> fills in the two buffers of every array element.\<close>

definition ASIOCreateBuffers :: "ASIOBufferInfo list \<Rightarrow> ASIOBufferInfo list" where
  "ASIOCreateBuffers infos =
     map (\<lambda>k. (infos ! k)\<lparr>buffers := (HostBuffer k 0, HostBuffer k 1)\<rparr>) [0..<length infos]"

text \<open>
  The loop over \<open>ASIOGetChannelInfo\<close>: \<open>None\<close> when a call fails, the channel infos
  otherwise.
\<close>

definition OpenStream_channelInfos ::
  "(nat \<Rightarrow> bool \<times> ASIOSampleType) \<Rightarrow> ASIOBufferInfo list \<Rightarrow> ASIOChannelInfo list option" where
  "OpenStream_channelInfos getChannelInfo infos =
     (if list_all (\<lambda>k. fst (getChannelInfo k)) [0..<length infos]
      then Some (map (\<lambda>k. \<lparr>channel = channelNum (infos ! k),
                            channelIsInput = isInput (infos ! k),
                            sampleType = snd (getChannelInfo k)\<rparr>) [0..<length infos])
      else None)"

text \<open>
  A store through a pointer into \<open>bufferPtrs\<close>: \<open>None\<close> once a store has gone outside
  the array.
\<close>

definition storePtr :: "bufferAddr list option \<Rightarrow> nat \<Rightarrow> bufferAddr \<Rightarrow> bufferAddr list option" where
  "storePtr ptrs slot v =
     (case ptrs of
        None \<Rightarrow> None
      | Some array \<Rightarrow> if slot < length array then Some (array[slot := v]) else None)"

text \<open>
  One iteration of a loop that fills a pair of pointer rows: \<open>ptrs[0][i]\<close> and
  \<open>ptrs[1][i]\<close> receive the two buffers of buffer info \<open>asioBufferIndex\<close>.
\<close>

definition storeBufferPair ::
  "ASIOBufferInfo list \<Rightarrow> nat \<Rightarrow> nat \<Rightarrow> nat \<Rightarrow> nat \<Rightarrow> bufferAddr list option
     \<Rightarrow> bufferAddr list option" where
  "storeBufferPair infos base0 base1 asioBufferIndex i ptrs =
     storePtr (storePtr ptrs (base0 + i) (fst (buffers (infos ! asioBufferIndex))))
       (base1 + i) (snd (buffers (infos ! asioBufferIndex)))"

text \<open>
  The set-up of \<open>bufferPtrs\<close>, \<open>inputBufferPtrs\<close> and \<open>outputBufferPtrs\<close>.  The array has
  \<open>2 * (inputChannelCount + totalAsioOutputChannels)\<close> zero-initialised slots.  The
  input rows start at slots \<open>0\<close> and \<open>inputChannelCount\<close>; the output rows start at slots
  \<open>inputChannelCount + outputChannelOffset\<close> and
  \<open>inputChannelCount * 2 + outputChannelCount + totalAsioOutputChannels\<close>.
\<close>

definition OpenStream_bufferPtrs ::
  "int \<Rightarrow> int \<Rightarrow> int \<Rightarrow> int \<Rightarrow> ASIOBufferInfo list
     \<Rightarrow> bufferAddr list option \<times> (nat option \<times> nat option) \<times> (nat option \<times> nat option)" where
  "OpenStream_bufferPtrs inputChannels outputChannels channelOffset
       totalAsioOutputChannels infos =
     (let ptrs = Some (replicate (2 * nat (inputChannels + totalAsioOutputChannels)) NullBuffer);
          inputRows = (if inputChannels > 0 then (Some 0, Some (nat inputChannels))
                       else (None, None));
          ptrs = (if inputChannels > 0
                  then fold (\<lambda>i. storeBufferPair infos 0 (nat inputChannels) i i)
                         [0..<nat inputChannels] ptrs
                  else ptrs);
          out0 = nat (inputChannels + channelOffset);
          out1 = nat (inputChannels * 2 + outputChannels + totalAsioOutputChannels);
          outputRows = (if outputChannels > 0 then (Some out0, Some out1) else (None, None));
          ptrs = (if outputChannels > 0
                  then fold (\<lambda>i. storeBufferPair infos out0 out1
                                    (nat (inputChannels + channelOffset) + i) i)
                         [0..<nat outputChannels] ptrs
                  else ptrs)
      in (ptrs, inputRows, outputRows))"

text \<open>
  \<open>OpenStream\<close> has unwound at \<open>error:\<close>: whatever was allocated is freed and the
  driver, once loaded, is unloaded.
\<close>

definition OpenStream_error ::
  "PaError \<Rightarrow> 'f AsioState \<Rightarrow> (PaError \<times> 'f AsioState) outcome" where
  "OpenStream_error result state =
     Returns (result, state\<lparr>asioHostApi := (asioHostApi state)\<lparr>asioDriverLoaded := False\<rparr>\<rparr>)"

text \<open>
  \<open>OpenStream\<close> from the allocation of the stream to its end; the driver is loaded and
  its info is in \<open>openAsioDriverInfo\<close>.
\<close>

definition OpenStream_stream ::
  "platform \<Rightarrow> 'f OpenEnv \<Rightarrow> OpenArgs \<Rightarrow> int \<Rightarrow> int \<Rightarrow> ulong \<Rightarrow> ulong \<Rightarrow> PaDeviceIndex
     \<Rightarrow> int list option \<Rightarrow> 'f AsioState \<Rightarrow> (PaError \<times> 'f AsioState) outcome" where
  "OpenStream_stream p env args inputChannels outputChannels suggestedInputLatencyFrames
       suggestedOutputLatencyFrames asioDeviceIndex inputChannelSelectors state =
     (let driverInfo = openAsioDriverInfo (asioHostApi state);
          usingBlockingIo = \<not> streamCallback args
      in if \<not> streamAllocated env then OpenStream_error paInsufficientMemory state
         else if \<not> CreateEvent_ok env then OpenStream_error paUnanticipatedHostError state
         else
           (let (offset, totalAsioOutputChannels) =
                  OpenStream_channelOffset outputChannels driverInfo
            in if \<not> asioBufferInfosAllocated env then OpenStream_error paInsufficientMemory state
               else if outputChannels > 0 \<and> \<not> outputChannelMapAllocated env
               then OpenStream_error paInsufficientMemory state
               else
                 (let infos = OpenStream_bufferInfos inputChannels totalAsioOutputChannels
                                inputChannelSelectors;
                      framesPerHostBuffer =
                        OpenStream_framesPerHostBuffer usingBlockingIo (requestedFramesPerBuffer args)
                          suggestedInputLatencyFrames suggestedOutputLatencyFrames driverInfo;
                      created =
                        (ASIOCreateBuffers_ok env framesPerHostBuffer
                         \<or> (framesPerHostBuffer \<noteq> bufferPreferredSize driverInfo
                            \<and> ASIOCreateBuffers_ok env (bufferPreferredSize driverInfo)));
                      framesPerHostBuffer =
                        (if \<not> ASIOCreateBuffers_ok env framesPerHostBuffer
                            \<and> framesPerHostBuffer \<noteq> bufferPreferredSize driverInfo
                         then bufferPreferredSize driverInfo else framesPerHostBuffer)
                  in if \<not> created then OpenStream_error paUnanticipatedHostError state
                     else if \<not> asioChannelInfosAllocated env
                     then OpenStream_error paInsufficientMemory state
                     else
                       (let infos = ASIOCreateBuffers infos
                        in case OpenStream_channelInfos (ASIOGetChannelInfo env) infos of
                             None \<Rightarrow> OpenStream_error paUnanticipatedHostError state
                           | Some channelInfos \<Rightarrow>
                               if \<not> bufferPtrsAllocated env
                               then OpenStream_error paInsufficientMemory state
                               else
                                 (case OpenStream_bufferPtrs inputChannels outputChannels offset
                                         totalAsioOutputChannels infos of
                                    (None, rows) \<Rightarrow> UndefinedBehaviour
                                  | (Some ptrs, inputRows, outputRows) \<Rightarrow>
                                      (let inputSelected =
                                             (if inputChannels > 0
                                              then SelectAsioToPaConverter p
                                                     (sampleType (channelInfos ! 0))
                                              else (None, 0));
                                           outputSelected =
                                             (if outputChannels > 0
                                              then SelectPaToAsioConverter p
                                                     (sampleType (channelInfos
                                                        ! nat (inputChannels + offset)))
                                              else (None, 0));
                                           setupResult =
                                             (if usingBlockingIo then fst (blockingSetup env)
                                              else PaUtil_InitializeBufferProcessor_result env)
                                       in if setupResult \<noteq> paNoError
                                          then OpenStream_error setupResult state
                                          else
                                            (let stream =
                                               \<lparr>streamFinishedCallback = False,
                                                sampleRate = requestedSampleRate args,
                                                framesPerUserBuffer =
                                                  (if usingBlockingIo \<and> requestedFramesPerBuffer args = 0
                                                   then unat framesPerHostBuffer
                                                   else unat (requestedFramesPerBuffer args)),
                                                framesPerHostCallback = unat framesPerHostBuffer,
                                                asioBufferInfos = infos,
                                                asioChannelInfos = channelInfos,
                                                inputChannelCount = inputChannels,
                                                outputChannelCount = outputChannels,
                                                postOutput = driverPostOutput driverInfo,
                                                outputChannelMap =
                                                  map (\<lambda>i. offset + int i)
                                                    [0..<nat outputChannels],
                                                outputChannelOffset = offset,
                                                bufferPtrs = ptrs,
                                                inputBufferPtrs = inputRows,
                                                outputBufferPtrs = outputRows,
                                                inputBufferConverter = fst inputSelected,
                                                inputShift = snd inputSelected,
                                                outputBufferConverter = fst outputSelected,
                                                outputShift = snd outputSelected,
                                                stopProcessing = False,
                                                stopPlayoutCount = 0,
                                                completedBuffersPlayedEvent = False,
                                                streamFinishedCallbackCalled = False,
                                                isStopped = 1,
                                                isActive = 0,
                                                zeroOutput = False,
                                                reenterCount = 0,
                                                reenterError = 0,
                                                callbackFlags = 0,
                                                blockingState =
                                                  (if usingBlockingIo
                                                   then Some ((snd (blockingSetup env))
                                                                \<lparr>stopFlag := True\<rparr>)
                                                   else None),
                                                hostBuffers = driverHostBuffers env,
                                                hostCalls = []\<rparr>
                                             in Returns (paNoError,
                                                  state\<lparr>asioHostApi := (asioHostApi state)
                                                           \<lparr>openAsioDeviceIndex := asioDeviceIndex\<rparr>,
                                                         theAsioStream := Some stream\<rparr>))))))))"

text \<open>
  \<open>OpenStream\<close> after the parameter blocks: load the driver, check the channel counts
  against it, set the sample rate, reject platform specific flags (by a plain
  \<open>return\<close>, which leaves the driver loaded), then go on to the stream.  When neither
  parameter block ran, the device index is an uninitialised variable.
\<close>

definition OpenStream_driver ::
  "platform \<Rightarrow> 'f OpenEnv \<Rightarrow> OpenArgs \<Rightarrow> int \<Rightarrow> int \<Rightarrow> ulong \<Rightarrow> ulong
     \<Rightarrow> PaDeviceIndex option \<Rightarrow> int list option \<Rightarrow> 'f AsioState
     \<Rightarrow> (PaError \<times> 'f AsioState) outcome" where
  "OpenStream_driver p env args inputChannels outputChannels suggestedInputLatencyFrames
       suggestedOutputLatencyFrames asioDeviceIndex inputChannelSelectors state =
     (case asioDeviceIndex of
        None \<Rightarrow> UndefinedBehaviour
      | Some deviceIndex \<Rightarrow>
          (let state = state\<lparr>asioHostApi := (asioHostApi state)
                          \<lparr>openAsioDriverInfo := LoadAsioDriver_driverInfo env,
                           asioDriverLoaded := (LoadAsioDriver_result env = paNoError)\<rparr>\<rparr>;
               driverInfo = openAsioDriverInfo (asioHostApi state)
           in if LoadAsioDriver_result env \<noteq> paNoError
              then Returns (LoadAsioDriver_result env, state)
              else if inputChannels > 0
                      \<and> inputChannels > sint (driverInputChannelCount driverInfo)
              then OpenStream_error paInvalidChannelCount state
              else if outputChannels \<noteq> 0
                      \<and> outputChannels > sint (driverOutputChannelCount driverInfo)
              then OpenStream_error paInvalidChannelCount state
              else if ValidateAndSetSampleRate_result env \<noteq> paNoError
              then OpenStream_error (ValidateAndSetSampleRate_result env) state
              else if platformSpecificFlags args then Returns (paInvalidFlag, state)
              else OpenStream_stream p env args inputChannels outputChannels
                     suggestedInputLatencyFrames suggestedOutputLatencyFrames deviceIndex
                     inputChannelSelectors state))"

definition OpenStream ::
  "platform \<Rightarrow> 'f OpenEnv \<Rightarrow> OpenArgs \<Rightarrow> 'f AsioState \<Rightarrow> (PaError \<times> 'f AsioState) outcome"
where
  "OpenStream p env args state =
     (if openAsioDeviceIndex (asioHostApi state) \<noteq> paNoDevice
      then Returns (paDeviceUnavailable, state)
      else if theAsioStream state \<noteq> None then AssertionFailure
      else if (case (inputParameters args, outputParameters args) of
                 (Some i, Some out) \<Rightarrow> device i \<noteq> device out | _ \<Rightarrow> False)
      then Returns (paBadIODeviceCombination, state)
      else
        (case (case inputParameters args of
                 None \<Rightarrow> Returns (Inr (0, 0, None, None))
               | Some parameters \<Rightarrow>
                   (case OpenStream_parameters (asioHostApi state) True parameters of
                      Returns (Inr (channels, latency, deviceIndex, selectors)) \<Rightarrow>
                        Returns (Inr (channels, latency, Some deviceIndex, selectors))
                    | Returns (Inl e) \<Rightarrow> Returns (Inl e)
                    | AssertionFailure \<Rightarrow> AssertionFailure
                    | UndefinedBehaviour \<Rightarrow> UndefinedBehaviour)) of
           Returns (Inl e) \<Rightarrow> Returns (e, state)
         | AssertionFailure \<Rightarrow> AssertionFailure
         | UndefinedBehaviour \<Rightarrow> UndefinedBehaviour
         | Returns (Inr (inputChannels, suggestedInputLatencyFrames, inputDevice,
                         inputChannelSelectors)) \<Rightarrow>
             (case outputParameters args of
                None \<Rightarrow>
                  OpenStream_driver p env args inputChannels 0 suggestedInputLatencyFrames 0
                    inputDevice inputChannelSelectors state
              | Some parameters \<Rightarrow>
                  (case OpenStream_parameters (asioHostApi state) False parameters of
                     Returns (Inl e) \<Rightarrow> Returns (e, state)
                   | AssertionFailure \<Rightarrow> AssertionFailure
                   | UndefinedBehaviour \<Rightarrow> UndefinedBehaviour
                   | Returns (Inr (outputChannels, suggestedOutputLatencyFrames, outputDevice,
                                   outputChannelSelectors)) \<Rightarrow>
                       OpenStream_driver p env args inputChannels outputChannels
                         suggestedInputLatencyFrames suggestedOutputLatencyFrames
                         (Some outputDevice) inputChannelSelectors state))))"

text \<open>
  \<open>CloseStream\<close>: everything the stream owns is freed, the open-device marker is
  reset, the driver is unloaded and \<open>theAsioStream\<close> is cleared.  Its argument is the
  one stream there is; without a stream the call dereferences a dangling pointer.
\<close>

definition CloseStream :: "'f AsioState \<Rightarrow> (PaError \<times> 'f AsioState) outcome" where
  "CloseStream state =
     (case theAsioStream state of
        None \<Rightarrow> UndefinedBehaviour
      | Some stream \<Rightarrow>
          Returns (paNoError,
            state\<lparr>asioHostApi := (asioHostApi state)
                     \<lparr>openAsioDeviceIndex := paNoDevice, asioDriverLoaded := False\<rparr>,
                  theAsioStream := None\<rparr>))"

section \<open>Blocking i/o\<close>








text \<open>
  The timeout of the waits in \<open>ReadStream\<close> and \<open>WriteStream\<close>, in milliseconds:
  \<open>(DWORD)(8 * lFramesPerBlock * 1000 / sampleRate)\<close>.  The product is formed in
  \<open>unsigned long\<close>; the division is a floating point division, which for a whole sample
  rate and a 32-bit numerator truncates to the integer quotient.
\<close>

definition blockingTimeout :: "'f PaAsioStream \<Rightarrow> nat" where
  "blockingTimeout stream =
     unat (8 * (word_of_nat (framesPerUserBuffer stream) :: ulong) * 1000) div sampleRate stream"








declare searchHostBufferSize.simps [code]

section \<open>Example configurations\<close>

text \<open>
  A driver with power-of-two buffer sizes from 64 to 8192 frames, 256 preferred, and
  \<open>n\<close> output channels; the answers of a system in which every call succeeds and every
  channel is \<open>ASIOSTInt32LSB\<close>; a request for a two-channel output stream with a
  callback; and the adapter before any stream is open.  Frames are natural numbers.
\<close>

definition exampleDriver :: "long \<Rightarrow> PaAsioDriverInfo" where
  "exampleDriver n =
     \<lparr>driverInputChannelCount = 2, driverOutputChannelCount = n,
      bufferMinSize = 64, bufferMaxSize = 8192, bufferPreferredSize = 256,
      bufferGranularity = - 1, driverPostOutput = False\<rparr>"

definition exampleRing :: "nat PaUtilRingBuffer" where
  "exampleRing = \<lparr>bufferSize = 4, writeIndex = 0, readIndex = 0, buffer = [0, 0, 0, 0]\<rparr>"

definition exampleBlocking :: "nat PaAsioStreamBlockingState" where
  "exampleBlocking =
     \<lparr>stopFlag = False, writeBuffersRequested = 0, readFramesRequested = 0,
      writeBuffersRequestedFlag = False, readFramesRequestedFlag = False,
      writeBuffersReadyEvent = False, readFramesReadyEvent = False,
      writeRingBuffer = exampleRing, readRingBuffer = exampleRing,
      writeRingBufferInitialFrames = 2,
      outputUnderflowFlag = False, inputOverflowFlag = False\<rparr>"

definition exampleOpenEnv :: "long \<Rightarrow> nat OpenEnv" where
  "exampleOpenEnv n =
     \<lparr>LoadAsioDriver_result = paNoError,
      LoadAsioDriver_driverInfo = exampleDriver n,
      ValidateAndSetSampleRate_result = paNoError,
      streamAllocated = True, CreateEvent_ok = True, asioBufferInfosAllocated = True,
      outputChannelMapAllocated = True, ASIOCreateBuffers_ok = (\<lambda>size. True),
      asioChannelInfosAllocated = True,
      ASIOGetChannelInfo = (\<lambda>k. (True, ASIOSTInt32LSB)),
      bufferPtrsAllocated = True, driverHostBuffers = (\<lambda>a. [1, 2, 3, 4, 5, 6, 7, 8]),
      blockingSetup = (paNoError, exampleBlocking),
      PaUtil_InitializeBufferProcessor_result = paNoError\<rparr>"

definition exampleOutputArgs :: "int \<Rightarrow> OpenArgs" where
  "exampleOutputArgs channels =
     \<lparr>inputParameters = None,
      outputParameters =
        Some \<lparr>device = Device 0, channelCount = channels, suggestedLatencyFrames = 512,
              hostApiSpecificStreamInfo = None\<rparr>,
      requestedSampleRate = 48000, requestedFramesPerBuffer = 256,
      platformSpecificFlags = False, streamCallback = True\<rparr>"

definition exampleClosedState :: "nat AsioState" where
  "exampleClosedState =
     \<lparr>asioHostApi =
        \<lparr>deviceInfos = [\<lparr>maxInputChannels = 2, maxOutputChannels = 4\<rparr>],
         openAsioDeviceIndex = paNoDevice, openAsioDriverInfo = exampleDriver 0,
         asioDriverLoaded = False\<rparr>,
      theAsioStream = None\<rparr>"

text \<open>
  A two-channel output stream with a callback, as \<open>OpenStream\<close> builds it on a driver
  with four output channels (host buffers of two frames, to keep the memory small), and
  a stream-finished callback registered.
\<close>

definition exampleStream :: "nat PaAsioStream" where
  "exampleStream =
     \<lparr>streamFinishedCallback = True, sampleRate = 48000,
      framesPerUserBuffer = 2, framesPerHostCallback = 2,
      asioBufferInfos =
        [\<lparr>isInput = False, channelNum = 0, buffers = (HostBuffer 0 0, HostBuffer 0 1)\<rparr>,
         \<lparr>isInput = False, channelNum = 1, buffers = (HostBuffer 1 0, HostBuffer 1 1)\<rparr>,
         \<lparr>isInput = False, channelNum = 2, buffers = (HostBuffer 2 0, HostBuffer 2 1)\<rparr>,
         \<lparr>isInput = False, channelNum = 3, buffers = (HostBuffer 3 0, HostBuffer 3 1)\<rparr>],
      asioChannelInfos =
        [\<lparr>channel = 0, channelIsInput = False, sampleType = ASIOSTInt32LSB\<rparr>,
         \<lparr>channel = 1, channelIsInput = False, sampleType = ASIOSTInt32LSB\<rparr>,
         \<lparr>channel = 2, channelIsInput = False, sampleType = ASIOSTInt32LSB\<rparr>,
         \<lparr>channel = 3, channelIsInput = False, sampleType = ASIOSTInt32LSB\<rparr>],
      inputChannelCount = 0, outputChannelCount = 2, postOutput = False,
      outputChannelMap = [2, 3], outputChannelOffset = 2,
      bufferPtrs = [NullBuffer, NullBuffer, HostBuffer 2 0, HostBuffer 3 0,
                    NullBuffer, NullBuffer, HostBuffer 2 1, HostBuffer 3 1],
      inputBufferPtrs = (None, None), outputBufferPtrs = (Some 2, Some 6),
      inputBufferConverter = None, inputShift = 0,
      outputBufferConverter = None, outputShift = 0,
      stopProcessing = False, stopPlayoutCount = 0, completedBuffersPlayedEvent = False,
      streamFinishedCallbackCalled = False, isStopped = 0, isActive = 1, zeroOutput = False,
      reenterCount = - 1, reenterError = 0, callbackFlags = 0,
      blockingState = None,
      hostBuffers = (\<lambda>a. [1, 2, 3, 4, 5, 6, 7, 8]),
      hostCalls = []\<rparr>"

text \<open>The same stream once it drains with its output forced to silence.\<close>

definition exampleDraining :: "nat PaAsioStream" where
  "exampleDraining = exampleStream\<lparr>stopProcessing := True, zeroOutput := True\<rparr>"

text \<open>
  The flag bits as the portable audio header defines them, and the two error codes
  (-9980 and -9981) as 32-bit patterns.
\<close>

definition exampleConstants :: PaConstants where
  "exampleConstants =
     \<lparr>paInputOverflow = 2, paOutputUnderflow = 4,
      paOutputUnderflowedCode = - 9980, paInputOverflowedCode = - 9981\<rparr>"

text \<open>
  A buffer processor that leaves the verdict as it finds it and whose output is empty;
  and one whose user callback answers \<open>paComplete\<close>.
\<close>

definition exampleCycleEnv :: CycleEnv where
  "exampleCycleEnv =
     \<lparr>PaUtil_EndBufferProcessing = (\<lambda>callbackResult. callbackResult),
      PaUtil_IsBufferProcessorOutputEmpty = True\<rparr>"

definition exampleCompleteEnv :: CycleEnv where
  "exampleCompleteEnv =
     \<lparr>PaUtil_EndBufferProcessing = (\<lambda>callbackResult. paComplete),
      PaUtil_IsBufferProcessorOutputEmpty = True\<rparr>"

text \<open>
  A real-time thread that runs three buffer exchange cycles while \<open>StopStream\<close> waits
  for the completion event, and a driver whose \<open>ASIOStop\<close> succeeds.
\<close>

definition exampleStopEnv :: "nat StopEnv" where
  "exampleStopEnv =
     \<lparr>flushWait = (\<lambda>stream. (WAIT_OBJECT_0, stream)),
      drainWait = (\<lambda>stream.
        (WAIT_OBJECT_0,
         the (bufferSwitchTimeInfo exampleConstants exampleCycleEnv 0 []
           (bufferSwitchTimeInfo exampleConstants exampleCycleEnv 1 []
             (bufferSwitchTimeInfo exampleConstants exampleCycleEnv 0 [] (Some stream)))))),
      ASIOStop_ok = True,
      sleepInterference = (\<lambda>stream. stream)\<rparr>"







section \<open>Properties of the host buffer size negotiation\<close>

lemma sint32_alt:
  "sint (w::32 word) = (if uint w < 2147483648 then uint w else uint w - 4294967296)"
proof -
  have b: "0 \<le> uint w" "uint w < 4294967296" using uint_lt2p[of w] by simp_all
  have "sint w = signed_take_bit 31 (uint w)" by (simp add: sint_uint)
  also have "\<dots> = take_bit 32 (uint w + 2147483648) - 2147483648"
    by (simp add: signed_take_bit_eq_take_bit_shift)
  also have "\<dots> = (uint w + 2147483648) mod 4294967296 - 2147483648"
    by (simp add: take_bit_eq_mod)
  also have "\<dots> = (if uint w < 2147483648 then uint w else uint w - 4294967296)"
  proof (cases "uint w < 2147483648")
    case True
    then have "(uint w + 2147483648) mod 4294967296 = uint w + 2147483648" using b by simp
    then show ?thesis using True by simp
  next
    case False
    have "(uint w + 2147483648) mod 4294967296
            = (uint w + 2147483648 - 4294967296) mod 4294967296"
      by (metis minus_mod_self2)
    also have "\<dots> = uint w + 2147483648 - 4294967296" using b False by simp
    finally show ?thesis using False by simp
  qed
  finally show ?thesis .
qed

lemma between_int_signed:
  fixes x y z :: int
  assumes "0 \<le> x" "x < y" "x \<le> z" "z \<le> y" "y < 4294967296"
    and "(if x < 2147483648 then x else x - 4294967296)
           \<le> (if y < 2147483648 then y else y - 4294967296)"
  shows "(if x < 2147483648 then x else x - 4294967296)
           \<le> (if z < 2147483648 then z else z - 4294967296)
       \<and> (if z < 2147483648 then z else z - 4294967296)
           \<le> (if y < 2147483648 then y else y - 4294967296)"
  using assms by (auto split: if_splits)

lemma between_unsigned_signed:
  fixes a r b :: "32 word"
  assumes "sint a \<le> sint b" "a < b" "a \<le> r" "r \<le> b"
  shows "sint a \<le> sint r \<and> sint r \<le> sint b"
proof -
  have h: "uint a < uint b" "uint a \<le> uint r" "uint r \<le> uint b"
    using assms by (simp_all add: word_le_def word_less_def)
  have b: "uint b < 4294967296" using uint_lt2p[of b] by simp
  have a: "0 \<le> uint a" by simp
  have s: "(if uint a < 2147483648 then uint a else uint a - 4294967296)
           \<le> (if uint b < 2147483648 then uint b else uint b - 4294967296)"
    using assms(1) unfolding sint32_alt[of a] sint32_alt[of b] .
  show ?thesis unfolding sint32_alt[of a] sint32_alt[of b] sint32_alt[of r]
    by (rule between_int_signed[OF a h(1) h(2) h(3) b s])
qed

lemma nonneg_signed_unsigned_le:
  fixes a b :: "32 word"
  assumes "0 \<le> sint a" "sint a \<le> sint b"
  shows "a \<le> b"
proof -
  have "uint a < 4294967296" "uint b < 4294967296"
    using uint_lt2p[of a] uint_lt2p[of b] by simp_all
  then have "uint a \<le> uint b"
    using assms unfolding sint32_alt[of a] sint32_alt[of b] by (simp split: if_splits)
  then show ?thesis by (simp add: word_le_def)
qed

lemma clampToDriverRange_unsigned:
  assumes "bufferMinSize di \<le> bufferMaxSize di"
  shows "bufferMinSize di \<le> clampToDriverRange r di \<and> clampToDriverRange r di \<le> bufferMaxSize di"
  using assms by (auto simp: clampToDriverRange_def Let_def)

text \<open>
  C5.  For all device limits with \<open>min \<le> preferred \<le> max\<close> (as the signed \<open>long\<close>
  values the driver reports) and every target latency, the unconstrained negotiator
  returns a value in \<open>[min, max]\<close>: read as a signed \<open>long\<close> in every case, and as the
  \<open>unsigned long\<close> it is whenever \<open>min\<close> is not negative.
\<close>

theorem unconstrained_result_in_range:
  assumes "sint (bufferMinSize di) \<le> sint (bufferPreferredSize di)"
      and "sint (bufferPreferredSize di) \<le> sint (bufferMaxSize di)"
  shows "sint (bufferMinSize di)
           \<le> sint (SelectHostBufferSizeForUnspecifiedUserFramesPerBuffer target di)
       \<and> sint (SelectHostBufferSizeForUnspecifiedUserFramesPerBuffer target di)
           \<le> sint (bufferMaxSize di)
       \<and> (0 \<le> sint (bufferMinSize di) \<longrightarrow>
            bufferMinSize di \<le> SelectHostBufferSizeForUnspecifiedUserFramesPerBuffer target di
          \<and> SelectHostBufferSizeForUnspecifiedUserFramesPerBuffer target di \<le> bufferMaxSize di)"
proof -
  let ?mn = "bufferMinSize di" and ?mx = "bufferMaxSize di" and ?p = "bufferPreferredSize di"
  let ?r = "SelectHostBufferSizeForUnspecifiedUserFramesPerBuffer target di"
  have mm: "sint ?mn \<le> sint ?mx" using assms by simp
  have signed: "sint ?mn \<le> sint ?r \<and> sint ?r \<le> sint ?mx"
  proof (cases "target \<le> ?mn")
    case True
    then show ?thesis using mm
      by (simp add: SelectHostBufferSizeForUnspecifiedUserFramesPerBuffer_def)
  next
    case f1: False
    show ?thesis
    proof (cases "?mx \<le> target")
      case True
      then show ?thesis using mm f1
        by (simp add: SelectHostBufferSizeForUnspecifiedUserFramesPerBuffer_def)
    next
      case f2: False
      have lt: "?mn < ?mx" using f1 f2 by simp
      then have le: "?mn \<le> ?mx" by simp
      have cls: "sint ?mn \<le> sint (clampToDriverRange r di)
               \<and> sint (clampToDriverRange r di) \<le> sint ?mx" for r
        using between_unsigned_signed[OF mm lt] clampToDriverRange_unsigned[OF le] by blast
      show ?thesis using f1 f2 assms cls
        by (simp add: SelectHostBufferSizeForUnspecifiedUserFramesPerBuffer_def Let_def)
    qed
  qed
  have unsigned: "?mn \<le> ?r \<and> ?r \<le> ?mx" if nn: "0 \<le> sint ?mn"
  proof -
    have "0 \<le> sint ?r" using signed nn by linarith
    then show ?thesis using signed nn nonneg_signed_unsigned_le by blast
  qed
  show ?thesis using signed unsigned by blast
qed

theorem unconstrained_result_in_range_witness:
  "sint (bufferMinSize \<lparr>driverInputChannelCount = 2, driverOutputChannelCount = 2,
          bufferMinSize = 64, bufferMaxSize = 8192, bufferPreferredSize = 256,
          bufferGranularity = - 1, driverPostOutput = False\<rparr>) \<le> (256 :: int)
   \<and> SelectHostBufferSizeForUnspecifiedUserFramesPerBuffer 1000
        \<lparr>driverInputChannelCount = 2, driverOutputChannelCount = 2,
          bufferMinSize = 64, bufferMaxSize = 8192, bufferPreferredSize = 256,
          bufferGranularity = - 1, driverPostOutput = False\<rparr> = 1024
   \<and> (64 :: 32 word) \<le> 1024 \<and> (1024 :: 32 word) \<le> 8192"
  using unconstrained_result_in_range[of
      "\<lparr>driverInputChannelCount = 2, driverOutputChannelCount = 2,
          bufferMinSize = 64, bufferMaxSize = 8192, bufferPreferredSize = 256,
          bufferGranularity = - 1, driverPostOutput = False\<rparr>" 1000]
  by (simp add: SelectHostBufferSizeForUnspecifiedUserFramesPerBuffer_def NextPowerOfTwo_def
        clampToDriverRange_def Let_def)


text \<open>
  C3 fails on the entry point that \<open>OpenStream\<close> calls.  With power-of-two sizes from 64
  to 8192 frames, 256 preferred, a user block of 512 frames and a target of 1000
  frames, the candidate 1024 is a power of two in range, a multiple of the user block
  and not below the target, and the search of the constrained negotiator finds it;
  the entry point returns 256, which is neither zero nor a multiple of the user block.
\<close>

theorem open_buffer_size_counterexample:
  "SelectHostBufferSize 1000 512 (exampleDriver 2) = 256
   \<and> (256 :: ulong) \<noteq> 0 \<and> (256 :: ulong) mod 512 \<noteq> 0
   \<and> SelectHostBufferSizeForSpecifiedUserFramesPerBuffer 1000 512 (exampleDriver 2) = Some 1024
   \<and> bufferMinSize (exampleDriver 2) \<le> 1024 \<and> 1024 \<le> bufferMaxSize (exampleDriver 2)
   \<and> (1024 :: ulong) = 2 ^ 10 \<and> (1024 :: ulong) mod 512 = 0 \<and> (1000 :: ulong) \<le> 1024"
  by (simp add: SelectHostBufferSize_def SelectHostBufferSizeForSpecifiedUserFramesPerBuffer_def
        exampleDriver_def searchHostBufferSize.simps)

section \<open>Properties of opening and closing\<close>

lemma OpenStream_stream_success:
  assumes "OpenStream_stream p env args ic oc sil sol dev sel state = Returns (paNoError, state')"
  shows "openAsioDeviceIndex (asioHostApi state') = dev \<and> theAsioStream state' \<noteq> None"
  using assms
  by (auto simp: OpenStream_stream_def OpenStream_error_def Let_def
      split: if_splits option.splits prod.splits)

lemma OpenStream_driver_success:
  assumes "OpenStream_driver p env args ic oc sil sol dev sel state = Returns (paNoError, state')"
  shows "\<exists>d. dev = Some d \<and> openAsioDeviceIndex (asioHostApi state') = d
           \<and> theAsioStream state' \<noteq> None"
  using assms
  by (auto simp: OpenStream_driver_def OpenStream_error_def Let_def
      split: if_splits option.splits dest!: OpenStream_stream_success)

lemma OpenStream_parameters_device:
  assumes "OpenStream_parameters hostApi forInput parameters = Returns (Inr (c, l, d, sel))"
  shows "\<exists>n. d = Device n \<and> n < length (deviceInfos hostApi)"
proof (cases "device parameters")
  case (Device n)
  with assms have "d = Device n" "n < length (deviceInfos hostApi)"
    by (simp_all add: OpenStream_parameters_def Let_def split: if_splits prod.splits)
  then show ?thesis by blast
qed (use assms in \<open>simp_all add: OpenStream_parameters_def\<close>)

lemma OpenStream_parameters_error:
  assumes "OpenStream_parameters hostApi forInput parameters = Returns (Inl e)"
  shows "e \<noteq> paNoError"
  using assms
  by (cases "device parameters")
     (auto simp: OpenStream_parameters_def Let_def split: if_splits prod.splits)

lemma OpenStream_success:
  assumes "OpenStream p env args state = Returns (paNoError, state')"
  shows "openAsioDeviceIndex (asioHostApi state') \<noteq> paNoDevice \<and> theAsioStream state' \<noteq> None"
  using assms
  apply (simp add: OpenStream_def
           split: if_splits option.splits outcome.splits sum.splits prod.splits)
  apply (auto dest!: OpenStream_driver_success OpenStream_parameters_device
                     OpenStream_parameters_error)
  done

lemma OpenStream_unavailable:
  assumes "openAsioDeviceIndex (asioHostApi state) \<noteq> paNoDevice"
  shows "OpenStream p env args state = Returns (paDeviceUnavailable, state)"
  using assms by (simp add: OpenStream_def)

text \<open>
  C9.  \<open>OpenStream\<close> returns \<open>paDeviceUnavailable\<close> and leaves everything as it is whenever
  the open-device marker is set.  An \<open>OpenStream\<close> that returns \<open>paNoError\<close> started with
  the marker clear and leaves it set, together with \<open>theAsioStream\<close>; from then on every
  \<open>OpenStream\<close>, whatever its arguments and whatever the system answers, returns
  \<open>paDeviceUnavailable\<close> without changing the state; and \<open>CloseStream\<close> on that state
  returns with the marker clear.
\<close>

theorem single_open_stream:
  "(openAsioDeviceIndex (asioHostApi state) \<noteq> paNoDevice \<longrightarrow>
      OpenStream p env args state = Returns (paDeviceUnavailable, state))
   \<and> (OpenStream p env args state = Returns (paNoError, opened) \<longrightarrow>
        openAsioDeviceIndex (asioHostApi state) = paNoDevice
      \<and> openAsioDeviceIndex (asioHostApi opened) \<noteq> paNoDevice
      \<and> OpenStream p' env' args' opened = Returns (paDeviceUnavailable, opened)
      \<and> (\<exists>closed. CloseStream opened = Returns (paNoError, closed)
             \<and> openAsioDeviceIndex (asioHostApi closed) = paNoDevice))"
proof (intro conjI impI)
  assume "openAsioDeviceIndex (asioHostApi state) \<noteq> paNoDevice"
  then show "OpenStream p env args state = Returns (paDeviceUnavailable, state)"
    by (rule OpenStream_unavailable)
next
  assume ok: "OpenStream p env args state = Returns (paNoError, opened)"
  show "openAsioDeviceIndex (asioHostApi state) = paNoDevice"
  proof (rule ccontr)
    assume "openAsioDeviceIndex (asioHostApi state) \<noteq> paNoDevice"
    from OpenStream_unavailable[OF this, of p env args] ok show False by simp
  qed
  from OpenStream_success[OF ok]
  have m: "openAsioDeviceIndex (asioHostApi opened) \<noteq> paNoDevice"
    and t: "theAsioStream opened \<noteq> None" by simp_all
  show "openAsioDeviceIndex (asioHostApi opened) \<noteq> paNoDevice" by (rule m)
  show "OpenStream p' env' args' opened = Returns (paDeviceUnavailable, opened)"
    using m by (rule OpenStream_unavailable)
  show "\<exists>closed. CloseStream opened = Returns (paNoError, closed)
           \<and> openAsioDeviceIndex (asioHostApi closed) = paNoDevice"
    using t by (auto simp: CloseStream_def)
qed

lemma example_open_succeeds:
  "\<exists>opened. OpenStream WINDOWS (exampleOpenEnv 4) (exampleOutputArgs 2) exampleClosedState
              = Returns (paNoError, opened)"
  by (simp add: OpenStream_def OpenStream_parameters_def ValidateAsioSpecificStreamInfo_def
      OpenStream_driver_def OpenStream_stream_def OpenStream_channelOffset_def
      OpenStream_bufferInfos_def OpenStream_framesPerHostBuffer_def ASIOCreateBuffers_def
      OpenStream_channelInfos_def OpenStream_bufferPtrs_def storeBufferPair_def storePtr_def
      exampleOpenEnv_def exampleOutputArgs_def exampleClosedState_def exampleDriver_def
      SelectHostBufferSize_def Let_def upt_conv_Cons)

theorem single_open_stream_witness:
  "\<exists>opened closed.
     OpenStream WINDOWS (exampleOpenEnv 4) (exampleOutputArgs 2) exampleClosedState
       = Returns (paNoError, opened)
     \<and> openAsioDeviceIndex (asioHostApi opened) \<noteq> paNoDevice
     \<and> OpenStream MAC (exampleOpenEnv 2) (exampleOutputArgs 1) opened
         = Returns (paDeviceUnavailable, opened)
     \<and> CloseStream opened = Returns (paNoError, closed)
     \<and> openAsioDeviceIndex (asioHostApi closed) = paNoDevice"
proof -
  from example_open_succeeds obtain opened where
    ok: "OpenStream WINDOWS (exampleOpenEnv 4) (exampleOutputArgs 2) exampleClosedState
           = Returns (paNoError, opened)" ..
  from single_open_stream[of exampleClosedState WINDOWS "exampleOpenEnv 4" "exampleOutputArgs 2"
         opened MAC "exampleOpenEnv 2" "exampleOutputArgs 1"] ok
  show ?thesis by blast
qed

subsection \<open>The host buffer size of an open stream\<close>

lemma OpenStream_stream_frames:
  assumes "OpenStream_stream p env args ic oc sil sol dev sel state = Returns (paNoError, state')"
  shows "\<exists>stream. theAsioStream state' = Some stream
           \<and> framesPerHostCallback stream
               = unat (bufferPreferredSize (openAsioDriverInfo (asioHostApi state)))"
  using assms
  by (auto simp: OpenStream_stream_def OpenStream_error_def Let_def
        OpenStream_framesPerHostBuffer_def SelectHostBufferSize_def
      split: if_splits option.splits prod.splits)

lemma OpenStream_driver_frames:
  assumes "OpenStream_driver p env args ic oc sil sol dev sel state = Returns (paNoError, state')"
  shows "\<exists>stream. theAsioStream state' = Some stream
           \<and> framesPerHostCallback stream
               = unat (bufferPreferredSize (LoadAsioDriver_driverInfo env))"
  using assms
  by (auto simp: OpenStream_driver_def OpenStream_error_def Let_def
      split: if_splits option.splits dest!: OpenStream_stream_frames)

lemma OpenStream_frames:
  assumes "OpenStream p env args state = Returns (paNoError, state')"
  shows "\<exists>stream. theAsioStream state' = Some stream
           \<and> framesPerHostCallback stream
               = unat (bufferPreferredSize (LoadAsioDriver_driverInfo env))"
  using assms
  apply (simp add: OpenStream_def
           split: if_splits option.splits outcome.splits sum.splits prod.splits)
  apply (auto dest!: OpenStream_driver_frames OpenStream_parameters_error)
  done


text \<open>
  C3, amended.  The host buffer size that \<open>OpenStream\<close> asks the driver for is the
  driver's preferred size, whatever the user block size and the target latency are:
  \<open>SelectHostBufferSize\<close> ignores both, and the callback interface does not call it.
  The stream of every \<open>OpenStream\<close> that returns \<open>paNoError\<close> has the preferred size of
  the loaded driver as its host buffer size.
\<close>

theorem open_uses_preferred_size:
  "SelectHostBufferSize targetBufferingLatencyFrames userFramesPerBuffer driverInfo
     = bufferPreferredSize driverInfo
   \<and> OpenStream_framesPerHostBuffer usingBlockingIo userFramesPerBuffer
       suggestedInputLatencyFrames suggestedOutputLatencyFrames driverInfo
     = bufferPreferredSize driverInfo
   \<and> (OpenStream p env args state = Returns (paNoError, opened) \<longrightarrow>
        (\<exists>stream. theAsioStream opened = Some stream
           \<and> framesPerHostCallback stream
               = unat (bufferPreferredSize (LoadAsioDriver_driverInfo env))))"
  by (simp add: SelectHostBufferSize_def OpenStream_framesPerHostBuffer_def Let_def
        OpenStream_frames)

lemma example_open_512_succeeds:
  "\<exists>opened. OpenStream WINDOWS (exampleOpenEnv 4)
               ((exampleOutputArgs 2)\<lparr>requestedFramesPerBuffer := 512\<rparr>) exampleClosedState
              = Returns (paNoError, opened)"
  by (simp add: OpenStream_def OpenStream_parameters_def ValidateAsioSpecificStreamInfo_def
      OpenStream_driver_def OpenStream_stream_def OpenStream_channelOffset_def
      OpenStream_bufferInfos_def OpenStream_framesPerHostBuffer_def ASIOCreateBuffers_def
      OpenStream_channelInfos_def OpenStream_bufferPtrs_def storeBufferPair_def storePtr_def
      exampleOpenEnv_def exampleOutputArgs_def exampleClosedState_def exampleDriver_def
      SelectHostBufferSize_def Let_def upt_conv_Cons)

theorem open_uses_preferred_size_witness:
  "\<exists>opened stream.
     OpenStream WINDOWS (exampleOpenEnv 4)
       ((exampleOutputArgs 2)\<lparr>requestedFramesPerBuffer := 512\<rparr>) exampleClosedState
       = Returns (paNoError, opened)
     \<and> theAsioStream opened = Some stream
     \<and> framesPerHostCallback stream = 256"
proof -
  from example_open_512_succeeds obtain opened where
    ok: "OpenStream WINDOWS (exampleOpenEnv 4)
           ((exampleOutputArgs 2)\<lparr>requestedFramesPerBuffer := 512\<rparr>) exampleClosedState
           = Returns (paNoError, opened)" ..
  with open_uses_preferred_size[of _ _ "exampleDriver 4" _ _ _ WINDOWS "exampleOpenEnv 4"
      "(exampleOutputArgs 2)\<lparr>requestedFramesPerBuffer := 512\<rparr>" exampleClosedState opened]
  obtain stream where "theAsioStream opened = Some stream"
    "framesPerHostCallback stream
       = unat (bufferPreferredSize (LoadAsioDriver_driverInfo (exampleOpenEnv 4)))"
    by blast
  then show ?thesis using ok by (auto simp add: exampleOpenEnv_def exampleDriver_def)
qed

section \<open>Properties of stopping\<close>

lemma markStopped_fields:
  "isStopped (markStopped stream) = 1" "isActive (markStopped stream) = 0"
  "streamFinishedCallbackCalled (markStopped stream) = streamFinishedCallbackCalled stream"
  "streamFinishedCallback (markStopped stream) = streamFinishedCallback stream"
  "hostCalls (markStopped stream) =
     hostCalls stream @ (if \<not> streamFinishedCallbackCalled stream \<and> streamFinishedCallback stream
                         then [streamFinishedCallback_call] else [])"
  by (simp_all add: markStopped_def Let_def logCall_def)

text \<open>
  C10.  Whatever the two waits do and return, and whether or not \<open>ASIOStop\<close> succeeds,
  the stream that \<open>StopStream\<close> returns is stopped and not active, as \<open>IsStreamStopped\<close>
  and \<open>IsStreamActive\<close> report it.  \<open>StopStream\<close> ends by calling the stream-finished
  callback exactly when, with the driver stopped, the flag
  \<open>streamFinishedCallbackCalled\<close> is not set (and a callback is registered); after that
  call, or in its place, it calls nothing.
\<close>

theorem StopStream_marks_stopped:
  "IsStreamStopped (snd (StopStream env stream)) = 1
   \<and> IsStreamActive (snd (StopStream env stream)) = 0
   \<and> hostCalls (snd (StopStream env stream)) =
       hostCalls (snd (StopStream_stopDriver env stream))
       @ (if \<not> streamFinishedCallbackCalled (snd (StopStream_stopDriver env stream))
             \<and> streamFinishedCallback (snd (StopStream_stopDriver env stream))
          then [streamFinishedCallback_call] else [])"
  by (cases "StopStream_stopDriver env stream")
     (simp add: StopStream_def IsStreamStopped_def IsStreamActive_def markStopped_fields)

section \<open>Buffer exchange cycles\<close>

subsection \<open>Frame lemmas\<close>

lemma zeroHostBuffer_frame:
  "zeroHostBuffer index stream i = stream\<lparr>hostBuffers := hostBuffers (zeroHostBuffer index stream i)\<rparr>"
  by (simp add: zeroHostBuffer_def Let_def)

lemma foldl_zeroHostBuffer_frame:
  "foldl (zeroHostBuffer index) stream xs
     = stream\<lparr>hostBuffers := hostBuffers (foldl (zeroHostBuffer index) stream xs)\<rparr>"
proof (induction xs arbitrary: stream)
  case Nil
  show ?case by simp
next
  case (Cons x xs)
  have "foldl (zeroHostBuffer index) stream (x # xs)
          = foldl (zeroHostBuffer index) (zeroHostBuffer index stream x) xs" by simp
  also have "\<dots> = (zeroHostBuffer index stream x)
        \<lparr>hostBuffers := hostBuffers (foldl (zeroHostBuffer index) (zeroHostBuffer index stream x) xs)\<rparr>"
    by (rule Cons.IH)
  also have "\<dots> = stream
        \<lparr>hostBuffers := hostBuffers (foldl (zeroHostBuffer index) (zeroHostBuffer index stream x) xs)\<rparr>"
    by (subst zeroHostBuffer_frame) simp
  finally show ?case by simp
qed

lemma ZeroOutputBuffers_frame:
  "ZeroOutputBuffers stream index
     = stream\<lparr>hostBuffers := hostBuffers (ZeroOutputBuffers stream index),
              hostCalls := hostCalls stream @ [ZeroOutputBuffers_call index]\<rparr>"
proof -
  let ?s = "stream\<lparr>hostCalls := hostCalls stream @ [ZeroOutputBuffers_call index]\<rparr>"
  have f: "foldl (zeroHostBuffer index) ?s xs
             = stream\<lparr>hostBuffers := hostBuffers (foldl (zeroHostBuffer index) ?s xs),
                      hostCalls := hostCalls stream @ [ZeroOutputBuffers_call index]\<rparr>" for xs
    by (subst foldl_zeroHostBuffer_frame) simp
  show ?thesis
  proof (cases "zeroOutput stream")
    case True
    then have e: "ZeroOutputBuffers stream index
                    = foldl (zeroHostBuffer index) ?s [0..<nat (outputChannelOffset stream)]"
      by (simp add: ZeroOutputBuffers_def Let_def)
    show ?thesis unfolding e by (rule f)
  next
    case False
    then have e: "ZeroOutputBuffers stream index
                    = foldl (zeroHostBuffer index) ?s
                        [0..<nat (outputChannelOffset stream + outputChannelCount stream)]"
      by (simp add: ZeroOutputBuffers_def Let_def)
    show ?thesis unfolding e by (rule f)
  qed
qed

text \<open>The silence branch in closed form.\<close>

lemma silentCycle_closed:
  "silentCycle index stream =
     stream\<lparr>hostBuffers := hostBuffers (ZeroOutputBuffers stream index),
       hostCalls := hostCalls stream @ [ZeroOutputBuffers_call index]
         @ (if postOutput stream then [ASIOOutputReady_call] else [])
         @ (if drainStep stream
            then (if streamFinishedCallback stream then [streamFinishedCallback_call] else [])
                 @ [SetEvent_completedBuffersPlayedEvent_call]
            else []),
       stopPlayoutCount :=
         (if stopProcessing stream \<and> stopPlayoutCount stream < 2
          then stopPlayoutCount stream + 1 else stopPlayoutCount stream),
       isActive := (if drainStep stream then 0 else isActive stream),
       streamFinishedCallbackCalled := (drainStep stream \<or> streamFinishedCallbackCalled stream),
       completedBuffersPlayedEvent := (drainStep stream \<or> completedBuffersPlayedEvent stream)\<rparr>"
proof -
  define hb where "hb = hostBuffers (ZeroOutputBuffers stream index)"
  have z: "ZeroOutputBuffers stream index
             = stream\<lparr>hostBuffers := hb,
                      hostCalls := hostCalls stream @ [ZeroOutputBuffers_call index]\<rparr>"
    unfolding hb_def by (rule ZeroOutputBuffers_frame)
  have "silentCycle index stream =
     stream\<lparr>hostBuffers := hb,
       hostCalls := hostCalls stream @ [ZeroOutputBuffers_call index]
         @ (if postOutput stream then [ASIOOutputReady_call] else [])
         @ (if drainStep stream
            then (if streamFinishedCallback stream then [streamFinishedCallback_call] else [])
                 @ [SetEvent_completedBuffersPlayedEvent_call]
            else []),
       stopPlayoutCount :=
         (if stopProcessing stream \<and> stopPlayoutCount stream < 2
          then stopPlayoutCount stream + 1 else stopPlayoutCount stream),
       isActive := (if drainStep stream then 0 else isActive stream),
       streamFinishedCallbackCalled := (drainStep stream \<or> streamFinishedCallbackCalled stream),
       completedBuffersPlayedEvent := (drainStep stream \<or> completedBuffersPlayedEvent stream)\<rparr>"
    unfolding silentCycle_def z
    by (simp add: finishPlayback_def logCall_def Let_def drainStep_def)
  then show ?thesis unfolding hb_def .
qed


lemma iteration_missed:
  "buffersDone > 0 \<Longrightarrow>
   bufferSwitchIteration consts env index buffersDone stream
     = stream\<lparr>callbackFlags := missedCycleFlags consts stream\<rparr>"
  by (simp add: bufferSwitchIteration_def missedCycleFlags_def Let_def ac_simps)

lemma iteration_first:
  "bufferSwitchIteration consts env index 0 stream
     = (if zeroOutput stream then silentCycle index stream else processCycle env index stream)"
  by (simp add: bufferSwitchIteration_def)

lemma reentered_closed:
  "(bufferSwitchReentered ^^ n) stream
     = stream\<lparr>reenterCount := reenterCount stream + int n,
              reenterError := reenterError stream + int n\<rparr>"
  by (induction n) (simp_all add: bufferSwitchReentered_def)

lemma missedCycleFlags_idem [simp]:
  "missedCycleFlags consts (stream\<lparr>callbackFlags := missedCycleFlags consts stream\<rparr>)
     = missedCycleFlags consts stream"
  by (simp add: missedCycleFlags_def word_bw_assocs word_bw_comms word_bw_lcs)

lemma missedCycleFlags_counters [simp]:
  "missedCycleFlags consts (stream\<lparr>reenterCount := c\<rparr>) = missedCycleFlags consts stream"
  "missedCycleFlags consts (stream\<lparr>reenterError := e\<rparr>) = missedCycleFlags consts stream"
  by (simp_all add: missedCycleFlags_def)

lemma reenterError_iteration [simp]:
  "reenterError (bufferSwitchIteration consts env index buffersDone stream) = reenterError stream"
  by (cases "buffersDone > 0")
     (simp_all add: iteration_missed iteration_first silentCycle_closed processCycle_def
        finishPlayback_def logCall_def logCalls_def Let_def)

lemma loop_closed:
  "reenterCount stream \<ge> 0 \<Longrightarrow>
   \<exists>e. bufferSwitchLoop cs env index nested buffersDone stream
        = (bufferSwitchIteration cs env index buffersDone stream)
            \<lparr>callbackFlags :=
               (if reenterCount stream + int ((case nested of [] \<Rightarrow> 0 | n # ns \<Rightarrow> n)) \<ge> 1
                then missedCycleFlags cs
                       (bufferSwitchIteration cs env index buffersDone stream)
                else callbackFlags (bufferSwitchIteration cs env index buffersDone stream)),
             reenterCount := - 1,
             reenterError := e\<rparr>
      \<and> e \<ge> reenterError stream + int ((case nested of [] \<Rightarrow> 0 | n # ns \<Rightarrow> n))
      \<and> (tl nested = [] \<longrightarrow> e = reenterError stream + int ((case nested of [] \<Rightarrow> 0 | n # ns \<Rightarrow> n)))"
proof (induction cs env index nested buffersDone stream rule: bufferSwitchLoop.induct)
  case (1 cs env index nested buffersDone stream)
  let ?it = "bufferSwitchIteration cs env index buffersDone stream"
  let ?n = "(case nested of [] \<Rightarrow> 0 | n # ns \<Rightarrow> n)"
  let ?c = "reenterCount stream + int ?n - 1"
  let ?s3 = "?it\<lparr>reenterError := reenterError stream + int ?n, reenterCount := ?c\<rparr>"
  have s3: "((bufferSwitchReentered ^^ ?n) ?it)
              \<lparr>reenterCount := reenterCount ((bufferSwitchReentered ^^ ?n) ?it) - 1\<rparr> = ?s3"
    by (simp add: reentered_closed)
  have unfold: "bufferSwitchLoop cs env index nested buffersDone stream
      = (if ?c \<ge> 0 then bufferSwitchLoop cs env index (tl nested) (buffersDone + 1) ?s3
         else ?s3)"
    by (subst bufferSwitchLoop.simps) (simp add: Let_def reentered_closed)
  show ?case
  proof (cases "?c \<ge> 0")
    case True
    have rc: "reenterCount ?s3 \<ge> 0" using True by simp
    note ih0 = "1.IH"[OF refl refl refl, unfolded s3]
    from ih0 True rc
    obtain e where
      ih: "bufferSwitchLoop cs env index (tl nested) (buffersDone + 1) ?s3
        = (bufferSwitchIteration cs env index (buffersDone + 1) ?s3)
            \<lparr>callbackFlags :=
               (if reenterCount ?s3 + int ((case tl nested of [] \<Rightarrow> 0 | n # ns \<Rightarrow> n)) \<ge> 1
                then missedCycleFlags cs
                       (bufferSwitchIteration cs env index (buffersDone + 1) ?s3)
                else callbackFlags (bufferSwitchIteration cs env index (buffersDone + 1) ?s3)),
             reenterCount := - 1,
             reenterError := e\<rparr>"
      and e: "e \<ge> reenterError ?s3 + int ((case tl nested of [] \<Rightarrow> 0 | n # ns \<Rightarrow> n))"
      and ex: "tl (tl nested) = [] \<longrightarrow> e = reenterError ?s3 + int ((case tl nested of [] \<Rightarrow> 0 | n # ns \<Rightarrow> n))"
      by (auto simp:)
    have it': "bufferSwitchIteration cs env index (buffersDone + 1) ?s3
                 = ?s3\<lparr>callbackFlags := missedCycleFlags cs ?it\<rparr>"
      by (simp add: iteration_missed)
    have "bufferSwitchLoop cs env index nested buffersDone stream
            = ?it\<lparr>callbackFlags := missedCycleFlags cs ?it, reenterCount := - 1,
                   reenterError := e\<rparr>"
      unfolding unfold using True ih it' by (simp add: missedCycleFlags_def ac_simps)
    moreover have "e \<ge> reenterError stream + int ?n" using e by simp
    moreover have "tl nested = [] \<longrightarrow> e = reenterError stream + int ?n"
      using ex by (auto simp:)
    ultimately show ?thesis using True by auto
  next
    case False
    then have c: "?c = - 1" using "1.prems" by linarith
    have "bufferSwitchLoop cs env index nested buffersDone stream = ?s3"
      unfolding unfold using False by simp
    then show ?thesis using False c by (intro exI[of _ "reenterError stream + int ?n"]) simp
  qed
qed


subsection \<open>Commuting with the counter\<close>

lemma zeroHostBuffer_reenterCount:
  "zeroHostBuffer index (stream\<lparr>reenterCount := c\<rparr>) i
     = (zeroHostBuffer index stream i)\<lparr>reenterCount := c\<rparr>"
  by (simp add: zeroHostBuffer_def Let_def)

lemma foldl_zeroHostBuffer_reenterCount:
  "foldl (zeroHostBuffer index) (stream\<lparr>reenterCount := c\<rparr>) xs
     = (foldl (zeroHostBuffer index) stream xs)\<lparr>reenterCount := c\<rparr>"
  by (induction xs arbitrary: stream) (simp_all add: zeroHostBuffer_reenterCount)

lemma ZeroOutputBuffers_reenterCount:
  "ZeroOutputBuffers (stream\<lparr>reenterCount := c\<rparr>) index
     = (ZeroOutputBuffers stream index)\<lparr>reenterCount := c\<rparr>"
proof -
  have e: "stream\<lparr>reenterCount := c, hostCalls := h\<rparr>
          = stream\<lparr>hostCalls := h\<rparr>\<lparr>reenterCount := c\<rparr>" for h by simp
  show ?thesis
    apply (simp add: ZeroOutputBuffers_def Let_def)
    apply (simp only: e foldl_zeroHostBuffer_reenterCount)
    apply simp
    done
qed

lemma silentCycle_reenterCount:
  "silentCycle index (stream\<lparr>reenterCount := c\<rparr>) = (silentCycle index stream)\<lparr>reenterCount := c\<rparr>"
  by (simp add: silentCycle_closed ZeroOutputBuffers_reenterCount drainStep_def)

lemma bufferPtrAt_reenterCount [simp]:
  "bufferPtrAt (stream\<lparr>reenterCount := c\<rparr>) ptrs index i = bufferPtrAt stream ptrs index i"
  by (simp add: bufferPtrAt_def split: option.split)

lemma processCycleCalls_reenterCount [simp]:
  "processCycleCalls index r (stream\<lparr>reenterCount := c\<rparr>) = processCycleCalls index r stream"
  by (simp add: processCycleCalls_def Let_def cong: if_cong)

lemma finishPlayback_reenterCount:
  "finishPlayback (stream\<lparr>reenterCount := c\<rparr>) = (finishPlayback stream)\<lparr>reenterCount := c\<rparr>"
  by (simp add: finishPlayback_def logCall_def Let_def)

lemma processCycle_reenterCount:
  "processCycle env index (stream\<lparr>reenterCount := c\<rparr>)
     = (processCycle env index stream)\<lparr>reenterCount := c\<rparr>"
proof -
  have e: "stream\<lparr>reenterCount := c, hostCalls := h, callbackFlags := f\<rparr>
           = stream\<lparr>hostCalls := h, callbackFlags := f\<rparr>\<lparr>reenterCount := c\<rparr>" for h f
    by simp
  show ?thesis
    unfolding processCycle_def Let_def
    by (simp add: logCalls_def e finishPlayback_reenterCount del: )
qed

lemma iteration_reenterCount:
  "bufferSwitchIteration cs env index 0 (stream\<lparr>reenterCount := c\<rparr>)
     = (bufferSwitchIteration cs env index 0 stream)\<lparr>reenterCount := c\<rparr>"
  by (simp add: iteration_first silentCycle_reenterCount processCycle_reenterCount)

lemma bufferCycle_reentered:
  "reenterCount stream \<noteq> - 1 \<Longrightarrow>
   bufferSwitchTimeInfo cs env index nested (Some stream) = Some (bufferSwitchReentered stream)"
  by (simp add: bufferSwitchTimeInfo_def)

lemma bufferCycle_closed:
  assumes "reenterCount stream = - 1"
  shows "\<exists>e. bufferCycle cs env index nested stream
        = (bufferSwitchIteration cs env index 0 stream)
            \<lparr>callbackFlags :=
               (if (case nested of [] \<Rightarrow> 0 | n # ns \<Rightarrow> n) \<ge> 1
                then missedCycleFlags cs (bufferSwitchIteration cs env index 0 stream)
                else callbackFlags (bufferSwitchIteration cs env index 0 stream)),
             reenterCount := - 1,
             reenterError := e\<rparr>
      \<and> e \<ge> reenterError stream + int (case nested of [] \<Rightarrow> 0 | n # ns \<Rightarrow> n)
      \<and> (tl nested = [] \<longrightarrow> e = reenterError stream + int (case nested of [] \<Rightarrow> 0 | n # ns \<Rightarrow> n))"
proof -
  let ?s0 = "stream\<lparr>reenterCount := 0\<rparr>"
  have rc: "reenterCount ?s0 \<ge> 0" by simp
  from loop_closed[OF rc, of cs env index nested 0]
  obtain e where
    l: "bufferSwitchLoop cs env index nested 0 ?s0
        = (bufferSwitchIteration cs env index 0 ?s0)
            \<lparr>callbackFlags :=
               (if reenterCount ?s0 + int (case nested of [] \<Rightarrow> 0 | n # ns \<Rightarrow> n) \<ge> 1
                then missedCycleFlags cs (bufferSwitchIteration cs env index 0 ?s0)
                else callbackFlags (bufferSwitchIteration cs env index 0 ?s0)),
             reenterCount := - 1,
             reenterError := e\<rparr>"
    and e: "e \<ge> reenterError ?s0 + int (case nested of [] \<Rightarrow> 0 | n # ns \<Rightarrow> n)"
    and ex: "tl nested = [] \<longrightarrow> e = reenterError ?s0 + int (case nested of [] \<Rightarrow> 0 | n # ns \<Rightarrow> n)"
    by blast
  have "bufferCycle cs env index nested stream = bufferSwitchLoop cs env index nested 0 ?s0"
    using assms by (simp add: bufferCycle_def bufferSwitchTimeInfo_def)
  also note l
  finally have "bufferCycle cs env index nested stream
        = (bufferSwitchIteration cs env index 0 stream)
            \<lparr>callbackFlags :=
               (if (case nested of [] \<Rightarrow> 0 | n # ns \<Rightarrow> n) \<ge> 1
                then missedCycleFlags cs (bufferSwitchIteration cs env index 0 stream)
                else callbackFlags (bufferSwitchIteration cs env index 0 stream)),
             reenterCount := - 1,
             reenterError := e\<rparr>"
    by (simp add: iteration_reenterCount)
  with e ex show ?thesis by auto
qed

lemma bufferCycle_fields:
  assumes "reenterCount stream = - 1"
  shows "hostCalls (bufferCycle cs env index nested stream)
           = hostCalls (bufferSwitchIteration cs env index 0 stream)"
    and "hostBuffers (bufferCycle cs env index nested stream)
           = hostBuffers (bufferSwitchIteration cs env index 0 stream)"
    and "isActive (bufferCycle cs env index nested stream)
           = isActive (bufferSwitchIteration cs env index 0 stream)"
    and "stopProcessing (bufferCycle cs env index nested stream)
           = stopProcessing (bufferSwitchIteration cs env index 0 stream)"
    and "zeroOutput (bufferCycle cs env index nested stream)
           = zeroOutput (bufferSwitchIteration cs env index 0 stream)"
    and "stopPlayoutCount (bufferCycle cs env index nested stream)
           = stopPlayoutCount (bufferSwitchIteration cs env index 0 stream)"
    and "completedBuffersPlayedEvent (bufferCycle cs env index nested stream)
           = completedBuffersPlayedEvent (bufferSwitchIteration cs env index 0 stream)"
    and "streamFinishedCallbackCalled (bufferCycle cs env index nested stream)
           = streamFinishedCallbackCalled (bufferSwitchIteration cs env index 0 stream)"
    and "reenterCount (bufferCycle cs env index nested stream) = - 1"
proof -
  from bufferCycle_closed[OF assms, of cs env index nested]
  obtain e where "bufferCycle cs env index nested stream
        = (bufferSwitchIteration cs env index 0 stream)
            \<lparr>callbackFlags :=
               (if (case nested of [] \<Rightarrow> 0 | n # ns \<Rightarrow> n) \<ge> 1
                then missedCycleFlags cs (bufferSwitchIteration cs env index 0 stream)
                else callbackFlags (bufferSwitchIteration cs env index 0 stream)),
             reenterCount := - 1,
             reenterError := e\<rparr>"
    by blast
  then show
    "hostCalls (bufferCycle cs env index nested stream)
           = hostCalls (bufferSwitchIteration cs env index 0 stream)"
    "hostBuffers (bufferCycle cs env index nested stream)
           = hostBuffers (bufferSwitchIteration cs env index 0 stream)"
    "isActive (bufferCycle cs env index nested stream)
           = isActive (bufferSwitchIteration cs env index 0 stream)"
    "stopProcessing (bufferCycle cs env index nested stream)
           = stopProcessing (bufferSwitchIteration cs env index 0 stream)"
    "zeroOutput (bufferCycle cs env index nested stream)
           = zeroOutput (bufferSwitchIteration cs env index 0 stream)"
    "stopPlayoutCount (bufferCycle cs env index nested stream)
           = stopPlayoutCount (bufferSwitchIteration cs env index 0 stream)"
    "completedBuffersPlayedEvent (bufferCycle cs env index nested stream)
           = completedBuffersPlayedEvent (bufferSwitchIteration cs env index 0 stream)"
    "streamFinishedCallbackCalled (bufferCycle cs env index nested stream)
           = streamFinishedCallbackCalled (bufferSwitchIteration cs env index 0 stream)"
    "reenterCount (bufferCycle cs env index nested stream) = - 1"
    by simp_all
qed

text \<open>A cycle of a stream whose output is forced to silence, field by field.\<close>

lemma silent_bufferCycle:
  assumes "reenterCount stream = - 1" and "zeroOutput stream"
  shows "hostCalls (bufferCycle cs env index nested stream)
           = hostCalls stream @ [ZeroOutputBuffers_call index]
             @ (if postOutput stream then [ASIOOutputReady_call] else [])
             @ (if drainStep stream
                then (if streamFinishedCallback stream then [streamFinishedCallback_call] else [])
                     @ [SetEvent_completedBuffersPlayedEvent_call]
                else [])"
    and "hostBuffers (bufferCycle cs env index nested stream)
           = hostBuffers (ZeroOutputBuffers stream index)"
    and "isActive (bufferCycle cs env index nested stream)
           = (if drainStep stream then 0 else isActive stream)"
    and "stopProcessing (bufferCycle cs env index nested stream) = stopProcessing stream"
    and "zeroOutput (bufferCycle cs env index nested stream)"
    and "stopPlayoutCount (bufferCycle cs env index nested stream)
           = (if stopProcessing stream \<and> stopPlayoutCount stream < 2
              then stopPlayoutCount stream + 1 else stopPlayoutCount stream)"
    and "completedBuffersPlayedEvent (bufferCycle cs env index nested stream)
           = (drainStep stream \<or> completedBuffersPlayedEvent stream)"
    and "streamFinishedCallbackCalled (bufferCycle cs env index nested stream)
           = (drainStep stream \<or> streamFinishedCallbackCalled stream)"
    and "reenterCount (bufferCycle cs env index nested stream) = - 1"
    and "postOutput (bufferCycle cs env index nested stream) = postOutput stream"
    and "streamFinishedCallback (bufferCycle cs env index nested stream)
           = streamFinishedCallback stream"
proof -
  have it: "bufferSwitchIteration cs env index 0 stream = silentCycle index stream"
    using assms(2) by (simp add: iteration_first)
  note f = bufferCycle_fields[OF assms(1), of cs env index nested, unfolded it]
  show "hostCalls (bufferCycle cs env index nested stream)
           = hostCalls stream @ [ZeroOutputBuffers_call index]
             @ (if postOutput stream then [ASIOOutputReady_call] else [])
             @ (if drainStep stream
                then (if streamFinishedCallback stream then [streamFinishedCallback_call] else [])
                     @ [SetEvent_completedBuffersPlayedEvent_call]
                else [])"
    unfolding f by (subst silentCycle_closed) simp
  show "hostBuffers (bufferCycle cs env index nested stream)
           = hostBuffers (ZeroOutputBuffers stream index)"
    unfolding f by (subst silentCycle_closed) simp
  show "isActive (bufferCycle cs env index nested stream)
           = (if drainStep stream then 0 else isActive stream)"
    unfolding f by (subst silentCycle_closed) simp
  show "stopProcessing (bufferCycle cs env index nested stream) = stopProcessing stream"
    unfolding f by (subst silentCycle_closed) simp
  show "zeroOutput (bufferCycle cs env index nested stream)"
    unfolding f using assms(2) by (subst silentCycle_closed) simp
  show "stopPlayoutCount (bufferCycle cs env index nested stream)
           = (if stopProcessing stream \<and> stopPlayoutCount stream < 2
              then stopPlayoutCount stream + 1 else stopPlayoutCount stream)"
    unfolding f by (subst silentCycle_closed) simp
  show "completedBuffersPlayedEvent (bufferCycle cs env index nested stream)
           = (drainStep stream \<or> completedBuffersPlayedEvent stream)"
    unfolding f by (subst silentCycle_closed) simp
  show "streamFinishedCallbackCalled (bufferCycle cs env index nested stream)
           = (drainStep stream \<or> streamFinishedCallbackCalled stream)"
    unfolding f by (subst silentCycle_closed) simp
  show "reenterCount (bufferCycle cs env index nested stream) = - 1"
    by (rule f)
  from bufferCycle_closed[OF assms(1), of cs env index nested]
  obtain e where c: "bufferCycle cs env index nested stream
        = (silentCycle index stream)
            \<lparr>callbackFlags :=
               (if (case nested of [] \<Rightarrow> 0 | n # ns \<Rightarrow> n) \<ge> 1
                then missedCycleFlags cs (silentCycle index stream)
                else callbackFlags (silentCycle index stream)),
             reenterCount := - 1,
             reenterError := e\<rparr>"
    unfolding it by blast
  show "postOutput (bufferCycle cs env index nested stream) = postOutput stream"
    unfolding c by (subst silentCycle_closed) simp
  show "streamFinishedCallback (bufferCycle cs env index nested stream)
           = streamFinishedCallback stream"
    unfolding c by (subst silentCycle_closed) simp
qed


subsection \<open>Memory\<close>

lemma zeroHostBuffer_static [simp]:
  "asioBufferInfos (zeroHostBuffer index stream i) = asioBufferInfos stream"
  "asioChannelInfos (zeroHostBuffer index stream i) = asioChannelInfos stream"
  "inputChannelCount (zeroHostBuffer index stream i) = inputChannelCount stream"
  "framesPerHostCallback (zeroHostBuffer index stream i) = framesPerHostCallback stream"
  by (simp_all add: zeroHostBuffer_def Let_def)

lemma foldl_zeroHostBuffer_static [simp]:
  "asioBufferInfos (foldl (zeroHostBuffer index) stream xs) = asioBufferInfos stream"
  "asioChannelInfos (foldl (zeroHostBuffer index) stream xs) = asioChannelInfos stream"
  "inputChannelCount (foldl (zeroHostBuffer index) stream xs) = inputChannelCount stream"
  "framesPerHostCallback (foldl (zeroHostBuffer index) stream xs) = framesPerHostCallback stream"
  by (induction xs arbitrary: stream) simp_all

lemma zeroHostBuffer_untouched:
  "a \<noteq> half (buffers (asioBufferInfos stream ! (nat (inputChannelCount stream) + i))) index
   \<Longrightarrow> hostBuffers (zeroHostBuffer index stream i) a = hostBuffers stream a"
  by (simp add: zeroHostBuffer_def Let_def)

lemma foldl_zeroHostBuffer_untouched:
  "a \<notin> set (map (\<lambda>i. half (buffers (asioBufferInfos stream ! (nat (inputChannelCount stream) + i))) index) xs)
   \<Longrightarrow> hostBuffers (foldl (zeroHostBuffer index) stream xs) a = hostBuffers stream a"
proof (induction xs arbitrary: stream)
  case Nil
  show ?case by simp
next
  case (Cons x xs)
  have "hostBuffers (foldl (zeroHostBuffer index) (zeroHostBuffer index stream x) xs) a
          = hostBuffers (zeroHostBuffer index stream x) a"
    using Cons.prems by (intro Cons.IH) simp
  also have "\<dots> = hostBuffers stream a"
    using Cons.prems by (intro zeroHostBuffer_untouched) simp
  finally show ?case by simp
qed

lemma ZeroOutputBuffers_untouched:
  assumes "a \<notin> set (outputBufferAddrs stream index
                       (nat (if zeroOutput stream then outputChannelOffset stream
                             else outputChannelOffset stream + outputChannelCount stream)))"
  shows "hostBuffers (ZeroOutputBuffers stream index) a = hostBuffers stream a"
proof -
  let ?s = "stream\<lparr>hostCalls := hostCalls stream @ [ZeroOutputBuffers_call index]\<rparr>"
  have "hostBuffers (foldl (zeroHostBuffer index) ?s [0..<n]) a = hostBuffers ?s a"
    if "a \<notin> set (outputBufferAddrs stream index n)" for n
    using that by (intro foldl_zeroHostBuffer_untouched) (simp add: outputBufferAddrs_def)
  with assms show ?thesis
    by (cases "zeroOutput stream") (simp_all add: ZeroOutputBuffers_def Let_def)
qed

lemma foldl_zeroHostBuffer_zeroed:
  assumes "distinct (outputBufferAddrs stream index n)"
    and "i < n"
    and "nat (inputChannelCount stream) + i < length (asioBufferInfos stream)"
    and "nat (inputChannelCount stream) + i < length (asioChannelInfos stream)"
  shows "hostBuffers (foldl (zeroHostBuffer index) stream [0..<n])
           (half (buffers (asioBufferInfos stream ! (nat (inputChannelCount stream) + i))) index)
         = memset0 (hostBuffers stream
                     (half (buffers (asioBufferInfos stream ! (nat (inputChannelCount stream) + i))) index))
             (framesPerHostCallback stream
                * BytesPerAsioSample (sampleType (asioChannelInfos stream ! (nat (inputChannelCount stream) + i))))"
  using assms(1,2)
proof (induction n)
  case 0
  then show ?case by simp
next
  case (Suc n)
  let ?addr = "\<lambda>i. half (buffers (asioBufferInfos stream ! (nat (inputChannelCount stream) + i))) index"
  let ?S = "foldl (zeroHostBuffer index) stream [0..<n]"
  have d: "distinct (map ?addr [0..<n])" and nn: "?addr n \<notin> set (map ?addr [0..<n])"
    using Suc.prems(1) by (simp_all add: outputBufferAddrs_def)
  have f: "foldl (zeroHostBuffer index) stream [0..<Suc n] = zeroHostBuffer index ?S n"
    by simp
  show ?case
  proof (cases "i = n")
    case True
    have u: "hostBuffers ?S (?addr n) = hostBuffers stream (?addr n)"
      using nn by (intro foldl_zeroHostBuffer_untouched)
    show ?thesis
      unfolding f using assms(3,4) True u
      by (simp add: zeroHostBuffer_def Let_def)
  next
    case False
    then have lt: "i < n" using Suc.prems(2) by simp
    then have "?addr i \<in> set (map ?addr [0..<n])" by simp
    with nn have ne: "?addr i \<noteq> ?addr n" by metis
    have "hostBuffers (zeroHostBuffer index ?S n) (?addr i) = hostBuffers ?S (?addr i)"
      using ne by (intro zeroHostBuffer_untouched) simp
    also have "\<dots> = memset0 (hostBuffers stream (?addr i))
             (framesPerHostCallback stream
                * BytesPerAsioSample (sampleType (asioChannelInfos stream ! (nat (inputChannelCount stream) + i))))"
      using d lt by (intro Suc.IH) (simp_all add: outputBufferAddrs_def)
    finally show ?thesis unfolding f .
  qed
qed

subsection \<open>After the drain\<close>

lemma drained_bufferCycle:
  assumes "drained stream"
  shows "drained (bufferCycle cs env index nested stream)"
    and "isActive (bufferCycle cs env index nested stream) = isActive stream"
    and "hostCalls (bufferCycle cs env index nested stream)
           = hostCalls stream @ [ZeroOutputBuffers_call index]
             @ (if postOutput stream then [ASIOOutputReady_call] else [])"
proof -
  have r: "reenterCount stream = - 1" and z: "zeroOutput stream"
    and n: "\<not> drainStep stream" and c: "stopPlayoutCount stream = 2" and p: "stopProcessing stream"
    using assms by (simp_all add: drained_def drainStep_def)
  note f = silent_bufferCycle[OF r z, of cs env index nested]
  show "drained (bufferCycle cs env index nested stream)"
    unfolding drained_def using f(4,5,6,9) c p by simp
  show "isActive (bufferCycle cs env index nested stream) = isActive stream"
    using f(3) n by simp
  show "hostCalls (bufferCycle cs env index nested stream)
           = hostCalls stream @ [ZeroOutputBuffers_call index]
             @ (if postOutput stream then [ASIOOutputReady_call] else [])"
    using f(1) n by simp
qed

lemma drained_bufferCycles:
  assumes "drained stream"
  shows "drained (bufferCycles cs cycles stream)
       \<and> isActive (bufferCycles cs cycles stream) = isActive stream
       \<and> count_list (hostCalls (bufferCycles cs cycles stream)) streamFinishedCallback_call
           = count_list (hostCalls stream) streamFinishedCallback_call
       \<and> count_list (hostCalls (bufferCycles cs cycles stream))
             SetEvent_completedBuffersPlayedEvent_call
           = count_list (hostCalls stream) SetEvent_completedBuffersPlayedEvent_call"
  using assms
proof (induction cycles arbitrary: stream)
  case Nil
  then show ?case by (simp add: bufferCycles_def)
next
  case (Cons c cycles)
  obtain env index nested where c: "c = (env, index, nested)" by (cases c) auto
  let ?s = "bufferCycle cs env index nested stream"
  note d = drained_bufferCycle[OF Cons.prems, of cs env index nested]
  have e: "bufferCycles cs (c # cycles) stream = bufferCycles cs cycles ?s"
    by (simp add: bufferCycles_def c)
  from Cons.IH[OF d(1)] show ?case
    unfolding e by (simp add: d(2,3))
qed

subsection \<open>The drain\<close>

lemma silent_bufferCycle_static:
  assumes "reenterCount stream = - 1" and "zeroOutput stream"
  shows "asioBufferInfos (bufferCycle cs env index nested stream) = asioBufferInfos stream"
    and "inputChannelCount (bufferCycle cs env index nested stream) = inputChannelCount stream"
    and "outputChannelOffset (bufferCycle cs env index nested stream) = outputChannelOffset stream"
proof -
  have it: "bufferSwitchIteration cs env index 0 stream = silentCycle index stream"
    using assms(2) by (simp add: iteration_first)
  from bufferCycle_closed[OF assms(1), of cs env index nested]
  obtain e where c: "bufferCycle cs env index nested stream
        = (silentCycle index stream)
            \<lparr>callbackFlags :=
               (if (case nested of [] \<Rightarrow> 0 | n # ns \<Rightarrow> n) \<ge> 1
                then missedCycleFlags cs (silentCycle index stream)
                else callbackFlags (silentCycle index stream)),
             reenterCount := - 1,
             reenterError := e\<rparr>"
    unfolding it by blast
  show "asioBufferInfos (bufferCycle cs env index nested stream) = asioBufferInfos stream"
    unfolding c by (subst silentCycle_closed) simp
  show "inputChannelCount (bufferCycle cs env index nested stream) = inputChannelCount stream"
    unfolding c by (subst silentCycle_closed) simp
  show "outputChannelOffset (bufferCycle cs env index nested stream) = outputChannelOffset stream"
    unfolding c by (subst silentCycle_closed) simp
qed

lemma outputBufferAddrs_rec:
  "outputBufferAddrs stream index 0 = []"
  "outputBufferAddrs stream index (Suc n)
     = outputBufferAddrs stream index n
       @ [half (buffers (asioBufferInfos stream ! (nat (inputChannelCount stream) + n))) index]"
  by (simp_all add: outputBufferAddrs_def)

lemma example_ZeroOutputBuffers:
  "hostBuffers (ZeroOutputBuffers exampleDraining 0) (HostBuffer 2 0) = [1, 2, 3, 4, 5, 6, 7, 8]"
proof -
  have n: "HostBuffer 2 0 \<notin> set (outputBufferAddrs exampleDraining 0
             (nat (if zeroOutput exampleDraining then outputChannelOffset exampleDraining
                   else outputChannelOffset exampleDraining + outputChannelCount exampleDraining)))"
    by (simp add: outputBufferAddrs_rec numeral_2_eq_2 exampleDraining_def exampleStream_def half_def)
  show ?thesis
    unfolding ZeroOutputBuffers_untouched[OF n]
    by (simp add: exampleDraining_def exampleStream_def)
qed

text \<open>
  C1 fails on the zero-filling.  The example stream drains with its output forced to
  silence; its logical output channel 0 is the host buffer of hardware channel 2.
  After a buffer exchange cycle that buffer holds what it held before: in this state
  \<open>ZeroOutputBuffers\<close> clears the buffers of the dummy channels only.
\<close>

theorem drain_zero_fill_counterexample:
  "stopProcessing exampleDraining \<and> zeroOutput exampleDraining
   \<and> bufferPtrAt exampleDraining (outputBufferPtrs exampleDraining) 0 0 = Some (HostBuffer 2 0)
   \<and> hostBuffers exampleDraining (HostBuffer 2 0) = [1, 2, 3, 4, 5, 6, 7, 8]
   \<and> hostBuffers (bufferCycle exampleConstants exampleCycleEnv 0 [] exampleDraining)
        (HostBuffer 2 0) = [1, 2, 3, 4, 5, 6, 7, 8]"
proof -
  have r: "reenterCount exampleDraining = - 1" and z: "zeroOutput exampleDraining"
    by (simp_all add: exampleDraining_def exampleStream_def)
  have "hostBuffers (bufferCycle exampleConstants exampleCycleEnv 0 [] exampleDraining)
          (HostBuffer 2 0) = [1, 2, 3, 4, 5, 6, 7, 8]"
    unfolding silent_bufferCycle(2)[OF r z] by (rule example_ZeroOutputBuffers)
  moreover have "bufferPtrAt exampleDraining (outputBufferPtrs exampleDraining) 0 0
                   = Some (HostBuffer 2 0)"
    by (simp add: bufferPtrAt_def half_def exampleDraining_def exampleStream_def)
  moreover have "stopProcessing exampleDraining"
    "hostBuffers exampleDraining (HostBuffer 2 0) = [1, 2, 3, 4, 5, 6, 7, 8]"
    by (simp_all add: exampleDraining_def exampleStream_def)
  ultimately show ?thesis using z by simp
qed

lemma silent_bufferCycle_layout:
  assumes "reenterCount stream = - 1" and "zeroOutput stream"
  shows "asioChannelInfos (bufferCycle cs env index nested stream) = asioChannelInfos stream"
    and "framesPerHostCallback (bufferCycle cs env index nested stream)
           = framesPerHostCallback stream"
proof -
  have it: "bufferSwitchIteration cs env index 0 stream = silentCycle index stream"
    using assms(2) by (simp add: iteration_first)
  from bufferCycle_closed[OF assms(1), of cs env index nested]
  obtain e where c: "bufferCycle cs env index nested stream
        = (silentCycle index stream)
            \<lparr>callbackFlags :=
               (if (case nested of [] \<Rightarrow> 0 | n # ns \<Rightarrow> n) \<ge> 1
                then missedCycleFlags cs (silentCycle index stream)
                else callbackFlags (silentCycle index stream)),
             reenterCount := - 1,
             reenterError := e\<rparr>"
    unfolding it by blast
  show "asioChannelInfos (bufferCycle cs env index nested stream) = asioChannelInfos stream"
    unfolding c by (subst silentCycle_closed) simp
  show "framesPerHostCallback (bufferCycle cs env index nested stream)
          = framesPerHostCallback stream"
    unfolding c by (subst silentCycle_closed) simp
qed

lemma outputBufferAddrs_nth:
  "i < n \<Longrightarrow>
   outputBufferAddrs stream index n ! i
     = half (buffers (asioBufferInfos stream ! (nat (inputChannelCount stream) + i))) index"
  by (simp add: outputBufferAddrs_def)

lemma ZeroOutputBuffers_dummy_zeroed:
  assumes "zeroOutput stream"
    and "distinct (outputBufferAddrs stream index (nat (outputChannelOffset stream)))"
    and "nat (inputChannelCount stream) + nat (outputChannelOffset stream)
           \<le> length (asioBufferInfos stream)"
    and "nat (inputChannelCount stream) + nat (outputChannelOffset stream)
           \<le> length (asioChannelInfos stream)"
    and "i < nat (outputChannelOffset stream)"
  shows "hostBuffers (ZeroOutputBuffers stream index)
           (outputBufferAddrs stream index (nat (outputChannelOffset stream)) ! i)
         = memset0 (hostBuffers stream
                      (outputBufferAddrs stream index (nat (outputChannelOffset stream)) ! i))
             (framesPerHostCallback stream
                * BytesPerAsioSample
                    (sampleType (asioChannelInfos stream ! (nat (inputChannelCount stream) + i))))"
proof -
  let ?s = "stream\<lparr>hostCalls := hostCalls stream @ [ZeroOutputBuffers_call index]\<rparr>"
  let ?n = "nat (outputChannelOffset stream)"
  have e: "ZeroOutputBuffers stream index = foldl (zeroHostBuffer index) ?s [0..<?n]"
    using assms(1) by (simp add: ZeroOutputBuffers_def Let_def)
  have o: "outputBufferAddrs ?s index ?n = outputBufferAddrs stream index ?n"
    by (simp add: outputBufferAddrs_def)
  have d: "distinct (outputBufferAddrs ?s index ?n)" using assms(2) by (simp only: o)
  have r: "nat (inputChannelCount ?s) + i < length (asioBufferInfos ?s)"
    "nat (inputChannelCount ?s) + i < length (asioChannelInfos ?s)"
    using assms(3,4,5) by simp_all
  from foldl_zeroHostBuffer_zeroed[OF d assms(5) r]
  show ?thesis
    unfolding e outputBufferAddrs_nth[OF assms(5)] by simp
qed



text \<open>
  The stream of a successful \<open>OpenStream\<close> has buffer and channel infos for all its
  dummy channels, and the buffers that \<open>ASIOCreateBuffers\<close> hands out for them are
  distinct.
\<close>

lemma ASIOCreateBuffers_buffers:
  "k < length infos \<Longrightarrow>
   buffers (ASIOCreateBuffers infos ! k) = (HostBuffer k 0, HostBuffer k 1)"
  by (simp add: ASIOCreateBuffers_def)

lemma length_ASIOCreateBuffers [simp]: "length (ASIOCreateBuffers infos) = length infos"
  by (simp add: ASIOCreateBuffers_def)

lemma length_OpenStream_bufferInfos [simp]:
  "length (OpenStream_bufferInfos ic totalChannels sel) = nat ic + nat totalChannels"
  by (simp add: OpenStream_bufferInfos_def)

lemma OpenStream_channelInfos_length:
  "OpenStream_channelInfos getChannelInfo infos = Some channelInfos
   \<Longrightarrow> length channelInfos = length infos"
  by (auto simp add: OpenStream_channelInfos_def split: if_splits)

lemma created_outputBufferAddrs_distinct:
  assumes "asioBufferInfos stream = ASIOCreateBuffers infos"
    and "nat (inputChannelCount stream) + n \<le> length infos"
  shows "distinct (outputBufferAddrs stream index n)"
proof -
  have "outputBufferAddrs stream index n
          = map (\<lambda>i. HostBuffer (nat (inputChannelCount stream) + i) (if index = 0 then 0 else 1))
              [0..<n]"
    unfolding outputBufferAddrs_def
    using assms by (intro map_cong refl) (simp add: ASIOCreateBuffers_buffers half_def)
  then show ?thesis by (simp add: distinct_map inj_on_def)
qed

lemma OpenStream_stream_layout:
  assumes "OpenStream_stream p env args ic oc sil sol dev sel state = Returns (paNoError, state')"
    and "0 \<le> oc"
  shows "\<exists>stream. theAsioStream state' = Some stream
           \<and> nat (inputChannelCount stream) + nat (outputChannelOffset stream)
               \<le> length (asioBufferInfos stream)
           \<and> nat (inputChannelCount stream) + nat (outputChannelOffset stream)
               \<le> length (asioChannelInfos stream)
           \<and> distinct (outputBufferAddrs stream index (nat (outputChannelOffset stream)))"
  using assms
  by (auto simp: OpenStream_stream_def OpenStream_error_def Let_def OpenStream_channelOffset_def
      split: if_splits option.splits prod.splits
      dest!: OpenStream_channelInfos_length
      intro!: created_outputBufferAddrs_distinct)

text \<open>
  C1, amended.  An idle stream that drains with its output forced to silence and whose
  drain counter is 0 (the state in which the processing branch leaves it, see
  \<open>drain_entry\<close> below) goes through two silent cycles.  The first one calls
  \<open>ZeroOutputBuffers\<close> (and \<open>ASIOOutputReady\<close> where the driver supports it) and leaves
  the stream active, the completion event and the finished flag as they were.  The
  second one does the same, then marks the stream inactive, calls the stream-finished
  callback if one is registered, and sets the completion event.  In both cycles
  \<open>ZeroOutputBuffers\<close> zero-fills the buffers of the dummy channels, the first
  \<open>outputChannelOffset\<close> output buffers of the cycle's buffer index: where the arrays of
  buffer and channel infos reach these channels and their buffers are distinct (as in
  every stream that \<open>OpenStream\<close> builds, see \<open>OpenStream_stream_layout\<close>), each of
  them gets \<open>framesPerHostCallback\<close> samples of zero bytes.  Every other host buffer
  keeps its contents: the stream's own output buffers are not zero-filled.  However
  many cycles follow, with whatever reentrant arrivals, the stream stays inactive and
  neither the callback nor the event is raised again.
\<close>

theorem drain_two_silent_cycles:
  assumes "reenterCount stream = - 1"
    and "stopProcessing stream" and "zeroOutput stream" and "stopPlayoutCount stream = 0"
  shows
   "let first = bufferCycle cs env1 index1 nested1 stream;
        second = bufferCycle cs env2 index2 nested2 first;
        later = bufferCycles cs cycles second;
        ready = (if postOutput stream then [ASIOOutputReady_call] else []);
        finished = (if streamFinishedCallback stream then [streamFinishedCallback_call] else []);
        dummies = nat (outputChannelOffset stream);
        reached = (nat (inputChannelCount stream) + dummies \<le> length (asioBufferInfos stream)
                   \<and> nat (inputChannelCount stream) + dummies
                       \<le> length (asioChannelInfos stream));
        bytes = (\<lambda>i. framesPerHostCallback stream
                       * BytesPerAsioSample
                           (sampleType (asioChannelInfos stream
                                          ! (nat (inputChannelCount stream) + i))))
    in isActive first = isActive stream
       \<and> completedBuffersPlayedEvent first = completedBuffersPlayedEvent stream
       \<and> streamFinishedCallbackCalled first = streamFinishedCallbackCalled stream
       \<and> hostCalls first = hostCalls stream @ [ZeroOutputBuffers_call index1] @ ready
       \<and> (\<forall>a. a \<notin> set (outputBufferAddrs stream index1 dummies)
              \<longrightarrow> hostBuffers first a = hostBuffers stream a)
       \<and> (reached \<and> distinct (outputBufferAddrs stream index1 dummies) \<longrightarrow>
            (\<forall>i < dummies.
               hostBuffers first (outputBufferAddrs stream index1 dummies ! i)
                 = memset0 (hostBuffers stream (outputBufferAddrs stream index1 dummies ! i))
                     (bytes i)))
       \<and> isActive second = 0
       \<and> completedBuffersPlayedEvent second
       \<and> streamFinishedCallbackCalled second
       \<and> hostCalls second
           = hostCalls first @ [ZeroOutputBuffers_call index2] @ ready @ finished
             @ [SetEvent_completedBuffersPlayedEvent_call]
       \<and> (\<forall>a. a \<notin> set (outputBufferAddrs stream index2 dummies)
              \<longrightarrow> hostBuffers second a = hostBuffers first a)
       \<and> (reached \<and> distinct (outputBufferAddrs stream index2 dummies) \<longrightarrow>
            (\<forall>i < dummies.
               hostBuffers second (outputBufferAddrs stream index2 dummies ! i)
                 = memset0 (hostBuffers first (outputBufferAddrs stream index2 dummies ! i))
                     (bytes i)))
       \<and> isActive later = 0
       \<and> count_list (hostCalls later) streamFinishedCallback_call
           = count_list (hostCalls stream) streamFinishedCallback_call
             + (if streamFinishedCallback stream then 1 else 0)
       \<and> count_list (hostCalls later) SetEvent_completedBuffersPlayedEvent_call
           = count_list (hostCalls stream) SetEvent_completedBuffersPlayedEvent_call + 1"
proof -
  define first where "first = bufferCycle cs env1 index1 nested1 stream"
  define second where "second = bufferCycle cs env2 index2 nested2 first"
  define later where "later = bufferCycles cs cycles second"
  let ?dummies = "nat (outputChannelOffset stream)"
  let ?reached = "nat (inputChannelCount stream) + ?dummies \<le> length (asioBufferInfos stream)
                   \<and> nat (inputChannelCount stream) + ?dummies
                       \<le> length (asioChannelInfos stream)"
  let ?bytes = "\<lambda>i. framesPerHostCallback stream
                       * BytesPerAsioSample
                           (sampleType (asioChannelInfos stream
                                          ! (nat (inputChannelCount stream) + i)))"
  note f = silent_bufferCycle[OF assms(1,3), of cs env1 index1 nested1, folded first_def]
  note fs = silent_bufferCycle_static[OF assms(1,3), of cs env1 index1 nested1, folded first_def]
  note fl = silent_bufferCycle_layout[OF assms(1,3), of cs env1 index1 nested1, folded first_def]
  have n1: "\<not> drainStep stream" using assms(4) by (simp add: drainStep_def)
  have c1: "stopPlayoutCount first = 1" using f(6) assms(2,4) by simp
  have p1: "stopProcessing first" using f(4) assms(2) by simp
  have d1: "drainStep first" using c1 p1 by (simp add: drainStep_def)
  note s = silent_bufferCycle[OF f(9) f(5), of cs env2 index2 nested2, folded second_def]
  have c2: "stopPlayoutCount second = 2" using s(6) c1 p1 by simp
  have d2: "drained second" unfolding drained_def using s(9) s(5) s(4) p1 c2 by simp
  note l = drained_bufferCycles[OF d2, of cs cycles, folded later_def]
  have a1: "isActive first = isActive stream"
    "completedBuffersPlayedEvent first = completedBuffersPlayedEvent stream"
    "streamFinishedCallbackCalled first = streamFinishedCallbackCalled stream"
    "hostCalls first = hostCalls stream @ [ZeroOutputBuffers_call index1]
        @ (if postOutput stream then [ASIOOutputReady_call] else [])"
    using f(3,7,8,1) n1 by simp_all
  have m1: "hostBuffers first a = hostBuffers stream a"
    if "a \<notin> set (outputBufferAddrs stream index1 ?dummies)" for a
    unfolding f(2) using that assms(3) by (intro ZeroOutputBuffers_untouched) simp
  have z1: "hostBuffers first (outputBufferAddrs stream index1 ?dummies ! i)
              = memset0 (hostBuffers stream (outputBufferAddrs stream index1 ?dummies ! i))
                  (?bytes i)"
    if "?reached \<and> distinct (outputBufferAddrs stream index1 ?dummies)" and "i < ?dummies" for i
    unfolding f(2) using that assms(3) by (intro ZeroOutputBuffers_dummy_zeroed) simp_all
  have a2: "isActive second = 0" "completedBuffersPlayedEvent second"
    "streamFinishedCallbackCalled second"
    "hostCalls second = hostCalls first @ [ZeroOutputBuffers_call index2]
        @ (if postOutput stream then [ASIOOutputReady_call] else [])
        @ (if streamFinishedCallback stream then [streamFinishedCallback_call] else [])
        @ [SetEvent_completedBuffersPlayedEvent_call]"
    using s(3,7,8,1) d1 f(10,11) by simp_all
  have o: "outputBufferAddrs first index2 k = outputBufferAddrs stream index2 k" for k
    by (simp add: outputBufferAddrs_def fs)
  have m2: "hostBuffers second a = hostBuffers first a"
    if "a \<notin> set (outputBufferAddrs stream index2 ?dummies)" for a
    unfolding s(2) using that f(5) by (intro ZeroOutputBuffers_untouched) (simp add: o fs)
  have z2: "hostBuffers second (outputBufferAddrs stream index2 ?dummies ! i)
              = memset0 (hostBuffers first (outputBufferAddrs stream index2 ?dummies ! i))
                  (?bytes i)"
    if r: "?reached \<and> distinct (outputBufferAddrs stream index2 ?dummies)"
      and i: "i < ?dummies" for i
  proof -
    have "hostBuffers (ZeroOutputBuffers first index2)
            (outputBufferAddrs first index2 (nat (outputChannelOffset first)) ! i)
          = memset0 (hostBuffers first
                       (outputBufferAddrs first index2 (nat (outputChannelOffset first)) ! i))
              (framesPerHostCallback first
                 * BytesPerAsioSample
                     (sampleType (asioChannelInfos first ! (nat (inputChannelCount first) + i))))"
      using r i f(5) by (intro ZeroOutputBuffers_dummy_zeroed) (simp_all add: o fs fl)
    then show ?thesis unfolding s(2) by (simp add: o fs fl)
  qed
  have a3: "isActive later = 0"
    "count_list (hostCalls later) streamFinishedCallback_call
       = count_list (hostCalls stream) streamFinishedCallback_call
         + (if streamFinishedCallback stream then 1 else 0)"
    "count_list (hostCalls later) SetEvent_completedBuffersPlayedEvent_call
       = count_list (hostCalls stream) SetEvent_completedBuffersPlayedEvent_call + 1"
    using l a2 a1(4) by simp_all
  have M1: "\<forall>a. a \<notin> set (outputBufferAddrs stream index1 ?dummies)
              \<longrightarrow> hostBuffers first a = hostBuffers stream a"
    using m1 by blast
  have M2: "\<forall>a. a \<notin> set (outputBufferAddrs stream index2 ?dummies)
              \<longrightarrow> hostBuffers second a = hostBuffers first a"
    using m2 by blast
  have Z1: "?reached \<and> distinct (outputBufferAddrs stream index1 ?dummies) \<longrightarrow>
            (\<forall>i < ?dummies.
               hostBuffers first (outputBufferAddrs stream index1 ?dummies ! i)
                 = memset0 (hostBuffers stream (outputBufferAddrs stream index1 ?dummies ! i))
                     (?bytes i))"
    using z1 by blast
  have Z2: "?reached \<and> distinct (outputBufferAddrs stream index2 ?dummies) \<longrightarrow>
            (\<forall>i < ?dummies.
               hostBuffers second (outputBufferAddrs stream index2 ?dummies ! i)
                 = memset0 (hostBuffers first (outputBufferAddrs stream index2 ?dummies ! i))
                     (?bytes i))"
    using z2 by blast
  show ?thesis
    unfolding Let_def first_def[symmetric] second_def[symmetric] later_def[symmetric]
    by (intro conjI a1 a2 a3 M1 M2 Z1 Z2)
qed


lemma example_draining_fields:
  "reenterCount exampleDraining = - 1" "stopProcessing exampleDraining"
  "zeroOutput exampleDraining" "stopPlayoutCount exampleDraining = 0"
  "postOutput exampleDraining = False" "streamFinishedCallback exampleDraining = True"
  "isActive exampleDraining = 1" "hostCalls exampleDraining = []"
  "hostBuffers exampleDraining a = [1, 2, 3, 4, 5, 6, 7, 8]"
  by (simp_all add: exampleDraining_def exampleStream_def)

lemma example_draining_dummy:
  "HostBuffer 2 0 \<notin> set (outputBufferAddrs exampleDraining 0
                           (nat (outputChannelOffset exampleDraining)))"
  by (simp add: outputBufferAddrs_rec numeral_2_eq_2 exampleDraining_def exampleStream_def half_def)

lemma example_draining_layout:
  "nat (outputChannelOffset exampleDraining) = 2"
  "nat (inputChannelCount exampleDraining) = 0"
  "length (asioBufferInfos exampleDraining) = 4"
  "length (asioChannelInfos exampleDraining) = 4"
  "outputBufferAddrs exampleDraining 0 2 = [HostBuffer 0 0, HostBuffer 1 0]"
  "outputBufferAddrs exampleDraining 1 2 = [HostBuffer 0 1, HostBuffer 1 1]"
  "framesPerHostCallback exampleDraining
     * BytesPerAsioSample (sampleType (asioChannelInfos exampleDraining ! 0)) = 8"
  by (simp_all add: outputBufferAddrs_rec numeral_2_eq_2 exampleDraining_def exampleStream_def
        half_def)

theorem drain_two_silent_cycles_witness:
  "reenterCount exampleDraining = - 1 \<and> stopProcessing exampleDraining
   \<and> zeroOutput exampleDraining \<and> stopPlayoutCount exampleDraining = 0
   \<and> isActive (bufferCycle exampleConstants exampleCycleEnv 0 [] exampleDraining) = 1
   \<and> HostBuffer 2 0 \<notin> set (outputBufferAddrs exampleDraining 0
                               (nat (outputChannelOffset exampleDraining)))
   \<and> hostBuffers (bufferCycle exampleConstants exampleCycleEnv 0 [] exampleDraining)
        (HostBuffer 2 0) = [1, 2, 3, 4, 5, 6, 7, 8]
   \<and> nat (inputChannelCount exampleDraining) + nat (outputChannelOffset exampleDraining)
        \<le> length (asioBufferInfos exampleDraining)
   \<and> nat (inputChannelCount exampleDraining) + nat (outputChannelOffset exampleDraining)
        \<le> length (asioChannelInfos exampleDraining)
   \<and> distinct (outputBufferAddrs exampleDraining 0 (nat (outputChannelOffset exampleDraining)))
   \<and> distinct (outputBufferAddrs exampleDraining 1 (nat (outputChannelOffset exampleDraining)))
   \<and> outputBufferAddrs exampleDraining 0 (nat (outputChannelOffset exampleDraining)) ! 0
       = HostBuffer 0 0
   \<and> hostBuffers exampleDraining (HostBuffer 0 0) = [1, 2, 3, 4, 5, 6, 7, 8]
   \<and> hostBuffers (bufferCycle exampleConstants exampleCycleEnv 0 [] exampleDraining)
        (HostBuffer 0 0) = [0, 0, 0, 0, 0, 0, 0, 0]
   \<and> outputBufferAddrs exampleDraining 1 (nat (outputChannelOffset exampleDraining)) ! 0
       = HostBuffer 0 1
   \<and> hostBuffers (bufferCycle exampleConstants exampleCycleEnv 1 []
                    (bufferCycle exampleConstants exampleCycleEnv 0 [] exampleDraining))
        (HostBuffer 0 1) = [0, 0, 0, 0, 0, 0, 0, 0]
   \<and> isActive (bufferCycle exampleConstants exampleCycleEnv 1 []
                 (bufferCycle exampleConstants exampleCycleEnv 0 [] exampleDraining)) = 0
   \<and> hostCalls (bufferCycle exampleConstants exampleCycleEnv 1 []
                  (bufferCycle exampleConstants exampleCycleEnv 0 [] exampleDraining))
       = [ZeroOutputBuffers_call 0, ZeroOutputBuffers_call 1, streamFinishedCallback_call,
          SetEvent_completedBuffersPlayedEvent_call]
   \<and> count_list
        (hostCalls (bufferCycles exampleConstants [(exampleCycleEnv, 0, [1])]
           (bufferCycle exampleConstants exampleCycleEnv 1 []
             (bufferCycle exampleConstants exampleCycleEnv 0 [] exampleDraining))))
        streamFinishedCallback_call = 1"
proof -
  let ?first = "bufferCycle exampleConstants exampleCycleEnv 0 [] exampleDraining"
  let ?second = "bufferCycle exampleConstants exampleCycleEnv 1 [] ?first"
  note h = example_draining_fields(1-4)
  note y = example_draining_layout example_draining_layout(6)[unfolded One_nat_def]
  note t = drain_two_silent_cycles[OF h, where cs = exampleConstants
      and ?env1.0 = exampleCycleEnv and ?index1.0 = 0 and ?nested1.0 = "[]"
      and ?env2.0 = exampleCycleEnv and ?index2.0 = 1 and ?nested2.0 = "[]"
      and cycles = "[(exampleCycleEnv, 0, [1])]", unfolded Let_def]
  note untouched1 = t[THEN conjunct2, THEN conjunct2, THEN conjunct2, THEN conjunct2,
      THEN conjunct1, rule_format]
  note zeroed1 = t[THEN conjunct2, THEN conjunct2, THEN conjunct2, THEN conjunct2,
      THEN conjunct2, THEN conjunct1, rule_format, of 0]
  note zeroed2 = t[THEN conjunct2, THEN conjunct2, THEN conjunct2, THEN conjunct2,
      THEN conjunct2, THEN conjunct2, THEN conjunct2, THEN conjunct2, THEN conjunct2,
      THEN conjunct2, THEN conjunct2, THEN conjunct1, rule_format, of 0]
  have w: "nat (inputChannelCount exampleDraining) + nat (outputChannelOffset exampleDraining)
             \<le> length (asioBufferInfos exampleDraining)"
    "nat (inputChannelCount exampleDraining) + nat (outputChannelOffset exampleDraining)
             \<le> length (asioChannelInfos exampleDraining)"
    "distinct (outputBufferAddrs exampleDraining 0 (nat (outputChannelOffset exampleDraining)))"
    "distinct (outputBufferAddrs exampleDraining 1 (nat (outputChannelOffset exampleDraining)))"
    "outputBufferAddrs exampleDraining 0 (nat (outputChannelOffset exampleDraining)) ! 0
       = HostBuffer 0 0"
    "outputBufferAddrs exampleDraining 1 (nat (outputChannelOffset exampleDraining)) ! 0
       = HostBuffer 0 1"
    by (simp_all add: y)
  have z1: "hostBuffers ?first (HostBuffer 0 0) = [0, 0, 0, 0, 0, 0, 0, 0]"
    using zeroed1 w by (simp add: y example_draining_fields memset0_def)
  have "HostBuffer 0 1 \<notin> set (outputBufferAddrs exampleDraining 0
                                  (nat (outputChannelOffset exampleDraining)))"
    by (simp add: y)
  from untouched1[OF this]
  have k: "hostBuffers ?first (HostBuffer 0 1) = [1, 2, 3, 4, 5, 6, 7, 8]"
    by (simp add: example_draining_fields)
  have z2: "hostBuffers ?second (HostBuffer 0 1) = [0, 0, 0, 0, 0, 0, 0, 0]"
    using zeroed2 w k by (simp add: y example_draining_fields memset0_def)
  from t example_draining_dummy z1 z2 w show ?thesis
    by (simp add: example_draining_fields)
qed

text \<open>How a stream comes to drain in silence.\<close>

lemma processCycle_complete:
  assumes "PaUtil_EndBufferProcessing env (if stopProcessing stream then paComplete else paContinue)
             \<notin> {paContinue, paAbort}"
    and "PaUtil_IsBufferProcessorOutputEmpty env"
  shows "stopProcessing (processCycle env index stream)"
    and "zeroOutput (processCycle env index stream)"
    and "stopPlayoutCount (processCycle env index stream) = 0"
    and "isActive (processCycle env index stream) = isActive stream"
  using assms by (simp_all add: processCycle_def Let_def logCalls_def)

lemma drain_entry:
  assumes "reenterCount stream = - 1" and "\<not> zeroOutput stream"
    and "PaUtil_EndBufferProcessing env (if stopProcessing stream then paComplete else paContinue)
             \<notin> {paContinue, paAbort}"
    and "PaUtil_IsBufferProcessorOutputEmpty env"
  shows "stopProcessing (bufferCycle cs env index nested stream)
       \<and> zeroOutput (bufferCycle cs env index nested stream)
       \<and> stopPlayoutCount (bufferCycle cs env index nested stream) = 0
       \<and> reenterCount (bufferCycle cs env index nested stream) = - 1
       \<and> isActive (bufferCycle cs env index nested stream) = isActive stream"
proof -
  have it: "bufferSwitchIteration cs env index 0 stream = processCycle env index stream"
    using assms(2) by (simp add: iteration_first)
  show ?thesis
    unfolding bufferCycle_fields[OF assms(1)] it
    using processCycle_complete[OF assms(3,4)] by simp
qed

subsection \<open>Reentrant invocations\<close>

lemma processCycle_hostCalls:
  "hostCalls (processCycle env index stream)
     = hostCalls stream
       @ processCycleCalls index
           (PaUtil_EndBufferProcessing env (if stopProcessing stream then paComplete else paContinue))
           stream
       @ (if PaUtil_EndBufferProcessing env (if stopProcessing stream then paComplete else paContinue)
             = paAbort
          then (if streamFinishedCallback stream then [streamFinishedCallback_call] else [])
               @ [SetEvent_completedBuffersPlayedEvent_call]
          else [])"
  by (simp add: processCycle_def Let_def logCalls_def finishPlayback_def logCall_def)

lemma processCycleCalls_flags:
  "PaUtil_BeginBufferProcessing_call (callbackFlags stream)
     \<in> set (processCycleCalls index callbackResult stream)"
  by (simp add: processCycleCalls_def Let_def)

lemma iteration_channelCounts:
  "inputChannelCount (bufferSwitchIteration cs env index 0 stream) = inputChannelCount stream"
  "outputChannelCount (bufferSwitchIteration cs env index 0 stream) = outputChannelCount stream"
proof -
  have "inputChannelCount (silentCycle index stream) = inputChannelCount stream"
    "outputChannelCount (silentCycle index stream) = outputChannelCount stream"
    by (subst silentCycle_closed, simp)+
  moreover have "inputChannelCount (processCycle env index stream) = inputChannelCount stream"
    "outputChannelCount (processCycle env index stream) = outputChannelCount stream"
    by (simp_all add: processCycle_def Let_def logCalls_def finishPlayback_def logCall_def)
  ultimately show
    "inputChannelCount (bufferSwitchIteration cs env index 0 stream) = inputChannelCount stream"
    "outputChannelCount (bufferSwitchIteration cs env index 0 stream) = outputChannelCount stream"
    by (simp_all add: iteration_first)
qed

lemma bufferCycle_alone:
  assumes "reenterCount stream = - 1"
  shows "bufferCycle cs env index [] stream
           = (bufferSwitchIteration cs env index 0 stream)\<lparr>reenterCount := - 1\<rparr>"
proof -
  from bufferCycle_closed[OF assms, of cs env index "[]"]
  have "bufferCycle cs env index [] stream
        = (bufferSwitchIteration cs env index 0 stream)
            \<lparr>callbackFlags := callbackFlags (bufferSwitchIteration cs env index 0 stream),
             reenterCount := - 1,
             reenterError := reenterError (bufferSwitchIteration cs env index 0 stream)\<rparr>"
    by auto
  then show ?thesis by simp
qed

lemma bufferCycle_reentrant:
  assumes "reenterCount stream = - 1"
  shows "\<exists>e. bufferCycle cs env index (Suc n # rest) stream
          = (bufferCycle cs env index [] stream)
              \<lparr>callbackFlags := missedCycleFlags cs (bufferCycle cs env index [] stream),
               reenterError := e\<rparr>
        \<and> e \<ge> reenterError stream + 1 + int n
        \<and> (rest = [] \<longrightarrow> e = reenterError stream + 1 + int n)"
proof -
  let ?it = "bufferSwitchIteration cs env index 0 stream"
  from bufferCycle_closed[OF assms, of cs env index "Suc n # rest"]
  obtain e where c0: "bufferCycle cs env index (Suc n # rest) stream
        = ?it\<lparr>callbackFlags :=
               (if (case Suc n # rest of [] \<Rightarrow> 0 | n # ns \<Rightarrow> n) \<ge> 1
                then missedCycleFlags cs ?it else callbackFlags ?it),
             reenterCount := - 1,
             reenterError := e\<rparr>"
    and e0: "e \<ge> reenterError stream + int (case Suc n # rest of [] \<Rightarrow> 0 | n # ns \<Rightarrow> n)"
      "tl (Suc n # rest) = [] \<longrightarrow>
         e = reenterError stream + int (case Suc n # rest of [] \<Rightarrow> 0 | n # ns \<Rightarrow> n)"
    by blast
  have c: "bufferCycle cs env index (Suc n # rest) stream
        = ?it\<lparr>callbackFlags := missedCycleFlags cs ?it, reenterCount := - 1,
              reenterError := e\<rparr>"
    using c0 by simp
  have e: "e \<ge> reenterError stream + 1 + int n"
      "rest = [] \<longrightarrow> e = reenterError stream + 1 + int n"
    using e0 by simp_all
  have "bufferCycle cs env index (Suc n # rest) stream
          = (bufferCycle cs env index [] stream)
              \<lparr>callbackFlags := missedCycleFlags cs (bufferCycle cs env index [] stream),
               reenterError := e\<rparr>"
    unfolding c bufferCycle_alone[OF assms] by simp
  with e show ?thesis by blast
qed

text \<open>
  C2.  An invocation that finds the counter of running invocations other than \<open>-1\<close>
  changes the two counters and nothing else: it converts no buffer and calls neither
  the buffer processor nor the user callback.  An invocation that starts on an idle
  stream and during whose first iteration \<open>n + 1\<close> further invocations arrive leaves the
  stream as the same invocation without arrivals leaves it, but for two fields: the
  error counter has grown by the number of arrivals (exactly so when none arrives
  later), and the status flags have gained \<open>paInputOverflow\<close> for a stream with input
  channels and \<open>paOutputUnderflow\<close> for one with output channels.  The loop iterations
  for the missed cycles set these flags and process no audio.  The next invocation that
  processes audio hands the flags to \<open>PaUtil_BeginBufferProcessing\<close>.
\<close>

theorem reentrant_invocation_guard:
  "(reenterCount inner \<noteq> - 1 \<longrightarrow>
      bufferSwitchTimeInfo cs env index nested (Some inner)
        = Some (inner\<lparr>reenterCount := reenterCount inner + 1,
                       reenterError := reenterError inner + 1\<rparr>))
   \<and> (reenterCount stream = - 1 \<longrightarrow>
        (let alone = bufferCycle cs env index [] stream;
             reentered = bufferCycle cs env index (Suc n # rest) stream;
             missed = callbackFlags alone
                        OR (if inputChannelCount stream > 0 then paInputOverflow cs else 0)
                        OR (if outputChannelCount stream > 0 then paOutputUnderflow cs else 0)
         in (\<exists>e. reentered = alone\<lparr>callbackFlags := missed, reenterError := e\<rparr>
                  \<and> e \<ge> reenterError stream + 1 + int n
                  \<and> (rest = [] \<longrightarrow> e = reenterError stream + 1 + int n))
            \<and> (\<not> zeroOutput reentered \<longrightarrow>
                 PaUtil_BeginBufferProcessing_call missed
                   \<in> set (drop (length (hostCalls reentered))
                            (hostCalls (bufferCycle cs env' index' nested' reentered))))))"
proof (intro conjI impI)
  assume "reenterCount inner \<noteq> - 1"
  then show "bufferSwitchTimeInfo cs env index nested (Some inner)
        = Some (inner\<lparr>reenterCount := reenterCount inner + 1,
                       reenterError := reenterError inner + 1\<rparr>)"
    by (simp add: bufferCycle_reentered bufferSwitchReentered_def)
next
  assume r: "reenterCount stream = - 1"
  define alone where "alone = bufferCycle cs env index [] stream"
  define reentered where "reentered = bufferCycle cs env index (Suc n # rest) stream"
  define missed where "missed = callbackFlags alone
                        OR (if inputChannelCount stream > 0 then paInputOverflow cs else 0)
                        OR (if outputChannelCount stream > 0 then paOutputUnderflow cs else 0)"
  have m: "missedCycleFlags cs alone = missed"
    unfolding missed_def missedCycleFlags_def alone_def bufferCycle_alone[OF r]
    by (simp add: iteration_channelCounts)
  from bufferCycle_reentrant[OF r, of cs env index n rest, folded alone_def reentered_def]
  obtain e where c: "reentered = alone\<lparr>callbackFlags := missed, reenterError := e\<rparr>"
    and e: "e \<ge> reenterError stream + 1 + int n"
      "rest = [] \<longrightarrow> e = reenterError stream + 1 + int n"
    unfolding m by blast
  have ra: "reenterCount alone = - 1" unfolding alone_def bufferCycle_alone[OF r] by simp
  have rr: "reenterCount reentered = - 1" and fl: "callbackFlags reentered = missed"
    unfolding c using ra by simp_all
  have nxt: "PaUtil_BeginBufferProcessing_call missed
               \<in> set (drop (length (hostCalls reentered))
                        (hostCalls (bufferCycle cs env' index' nested' reentered)))"
    if z: "\<not> zeroOutput reentered"
  proof -
    have "hostCalls (bufferCycle cs env' index' nested' reentered)
            = hostCalls (processCycle env' index' reentered)"
      using z by (simp add: bufferCycle_fields[OF rr] iteration_first)
    then show ?thesis
      unfolding processCycle_hostCalls using processCycleCalls_flags[of reentered] fl by simp
  qed
  show "let alone = bufferCycle cs env index [] stream;
             reentered = bufferCycle cs env index (Suc n # rest) stream;
             missed = callbackFlags alone
                        OR (if inputChannelCount stream > 0 then paInputOverflow cs else 0)
                        OR (if outputChannelCount stream > 0 then paOutputUnderflow cs else 0)
         in (\<exists>e. reentered = alone\<lparr>callbackFlags := missed, reenterError := e\<rparr>
                  \<and> e \<ge> reenterError stream + 1 + int n
                  \<and> (rest = [] \<longrightarrow> e = reenterError stream + 1 + int n))
            \<and> (\<not> zeroOutput reentered \<longrightarrow>
                 PaUtil_BeginBufferProcessing_call missed
                   \<in> set (drop (length (hostCalls reentered))
                            (hostCalls (bufferCycle cs env' index' nested' reentered))))"
    unfolding Let_def alone_def[symmetric] reentered_def[symmetric] missed_def[symmetric]
    using c e nxt by blast
qed


lemma processCycle_flags:
  "callbackFlags (processCycle env index stream) = 0"
  "zeroOutput (processCycle env index stream)
     = (zeroOutput stream
        \<or> PaUtil_EndBufferProcessing env (if stopProcessing stream then paComplete else paContinue)
            = paAbort
        \<or> PaUtil_EndBufferProcessing env (if stopProcessing stream then paComplete else paContinue)
            \<noteq> paContinue \<and> PaUtil_IsBufferProcessorOutputEmpty env)"
  by (auto simp add: processCycle_def Let_def logCalls_def finishPlayback_def logCall_def)

lemma example_stream_fields:
  "reenterCount exampleStream = - 1" "reenterError exampleStream = 0"
  "inputChannelCount exampleStream = 0" "outputChannelCount exampleStream = 2"
  "\<not> zeroOutput exampleStream" "\<not> stopProcessing exampleStream"
  "hostCalls exampleStream = []"
  by (simp_all add: exampleStream_def)

lemma example_alone:
  "callbackFlags (bufferCycle exampleConstants exampleCycleEnv 0 [] exampleStream) = 0"
  "\<not> zeroOutput (bufferCycle exampleConstants exampleCycleEnv 0 [] exampleStream)"
  unfolding bufferCycle_alone[OF example_stream_fields(1)]
  by (simp_all add: iteration_first example_stream_fields processCycle_flags exampleCycleEnv_def)

theorem reentrant_invocation_guard_witness:
  "reenterCount (exampleStream\<lparr>reenterCount := 0\<rparr>) \<noteq> - 1
   \<and> bufferSwitchTimeInfo exampleConstants exampleCycleEnv 0 []
        (Some (exampleStream\<lparr>reenterCount := 0\<rparr>))
      = Some (exampleStream\<lparr>reenterCount := 1, reenterError := 1\<rparr>)
   \<and> reenterCount exampleStream = - 1
   \<and> callbackFlags (bufferCycle exampleConstants exampleCycleEnv 0 [1] exampleStream) = 4
   \<and> reenterError (bufferCycle exampleConstants exampleCycleEnv 0 [1] exampleStream) = 1
   \<and> hostCalls (bufferCycle exampleConstants exampleCycleEnv 0 [1] exampleStream)
       = hostCalls (bufferCycle exampleConstants exampleCycleEnv 0 [] exampleStream)
   \<and> \<not> zeroOutput (bufferCycle exampleConstants exampleCycleEnv 0 [1] exampleStream)
   \<and> PaUtil_BeginBufferProcessing_call 4
        \<in> set (hostCalls (bufferCycle exampleConstants exampleCycleEnv 1 []
                  (bufferCycle exampleConstants exampleCycleEnv 0 [1] exampleStream)))"
proof -
  let ?inner = "exampleStream\<lparr>reenterCount := 0\<rparr>"
  let ?alone = "bufferCycle exampleConstants exampleCycleEnv 0 [] exampleStream"
  let ?reentered = "bufferCycle exampleConstants exampleCycleEnv 0 [1] exampleStream"
  note t = reentrant_invocation_guard[where inner = ?inner and stream = exampleStream
      and cs = exampleConstants and env = exampleCycleEnv and index = 0 and nested = "[]"
      and n = 0 and rest = "[]" and env' = exampleCycleEnv and index' = 1 and nested' = "[]",
      unfolded Let_def]
  have i: "reenterCount ?inner \<noteq> - 1" by simp
  from t i have g: "bufferSwitchTimeInfo exampleConstants exampleCycleEnv 0 [] (Some ?inner)
      = Some (exampleStream\<lparr>reenterCount := 1, reenterError := 1\<rparr>)"
    by (simp add: example_stream_fields)
  have m: "callbackFlags ?alone
             OR (if inputChannelCount exampleStream > 0 then paInputOverflow exampleConstants else 0)
             OR (if outputChannelCount exampleStream > 0 then paOutputUnderflow exampleConstants
                 else 0) = 4"
    unfolding example_alone(1) by (simp add: example_stream_fields exampleConstants_def)
  from t example_stream_fields(1)
  obtain e where c: "?reentered = ?alone\<lparr>callbackFlags := 4, reenterError := e\<rparr>"
    and e: "e = 1"
    and n: "\<not> zeroOutput ?reentered \<longrightarrow>
              PaUtil_BeginBufferProcessing_call 4
                \<in> set (drop (length (hostCalls ?reentered))
                         (hostCalls (bufferCycle exampleConstants exampleCycleEnv 1 [] ?reentered)))"
    unfolding m One_nat_def[symmetric] by (auto simp add: example_stream_fields)
  have z: "\<not> zeroOutput ?reentered" unfolding c using example_alone(2) by simp
  with n have "PaUtil_BeginBufferProcessing_call 4
                \<in> set (hostCalls (bufferCycle exampleConstants exampleCycleEnv 1 [] ?reentered))"
    by (meson in_set_dropD)
  moreover have "callbackFlags ?reentered = 4" "reenterError ?reentered = 1"
    "hostCalls ?reentered = hostCalls ?alone"
    unfolding c using e by simp_all
  ultimately show ?thesis using i g z example_stream_fields(1) by simp
qed

section \<open>The output channel offset\<close>

lemma storePtr_None [simp]: "storePtr None slot v = None"
  by (simp add: storePtr_def)

lemma storePtr_Some:
  "storePtr ptrs slot v = Some array' \<Longrightarrow>
   \<exists>array. ptrs = Some array \<and> length array' = length array \<and> slot < length array"
  by (auto simp add: storePtr_def split: option.splits if_splits)

lemma storeBufferPair_None [simp]: "storeBufferPair infos base0 base1 k i None = None"
  by (simp add: storeBufferPair_def)

lemma storeBufferPair_Some:
  assumes "storeBufferPair infos base0 base1 k i ptrs = Some array'"
  shows "\<exists>array. ptrs = Some array \<and> length array' = length array \<and> base1 + i < length array"
proof -
  from assms obtain mid where
    m: "storePtr ptrs (base0 + i) (fst (buffers (infos ! k))) = Some mid"
    and l: "length array' = length mid" "base1 + i < length mid"
    unfolding storeBufferPair_def by (blast dest: storePtr_Some)
  from storePtr_Some[OF m] l show ?thesis by auto
qed

lemma fold_storeBufferPair_None [simp]:
  "fold (\<lambda>i. storeBufferPair infos base0 base1 (f i) i) xs None = None"
  by (induction xs) simp_all

lemma fold_storeBufferPair_Some:
  "fold (\<lambda>i. storeBufferPair infos base0 base1 (f i) i) xs ptrs = Some array' \<Longrightarrow>
   \<exists>array. ptrs = Some array \<and> length array' = length array
           \<and> (\<forall>i \<in> set xs. base1 + i < length array)"
proof (induction xs arbitrary: ptrs)
  case Nil
  then show ?case by simp
next
  case (Cons x xs)
  from Cons.prems
  have "fold (\<lambda>i. storeBufferPair infos base0 base1 (f i) i) xs
          (storeBufferPair infos base0 base1 (f x) x ptrs) = Some array'"
    by simp
  from Cons.IH[OF this] obtain mid where
    m: "storeBufferPair infos base0 base1 (f x) x ptrs = Some mid"
    and l: "length array' = length mid" "\<forall>i \<in> set xs. base1 + i < length mid"
    by blast
  from storeBufferPair_Some[OF m] l show ?case by auto
qed

lemma OpenStream_bufferPtrs_overrun:
  assumes "0 \<le> inputChannels" and "0 \<le> channelOffset" and "channelOffset < outputChannels"
  shows "fst (OpenStream_bufferPtrs inputChannels outputChannels channelOffset
                (outputChannels + channelOffset) infos) = None"
proof (rule ccontr)
  let ?n = "2 * nat (inputChannels + (outputChannels + channelOffset))"
  let ?out0 = "nat (inputChannels + channelOffset)"
  let ?out1 = "nat (inputChannels * 2 + outputChannels + (outputChannels + channelOffset))"
  define start where "start = (if inputChannels > 0
                  then fold (\<lambda>i. storeBufferPair infos 0 (nat inputChannels) i i)
                         [0..<nat inputChannels] (Some (replicate ?n NullBuffer))
                  else Some (replicate ?n NullBuffer))"
  assume "fst (OpenStream_bufferPtrs inputChannels outputChannels channelOffset
                (outputChannels + channelOffset) infos) \<noteq> None"
  then obtain array' where
    "fold (\<lambda>i. storeBufferPair infos ?out0 ?out1 (?out0 + i) i) [0..<nat outputChannels] start
       = Some array'"
    using assms by (auto simp add: OpenStream_bufferPtrs_def Let_def start_def)
  from fold_storeBufferPair_Some[OF this] obtain array where
    s: "start = Some array" and b: "\<forall>i \<in> set [0..<nat outputChannels]. ?out1 + i < length array"
    by blast
  have "length array = ?n"
  proof (cases "inputChannels > 0")
    case True
    with s have "fold (\<lambda>i. storeBufferPair infos 0 (nat inputChannels) i i)
                   [0..<nat inputChannels] (Some (replicate ?n NullBuffer)) = Some array"
      by (simp add: start_def)
    from fold_storeBufferPair_Some[OF this] show ?thesis by auto
  next
    case False
    with s show ?thesis by (auto simp add: start_def)
  qed
  moreover have "nat channelOffset \<in> set [0..<nat outputChannels]" using assms by simp
  with b have "?out1 + nat channelOffset < length array" by blast
  ultimately show False using assms by simp
qed


lemma OpenStream_channelOffset_cases:
  "OpenStream_channelOffset outputChannels driverInfo
     = (if outputChannels + 2 > sint (driverOutputChannelCount driverInfo)
        then (0, outputChannels) else (2, outputChannels + 2))"
  by (simp add: OpenStream_channelOffset_def Let_def)

lemma OpenStream_channelOffset_total:
  "OpenStream_channelOffset outputChannels driverInfo = (offset, totalChannels)
   \<Longrightarrow> totalChannels = outputChannels + offset"
  by (auto simp add: OpenStream_channelOffset_cases split: if_splits)

text \<open>
  C4.  The second row of output pointers starts at slot
  \<open>inputChannelCount * 2 + outputChannelCount + totalAsioOutputChannels\<close> of an array of
  \<open>2 * (inputChannelCount + totalAsioOutputChannels)\<close> slots, which leaves room for
  \<open>outputChannelOffset\<close> pointers.  Whenever the offset is smaller than the number of
  output channels, the loop that fills the rows stores behind the end of \<open>bufferPtrs\<close>,
  and \<open>OpenStream\<close> does not return success.  This is so for every stream with output
  channels for which the offset falls back to 0, and for three or more output channels
  with the offset 2.
\<close>

theorem output_pointer_rows_overrun:
  assumes "0 \<le> inputChannels"
    and "OpenStream_channelOffset outputChannels (openAsioDriverInfo (asioHostApi state))
           = (offset, totalChannels)"
    and "offset < outputChannels"
  shows "fst (OpenStream_bufferPtrs inputChannels outputChannels offset totalChannels infos) = None
       \<and> (case OpenStream_stream p env args inputChannels outputChannels
                 suggestedInputLatencyFrames suggestedOutputLatencyFrames asioDeviceIndex
                 inputChannelSelectors state of
            Returns (result, state') \<Rightarrow> result \<noteq> paNoError
          | AssertionFailure \<Rightarrow> False
          | UndefinedBehaviour \<Rightarrow> True)"
proof -
  have t: "totalChannels = outputChannels + offset"
    using assms(2) by (rule OpenStream_channelOffset_total)
  have o: "0 \<le> offset" using assms(2) by (auto simp add: OpenStream_channelOffset_cases split: if_splits)
  have n: "fst (OpenStream_bufferPtrs inputChannels outputChannels offset totalChannels infos) = None"
    for infos
    unfolding t using assms(1) o assms(3) by (rule OpenStream_bufferPtrs_overrun)
  have c: "(case OpenStream_bufferPtrs inputChannels outputChannels offset totalChannels infos of
              (None, rows) \<Rightarrow> UndefinedBehaviour
            | (Some ptrs, inputRows, outputRows) \<Rightarrow> f ptrs inputRows outputRows)
           = UndefinedBehaviour" for infos and f :: "_ \<Rightarrow> _ \<Rightarrow> _ \<Rightarrow> (PaError \<times> 'a AsioState) outcome"
    using n[of infos]
    by (cases "OpenStream_bufferPtrs inputChannels outputChannels offset totalChannels infos") simp
  have "case OpenStream_stream p env args inputChannels outputChannels
                 suggestedInputLatencyFrames suggestedOutputLatencyFrames asioDeviceIndex
                 inputChannelSelectors state of
            Returns (result, state') \<Rightarrow> result \<noteq> paNoError
          | AssertionFailure \<Rightarrow> False
          | UndefinedBehaviour \<Rightarrow> True"
    unfolding OpenStream_stream_def Let_def assms(2) prod.case c
    by (simp add: OpenStream_error_def split: option.split)
  with n show ?thesis by simp
qed


text \<open>
  A stereo output stream: on a driver with two output channels the offset falls back
  to 0 and the open runs into the store outside the array; on a driver with four
  output channels the stream gets the offset 2, logical channels 0 and 1 on hardware
  channels 2 and 3, and buffers for the hardware channels 0 to 3.
\<close>

lemma example_open_overruns:
  "OpenStream WINDOWS (exampleOpenEnv 2) (exampleOutputArgs 2) exampleClosedState
     = UndefinedBehaviour"
  by (simp add: OpenStream_def OpenStream_parameters_def ValidateAsioSpecificStreamInfo_def
      OpenStream_driver_def OpenStream_stream_def OpenStream_channelOffset_def
      OpenStream_bufferInfos_def OpenStream_framesPerHostBuffer_def ASIOCreateBuffers_def
      OpenStream_channelInfos_def OpenStream_bufferPtrs_def storeBufferPair_def storePtr_def
      exampleOpenEnv_def exampleOutputArgs_def exampleClosedState_def exampleDriver_def
      SelectHostBufferSize_def Let_def upt_conv_Cons)

lemma example_open_mapping:
  "case OpenStream WINDOWS (exampleOpenEnv 4) (exampleOutputArgs 2) exampleClosedState of
     Returns (result, opened) \<Rightarrow>
       result = paNoError
       \<and> map_option (\<lambda>stream. (outputChannelOffset stream, outputChannelMap stream,
                                map channelNum (asioBufferInfos stream),
                                bufferPtrs stream, outputBufferPtrs stream))
           (theAsioStream opened)
         = Some (2, [2, 3], [0, 1, 2, 3],
                 [NullBuffer, NullBuffer, HostBuffer 2 0, HostBuffer 3 0,
                  NullBuffer, NullBuffer, HostBuffer 2 1, HostBuffer 3 1],
                 (Some 2, Some 6))
   | AssertionFailure \<Rightarrow> False
   | UndefinedBehaviour \<Rightarrow> False"
  apply (simp add: OpenStream_def OpenStream_parameters_def ValidateAsioSpecificStreamInfo_def
      OpenStream_driver_def OpenStream_stream_def OpenStream_channelOffset_def
      OpenStream_bufferInfos_def OpenStream_framesPerHostBuffer_def ASIOCreateBuffers_def
      OpenStream_channelInfos_def OpenStream_bufferPtrs_def storeBufferPair_def storePtr_def
      exampleOpenEnv_def exampleOutputArgs_def exampleClosedState_def exampleDriver_def
      SelectHostBufferSize_def Let_def upt_conv_Cons)
  apply (simp add: eval_nat_numeral)
  done

theorem output_pointer_rows_overrun_witness:
  "(0 :: int) \<le> 0
   \<and> OpenStream_channelOffset 2
         (openAsioDriverInfo (asioHostApi
            (exampleClosedState\<lparr>asioHostApi :=
               (asioHostApi exampleClosedState)\<lparr>openAsioDriverInfo := exampleDriver 2\<rparr>\<rparr>)))
       = (0, 2)
   \<and> (0 :: int) < 2
   \<and> fst (OpenStream_bufferPtrs 0 2 0 2 (ASIOCreateBuffers (OpenStream_bufferInfos 0 2 None)))
       = None
   \<and> OpenStream WINDOWS (exampleOpenEnv 2) (exampleOutputArgs 2) exampleClosedState
       = UndefinedBehaviour"
proof -
  let ?state = "exampleClosedState\<lparr>asioHostApi :=
                  (asioHostApi exampleClosedState)\<lparr>openAsioDriverInfo := exampleDriver 2\<rparr>\<rparr>"
  have c: "OpenStream_channelOffset 2 (openAsioDriverInfo (asioHostApi ?state)) = (0, 2)"
    by (simp add: OpenStream_channelOffset_cases exampleDriver_def)
  from output_pointer_rows_overrun[OF _ c, of 0
      "ASIOCreateBuffers (OpenStream_bufferInfos 0 2 None)"]
  have "fst (OpenStream_bufferPtrs 0 2 0 2 (ASIOCreateBuffers (OpenStream_bufferInfos 0 2 None)))
          = None"
    by simp
  with c example_open_overruns show ?thesis by simp
qed

section \<open>Properties of the sample format converters\<close>

lemma bitFF00: "bit (0xFF00 :: 32 word) n \<longleftrightarrow> 8 \<le> n \<and> n < 16"
proof -
  have e: "(0xFF00 :: 32 word) = push_bit 8 (mask 8)" by (simp add: mask_eq_exp_minus_1)
  show ?thesis by (subst e) (auto simp add: bit_simps)
qed

lemma bitFF0000: "bit (0xFF0000 :: 32 word) n \<longleftrightarrow> 16 \<le> n \<and> n < 24"
proof -
  have e: "(0xFF0000 :: 32 word) = push_bit 16 (mask 8)" by (simp add: mask_eq_exp_minus_1)
  show ?thesis by (subst e) (auto simp add: bit_simps)
qed

lemma bit32_high: "32 \<le> m \<Longrightarrow> \<not> bit (x :: 32 word) m"
  using bit_imp_le_length[of x m] by auto

lemma swap32_byte3: "bit (drop_bit 24 (x :: 32 word)) n \<longleftrightarrow> n < 8 \<and> bit x (n + 24)"
  using bit32_high[of "n + 24" x] by (cases "n < 8") (simp_all add: bit_drop_bit_eq add.commute)

lemma swap32_byte2:
  "bit (drop_bit 8 (x :: 32 word) AND 0xFF00) n \<longleftrightarrow> 8 \<le> n \<and> n < 16 \<and> bit x (n + 8)"
  by (simp only: bit_and_iff bitFF00 bit_drop_bit_eq) (auto simp: add.commute)

lemma swap32_byte1:
  "bit (push_bit 8 (x :: 32 word) AND 0xFF0000) n \<longleftrightarrow> 16 \<le> n \<and> n < 24 \<and> bit x (n - 8)"
  by (simp only: bit_and_iff bitFF0000 bit_push_bit_iff) (auto simp: possible_bit_word)

lemma swap32_byte0:
  "bit (push_bit 24 (x :: 32 word)) n \<longleftrightarrow> 24 \<le> n \<and> n < 32 \<and> bit x (n - 24)"
  by (simp only: bit_push_bit_iff) (auto simp: possible_bit_word)

lemma bit_PA_SWAP32:
  "bit (PA_SWAP32 x) n \<longleftrightarrow>
     (n < 8 \<and> bit x (n + 24)) \<or> (8 \<le> n \<and> n < 16 \<and> bit x (n + 8))
     \<or> (16 \<le> n \<and> n < 24 \<and> bit x (n - 8)) \<or> (24 \<le> n \<and> n < 32 \<and> bit x (n - 24))"
  unfolding PA_SWAP32_def
  by (simp only: bit_or_iff swap32_byte3 swap32_byte2 swap32_byte1 swap32_byte0)

lemma PA_SWAP32_byte0: "n < 8 \<Longrightarrow> bit (PA_SWAP32 x) n = bit x (n + 24)"
  by (simp add: bit_PA_SWAP32)

lemma PA_SWAP32_byte1: "8 \<le> n \<Longrightarrow> n < 16 \<Longrightarrow> bit (PA_SWAP32 x) n = bit x (n + 8)"
  by (simp add: bit_PA_SWAP32)

lemma PA_SWAP32_byte2: "16 \<le> n \<Longrightarrow> n < 24 \<Longrightarrow> bit (PA_SWAP32 x) n = bit x (n - 8)"
  by (simp add: bit_PA_SWAP32)

lemma PA_SWAP32_byte3: "24 \<le> n \<Longrightarrow> n < 32 \<Longrightarrow> bit (PA_SWAP32 x) n = bit x (n - 24)"
  by (simp add: bit_PA_SWAP32)

lemma PA_SWAP32_twice: "PA_SWAP32 (PA_SWAP32 x) = x"
proof (rule bit_word_eqI)
  fix n assume "n < LENGTH(32)"
  then have n: "n < 32" by simp
  consider "n < 8" | "8 \<le> n" "n < 16" | "16 \<le> n" "n < 24" | "24 \<le> n" "n < 32"
    using n by linarith
  then show "bit (PA_SWAP32 (PA_SWAP32 x)) n = bit x n"
  proof cases
    case 1
    then have "bit (PA_SWAP32 (PA_SWAP32 x)) n = bit (PA_SWAP32 x) (n + 24)"
      by (rule PA_SWAP32_byte0)
    also have "\<dots> = bit x (n + 24 - 24)" using 1 by (intro PA_SWAP32_byte3) simp_all
    finally show ?thesis by simp
  next
    case 2
    then have "bit (PA_SWAP32 (PA_SWAP32 x)) n = bit (PA_SWAP32 x) (n + 8)"
      by (rule PA_SWAP32_byte1)
    also have "\<dots> = bit x (n + 8 - 8)" using 2 by (intro PA_SWAP32_byte2) simp_all
    finally show ?thesis by simp
  next
    case 3
    then have "bit (PA_SWAP32 (PA_SWAP32 x)) n = bit (PA_SWAP32 x) (n - 8)"
      by (rule PA_SWAP32_byte2)
    also have "\<dots> = bit x (n - 8 + 8)" using 3 by (intro PA_SWAP32_byte1) simp_all
    finally show ?thesis using 3 by simp
  next
    case 4
    then have "bit (PA_SWAP32 (PA_SWAP32 x)) n = bit (PA_SWAP32 x) (n - 24)"
      by (rule PA_SWAP32_byte3)
    also have "\<dots> = bit x (n - 24 + 24)" using 4 by (intro PA_SWAP32_byte0) simp_all
    finally show ?thesis using 4 by simp
  qed
qed

lemma swap16_twice:
  "push_bit 8 (drop_bit 8 temp) OR drop_bit 8 (push_bit 8 temp) = (temp :: 16 word)"
  by (rule bit_word_eqI) (auto simp add: bit_simps)

lemma shift_left_right:
  "n \<le> 32 \<Longrightarrow> drop_bit n (push_bit n (x :: 32 word)) = take_bit (32 - n) x"
  by (rule bit_word_eqI) (auto simp add: bit_simps)

lemma Swap16_twice: "Swap16 (Swap16 b shift count) shift count = b"
  by (induction b shift count rule: Swap16.induct) (simp_all add: swap16_twice)

lemma Swap24_twice: "Swap24 (Swap24 b shift count) shift count = b"
  by (induction b shift count rule: Swap24.induct) simp_all

lemma Swap32_twice: "Swap32 (Swap32 b shift count) shift count = b"
  by (induction b shift count rule: Swap32.induct) (simp_all add: PA_SWAP32_twice)

lemma ShiftRight32_ShiftLeft32:
  "unat shift \<le> 32 \<Longrightarrow>
   ShiftRight32 (ShiftLeft32 b shift count) shift count
     = map (take_bit (32 - unat shift)) (take count b) @ drop count b"
  by (induction b shift count rule: ShiftLeft32.induct) (simp_all add: shift_left_right)

lemma ShiftRightSwap32_SwapShiftLeft32:
  "unat shift \<le> 32 \<Longrightarrow>
   ShiftRightSwap32 (SwapShiftLeft32 b shift count) shift count
     = map (\<lambda>x. PA_SWAP32 (take_bit (32 - unat shift) (PA_SWAP32 x))) (take count b)
       @ drop count b"
  by (induction b shift count rule: SwapShiftLeft32.induct) (simp_all add: shift_left_right)


text \<open>
  C6 fails for the packed formats.  A sample of type \<open>ASIOSTInt32LSB16\<close> with bits set
  above bit 15 (here a sign-extended negative value) is shifted left by 16 on the way
  in and shifted right, logically, by 16 on the way out; its upper half comes back as
  zero.
\<close>

theorem packed_round_trip_counterexample:
  "integerSampleType ASIOSTInt32LSB16
   \<and> bufferOfType ASIOSTInt32LSB16 (Buffer32 [0xFFFF8000])
   \<and> convertRoundTrip WINDOWS ASIOSTInt32LSB16 (Buffer32 [0xFFFF8000]) 1
       = Some (Buffer32 [0x00008000])"
  by (simp add: integerSampleType_def convertRoundTrip_def PA_LSB_IS_NATIVE_def
      PA_MSB_IS_NATIVE_def)

text \<open>
  C6, amended.  For every integer sample type and every buffer of that type, the round
  trip through the two selected converters returns.  For the types with shift 0
  (\<open>Int16\<close>, \<open>Int24\<close> and \<open>Int32\<close> of either byte order) it gives the buffer back
  unchanged.  For the packed types (\<open>Int32MSB16\<close> to \<open>Int32LSB24\<close>, shift \<open>s\<close>) each of
  the first \<open>count\<close> samples comes back with the upper \<open>s\<close> bits of its value cleared,
  the value being read in the byte order of the type; the samples behind them are not
  touched.
\<close>

theorem integer_round_trip:
  assumes "integerSampleType t" and "bufferOfType t b"
  shows "convertRoundTrip p t b count =
     Some (if snd (SelectAsioToPaConverter p t) = 0 then b
           else case b of
             Buffer32 samples \<Rightarrow>
               Buffer32
                 (map (\<lambda>x. if fst (SelectAsioToPaConverter p t) = Some SwapShiftLeft32_ptr
                            then PA_SWAP32
                                   (take_bit (32 - unat (snd (SelectAsioToPaConverter p t)))
                                      (PA_SWAP32 x))
                            else take_bit (32 - unat (snd (SelectAsioToPaConverter p t))) x)
                    (take count samples)
                  @ drop count samples)
           | _ \<Rightarrow> b)"
  using assms
  by (cases t; cases p; cases b;
      simp add: integerSampleType_def convertRoundTrip_def PA_LSB_IS_NATIVE_def
        PA_MSB_IS_NATIVE_def Swap16_twice Swap24_twice Swap32_twice
        ShiftRight32_ShiftLeft32 ShiftRightSwap32_SwapShiftLeft32)

theorem integer_round_trip_witness:
  "integerSampleType ASIOSTInt32MSB24
   \<and> bufferOfType ASIOSTInt32MSB24 (Buffer32 [0x12345678, 0x9ABCDEF0])
   \<and> convertRoundTrip WINDOWS ASIOSTInt32MSB24 (Buffer32 [0x12345678, 0x9ABCDEF0]) 1
       = Some (Buffer32 [0x12345600, 0x9ABCDEF0])
   \<and> integerSampleType ASIOSTInt16MSB
   \<and> bufferOfType ASIOSTInt16MSB (Buffer16 [0x1234, 0x5678])
   \<and> convertRoundTrip WINDOWS ASIOSTInt16MSB (Buffer16 [0x1234, 0x5678]) 2
       = Some (Buffer16 [0x1234, 0x5678])"
proof -
  have a: "integerSampleType ASIOSTInt32MSB24"
    "bufferOfType ASIOSTInt32MSB24 (Buffer32 [0x12345678, 0x9ABCDEF0])"
    and b: "integerSampleType ASIOSTInt16MSB"
    "bufferOfType ASIOSTInt16MSB (Buffer16 [0x1234, 0x5678])"
    by (simp_all add: integerSampleType_def)
  have s: "PA_SWAP32 (take_bit 24 (PA_SWAP32 0x12345678)) = 0x12345600"
    by (simp add: PA_SWAP32_def take_bit_eq_mask mask_eq_exp_minus_1)
  from integer_round_trip[OF a, of WINDOWS 1] integer_round_trip[OF b, of WINDOWS 2] a b s
  show ?thesis by (simp add: PA_LSB_IS_NATIVE_def)
qed

section \<open>Properties of the blocking calls\<close>

lemma blockingTimeout_eight_blocks:
  assumes "8000 * framesPerUserBuffer stream < 2 ^ 32"
  shows "blockingTimeout stream = 8 * framesPerUserBuffer stream * 1000 div sampleRate stream"
proof -
  let ?n = "framesPerUserBuffer stream"
  have "(8 * (word_of_nat ?n) * 1000 :: 32 word) = word_of_nat (8000 * ?n)"
    by simp
  moreover have "unat (word_of_nat (8000 * ?n) :: 32 word) = 8000 * ?n mod 2 ^ 32"
    by (simp only: unat_of_nat) simp
  moreover have "8000 * ?n mod 2 ^ 32 = 8000 * ?n"
    using assms by (rule mod_less)
  ultimately have "unat (8 * (word_of_nat ?n) * 1000 :: 32 word) = 8000 * ?n"
    by (simp only:)
  then show ?thesis unfolding blockingTimeout_def by simp
qed








section \<open>Properties of the ring buffer transport\<close>








lemma ringStore_static [simp]:
  "bufferSize (ringStore rbuf i xs) = bufferSize rbuf"
  "readIndex (ringStore rbuf i xs) = readIndex rbuf"
  "writeIndex (ringStore rbuf i xs) = writeIndex rbuf"
  "length (buffer (ringStore rbuf i xs)) = length (buffer rbuf)"
  by (induction xs arbitrary: rbuf i) (simp_all add: ringPosition_def)

lemma ringWellFormed_buffer [simp]:
  "length b = length (buffer rbuf) \<Longrightarrow>
   ringWellFormed (rbuf\<lparr>buffer := b\<rparr>) = ringWellFormed rbuf"
  by (simp add: ringWellFormed_def PaUtil_GetRingBufferReadAvailable_def)

lemma ringWellFormed_ringStore [simp]:
  "ringWellFormed (ringStore rbuf i xs) = ringWellFormed rbuf"
  by (simp add: ringWellFormed_def PaUtil_GetRingBufferReadAvailable_def)





lemma length_ringFrames [simp]:
  "length (ringFrames rbuf) = PaUtil_GetRingBufferReadAvailable rbuf"
  by (simp add: ringFrames_def ringSlice_def)






section \<open>Properties of the blocking callback\<close>
















end
